theory Spec2Isabelle
  imports Main "HOL-Library.Word"
begin

section \<open>The meta-transaction relay: admission control and execution pipeline\<close>

text \<open>
  The repository holds two implementations of the same relay: the Node server
  (\<^verbatim>\<open>relayer-server.js\<close>, with the executor of \<^verbatim>\<open>meta-exec-lib/src/index.js\<close>) and
  the Go server (\<^verbatim>\<open>main.go\<close>). Both are embedded here, function by function, under the
  prefixes \<open>js_\<close> and \<open>go_\<close> where the two sources use the same name.

  Every network call (contract reads, fee data, gas estimation, submission, receipts)
  and every clock read is an input of the model: a record of the answers the outside
  world gives to one request. A call that rejects (JS) or returns an error (Go) is
  \<open>Inl message\<close>; a theorem quantifies over all such records.
\<close>

subsection \<open>Strings\<close>

text \<open>\<^verbatim>\<open>String.prototype.includes\<close> and \<^verbatim>\<open>strings.Contains\<close>: substring test.\<close>

fun starts_with :: "string \<Rightarrow> string \<Rightarrow> bool" where
  "starts_with s [] = True"
| "starts_with [] (p # ps) = False"
| "starts_with (c # cs) (p # ps) = (c = p \<and> starts_with cs ps)"

fun Contains :: "string \<Rightarrow> string \<Rightarrow> bool" where
  "Contains [] sub = (sub = [])"
| "Contains (c # cs) sub = (starts_with (c # cs) sub \<or> Contains cs sub)"

text \<open>ASCII lower-casing, as \<^verbatim>\<open>toLowerCase\<close> and \<^verbatim>\<open>strings.EqualFold\<close> act on
  hexadecimal address and hash strings.\<close>

definition lower_char :: "char \<Rightarrow> char" where
  "lower_char c =
     (case map_of (zip ''ABCDEFGHIJKLMNOPQRSTUVWXYZ'' ''abcdefghijklmnopqrstuvwxyz'') c of
        None \<Rightarrow> c
      | Some l \<Rightarrow> l)"

definition toLowerCase :: "string \<Rightarrow> string" where
  "toLowerCase s = map lower_char s"

text \<open>\<^verbatim>\<open>strings.TrimPrefix\<close>.\<close>

definition TrimPrefix :: "string \<Rightarrow> string \<Rightarrow> string" where
  "TrimPrefix s p = (if starts_with s p then drop (length p) s else s)"

subsection \<open>Responses and the trace of effects\<close>

text \<open>
  A response is the HTTP status with the \<^verbatim>\<open>error\<close> text, or the success body
  (\<^verbatim>\<open>txHash\<close>, \<^verbatim>\<open>blockNumber\<close>, \<^verbatim>\<open>gasUsed\<close>). The optional \<^verbatim>\<open>details\<close> field is left out.
\<close>

datatype response =
    ErrorResponse nat string
  | SuccessResponse string nat nat

text \<open>The effects a handler has on the outside world and on the processed-requests
  store, in the order they happen.\<close>

datatype event =
    EvProbe            \<comment> \<open>the \<^verbatim>\<open>minted(address)\<close> query\<close>
  | EvFeeFetch         \<comment> \<open>\<^verbatim>\<open>getFeeData\<close> / \<^verbatim>\<open>SuggestGasPrice\<close> of the fee gate\<close>
  | EvExecutor         \<comment> \<open>\<^verbatim>\<open>executeForward\<close> / \<^verbatim>\<open>executeMetaTransaction\<close> is entered\<close>
  | EvEstimateGas      \<comment> \<open>\<^verbatim>\<open>estimateGas\<close> / \<^verbatim>\<open>EstimateGas\<close>\<close>
  | EvSend nat         \<comment> \<open>the transaction is submitted, with this gas limit\<close>
  | EvMark string      \<comment> \<open>the request id is put into the processed-requests store\<close>
  | EvWait             \<comment> \<open>\<^verbatim>\<open>tx.wait()\<close> / \<^verbatim>\<open>waitForReceipt\<close>\<close>

text \<open>The error vocabulary of the specification, as the two servers word it.\<close>

definition MissingFields :: response where
  "MissingFields = ErrorResponse 400 ''Missing required fields: forward, signature, callData''"

definition RateLimited :: response where
  "RateLimited = ErrorResponse 429 ''Too many requests. Please try again later.''"

definition DuplicateRequest :: response where
  "DuplicateRequest = ErrorResponse 400 ''This request has already been processed''"

definition InvalidTarget :: response where
  "InvalidTarget = ErrorResponse 400 ''Invalid target contract''"

definition InvalidCaller :: response where
  "InvalidCaller = ErrorResponse 400 ''Invalid caller address''"

definition HashMismatch :: response where
  "HashMismatch = ErrorResponse 400 ''DataHash mismatch - signature invalid''"

definition Expired :: response where
  "Expired = ErrorResponse 400 ''Transaction deadline expired''"

definition FeeTooHigh :: response where
  "FeeTooHigh = ErrorResponse 503 ''Network gas prices too high. Please try again later.''"

text \<open>The fee ceiling: \<^verbatim>\<open>ethers.parseUnits('100', 'gwei')\<close> in the Node server,
  \<^verbatim>\<open>big.NewInt(100) * big.NewInt(1e9)\<close> in \<^verbatim>\<open>loadConfig\<close>.\<close>

definition MAX_GAS_PRICE :: int where
  "MAX_GAS_PRICE = 100 * 1000000000"

text \<open>The error-text classification shared by the \<^verbatim>\<open>catch\<close> block of the Node server
  and \<^verbatim>\<open>parseError\<close> of the Go server.\<close>

definition parseError :: "string \<Rightarrow> string" where
  "parseError errMsg =
     (if Contains errMsg ''Already minted'' then ''This address has already minted an NFT''
      else if Contains errMsg ''insufficient funds'' then ''Relayer has insufficient funds''
      else if Contains errMsg ''nonce'' then ''Invalid nonce or nonce already used''
      else if Contains errMsg ''signature'' then ''Invalid signature''
      else if Contains errMsg ''deadline'' then ''Transaction deadline expired''
      else if Contains errMsg ''dataHash'' then ''Invalid data hash''
      else if Contains errMsg ''caller'' then ''Invalid caller address''
      else ''Transaction failed'')"

subsection \<open>The Node server: rate limiter\<close>

definition RATE_LIMIT_WINDOW :: int where
  "RATE_LIMIT_WINDOW = 60 * 1000"

definition MAX_REQUESTS_PER_WINDOW :: nat where
  "MAX_REQUESTS_PER_WINDOW = 5"

definition CACHE_DURATION :: int where
  "CACHE_DURATION = 5 * 60 * 1000"

text \<open>\<^verbatim>\<open>checkRateLimit(address)\<close>; \<open>now\<close> is \<^verbatim>\<open>Date.now()\<close> in milliseconds. The map
  is only written when the request is admitted.\<close>

text \<open>The timestamps a map holds for an address: \<^verbatim>\<open>rateLimits.get(address) || []\<close>, and
  the nil slice a Go map gives for a missing key.\<close>

definition stamps_of :: "(string \<rightharpoonup> int list) \<Rightarrow> string \<Rightarrow> int list" where
  "stamps_of m address = (case m address of None \<Rightarrow> [] | Some l \<Rightarrow> l)"

definition js_checkRateLimit ::
  "int \<Rightarrow> (string \<rightharpoonup> int list) \<Rightarrow> string \<Rightarrow> bool \<times> (string \<rightharpoonup> int list)" where
  "js_checkRateLimit now rateLimits address =
     (let userLimits = stamps_of rateLimits address;
          recentRequests = filter (\<lambda>time. now - time < RATE_LIMIT_WINDOW) userLimits
      in if length recentRequests \<ge> MAX_REQUESTS_PER_WINDOW then (False, rateLimits)
         else (True, rateLimits(address \<mapsto> recentRequests @ [now])))"

subsection \<open>The Go server: rate limiter\<close>

text \<open>A \<^verbatim>\<open>time.Time\<close> is its number of nanoseconds since the epoch; \<^verbatim>\<open>Unix()\<close> is the
  number of whole seconds.\<close>

definition Unix :: "int \<Rightarrow> int" where
  "Unix t = t div 1000000000"

definition rateLimitWindow :: int where
  "rateLimitWindow = 60 * 1000000000"

definition cacheDuration :: int where
  "cacheDuration = 5 * 60 * 1000000000"

definition maxRequestsPerWindow :: nat where
  "maxRequestsPerWindow = 5"

text \<open>\<^verbatim>\<open>checkRateLimit\<close>, run under \<^verbatim>\<open>rateLimit.mu\<close>; \<open>t\<close> is \<^verbatim>\<open>time.Now()\<close>, and the
  stored timestamps are whole seconds. \<^verbatim>\<open>int64(rateLimitWindow.Seconds())\<close> is 60.\<close>

definition go_checkRateLimit ::
  "int \<Rightarrow> (string \<rightharpoonup> int list) \<Rightarrow> string \<Rightarrow> bool \<times> (string \<rightharpoonup> int list)" where
  "go_checkRateLimit t requests address =
     (let now = Unix t;
          reqs = stamps_of requests address;
          recentRequests = filter (\<lambda>reqTime. now - reqTime < rateLimitWindow div 1000000000) reqs
      in if length recentRequests \<ge> maxRequestsPerWindow then (False, requests)
         else (True, requests(address \<mapsto> recentRequests @ [now])))"

subsection \<open>The Node server: data model\<close>

text \<open>
  The \<^verbatim>\<open>forward\<close> object of the request body. \<^verbatim>\<open>nonce\<close> is held as the text
  the template literal \<^verbatim>\<open>`${forward.nonce}`\<close> renders. \<^verbatim>\<open>from\<close>, \<^verbatim>\<open>to\<close> and \<^verbatim>\<open>caller\<close>
  are strings and \<^verbatim>\<open>deadline\<close> is an integer; \<^verbatim>\<open>dataHash\<close>, \<^verbatim>\<open>signature\<close> and
  \<^verbatim>\<open>callData\<close> are tested for truthiness before they are used, so that an absent one
  and an empty one (both falsy in JavaScript) are the empty string.
\<close>

record js_forward =
  fwd_from :: string
  fwd_to :: string
  fwd_value :: int
  fwd_space :: int
  fwd_nonce :: string
  fwd_deadline :: int
  fwd_dataHash :: string
  fwd_caller :: string

record js_body =
  forward :: "js_forward option"
  signature :: string
  callData :: string

record js_config =
  NFT_CONTRACT :: string
  HUB_ADDRESS :: string
  relayerWallet_address :: string

text \<open>\<^verbatim>\<open>processedRequests\<close> (a \<^verbatim>\<open>Set\<close>), the pending \<^verbatim>\<open>setTimeout\<close> deletions
  (due time in milliseconds, request id) and \<^verbatim>\<open>rateLimits\<close> (a \<^verbatim>\<open>Map\<close>).\<close>

record js_state =
  processedRequests :: "string set"
  timers :: "(int \<times> string) list"
  rateLimits :: "string \<rightharpoonup> int list"

record js_receipt =
  blockNumber :: nat
  gasUsed :: nat

text \<open>What the outside world answers to one request of the Node server.\<close>

record js_env =
  now_checkRateLimit :: int           \<comment> \<open>\<^verbatim>\<open>Date.now()\<close> in \<^verbatim>\<open>checkRateLimit\<close>\<close>
  now_deadline :: int                 \<comment> \<open>\<^verbatim>\<open>Date.now()\<close> at the deadline check\<close>
  now_mark :: int                     \<comment> \<open>the time at which \<^verbatim>\<open>setTimeout\<close> is called\<close>
  keccak256 :: "string \<Rightarrow> string + string"   \<comment> \<open>\<^verbatim>\<open>ethers.keccak256\<close>; throws on non-hex input\<close>
  minted :: "string + bool"           \<comment> \<open>\<^verbatim>\<open>await nftContract.minted(userAddress)\<close>\<close>
  getFeeData :: "string + int option" \<comment> \<open>\<^verbatim>\<open>(await provider.getFeeData()).gasPrice\<close>, \<^verbatim>\<open>null\<close> is \<open>None\<close>\<close>
  getAddress :: "string + string"     \<comment> \<open>\<^verbatim>\<open>ethers.getAddress(metaAddress)\<close>; throws on a malformed address\<close>
  encodeFunctionData :: "string + string"
  isCallerAllowed :: "string + bool"
  estimateGas :: "string + nat"
  sendTransaction :: "string + string" \<comment> \<open>\<^verbatim>\<open>tx.hash\<close> of the submitted transaction\<close>
  wait :: "string + js_receipt"       \<comment> \<open>\<^verbatim>\<open>await tx.wait()\<close>: the receipt, or the error thrown\<close>
  wait_settles :: "nat option"        \<comment> \<open>milliseconds until the promise of \<^verbatim>\<open>tx.wait()\<close> settles; \<open>None\<close>: never\<close>

subsection \<open>The Node executor: \<^verbatim>\<open>executeForward\<close> of meta-exec-lib\<close>

text \<open>Of the \<^verbatim>\<open>overrides\<close> object only \<^verbatim>\<open>gasLimit\<close> changes the control flow; the
  other entries are handed to \<^verbatim>\<open>sendTransaction\<close> as they are.\<close>

record js_overrides =
  gasLimit :: "nat option"

text \<open>
  \<open>caller\<close> is the last entry of \<^verbatim>\<open>fTuple\<close>. \<^verbatim>\<open>META_ABI\<close> lists
  \<^verbatim>\<open>isCallerAllowed\<close>, so \<^verbatim>\<open>meta.interface.getFunction("isCallerAllowed")\<close> is truthy.
  \<^verbatim>\<open>relayer.getAddress()\<close> of a wallet returns its address. The result is the hash of the
  transaction sent, or the message of the error thrown.
\<close>

definition executeForward ::
  "js_env \<Rightarrow> string \<Rightarrow> js_overrides \<Rightarrow> bool \<Rightarrow> bool \<Rightarrow> (string + string) \<times> event list" where
  "executeForward env caller overrides hasCaller checkAllowlist =
     (case getAddress env of
        Inl msg \<Rightarrow> (Inl msg, [EvExecutor])
      | Inr metaAddr \<Rightarrow>
     (case encodeFunctionData env of
        Inl msg \<Rightarrow> (Inl msg, [EvExecutor])
      | Inr execData \<Rightarrow>
          if execData = [] \<or> execData = ''0x'' then (Inl ''Empty execData.'', [EvExecutor])
          else
            (case (if checkAllowlist \<and> hasCaller then isCallerAllowed env else Inr True) of
               Inl msg \<Rightarrow> (Inl msg, [EvExecutor])
             | Inr allowed \<Rightarrow>
                 if \<not> allowed then (Inl (''Caller '' @ caller @ '' not allowed''), [EvExecutor])
                 else
                   (case gasLimit overrides of
                      Some g \<Rightarrow>
                        (sendTransaction env, [EvExecutor, EvSend g])
                    | None \<Rightarrow>
                        (case estimateGas env of
                           Inl msg \<Rightarrow> (Inl msg, [EvExecutor, EvEstimateGas])
                         | Inr g \<Rightarrow>
                             (sendTransaction env, [EvExecutor, EvEstimateGas, EvSend g]))))))"

subsection \<open>The Node server: \<^verbatim>\<open>POST /relay\<close>\<close>

text \<open>The \<^verbatim>\<open>catch\<close> block: status 500 with the classified message.\<close>

definition js_catch :: "string \<Rightarrow> response" where
  "js_catch message = ErrorResponse 500 (parseError message)"

definition js_AlreadyMinted :: response where
  "js_AlreadyMinted = ErrorResponse 400 ''    ed an NFT''"

text \<open>\<^verbatim>\<open>new Date(ms).toISOString()\<close> of the logging line throws a \<^verbatim>\<open>RangeError\<close>
  outside the range of ECMAScript time values.\<close>

definition valid_time_value :: "int \<Rightarrow> bool" where
  "valid_time_value ms = (\<bar>ms\<bar> \<le> 8640000000000000)"

text \<open>
  The synchronous part of the handler, from the field check to the deadline check
  (no \<^verbatim>\<open>await\<close> in between): it ends with a response, or admits the request with
  its request id.
\<close>

definition js_admission ::
  "js_config \<Rightarrow> js_env \<Rightarrow> js_state \<Rightarrow> js_body \<Rightarrow> (response + js_forward \<times> string) \<times> js_state" where
  "js_admission cfg env st body =
     (case forward body of
        None \<Rightarrow> (Inl MissingFields, st)
      | Some fwd \<Rightarrow>
          if signature body = [] \<or> callData body = [] then (Inl MissingFields, st)
          else if \<not> valid_time_value (fwd_deadline fwd * 1000)
            then (Inl (js_catch ''Invalid time value''), st)
          else
            (let userAddress = fwd_from fwd;
                 checked = js_checkRateLimit (now_checkRateLimit env) (rateLimits st) userAddress;
                 st1 = st\<lparr>rateLimits := snd checked\<rparr>
             in if \<not> fst checked then (Inl RateLimited, st1)
                else
                  (let requestId = userAddress @ ''-'' @ fwd_nonce fwd
                   in if requestId \<in> processedRequests st1 then (Inl DuplicateRequest, st1)
                      else if toLowerCase (fwd_to fwd) \<noteq> toLowerCase (NFT_CONTRACT cfg)
                        then (Inl InvalidTarget, st1)
                      else if toLowerCase (fwd_caller fwd) \<noteq> toLowerCase (relayerWallet_address cfg)
                        then (Inl InvalidCaller, st1)
                      else
                        (case keccak256 env (callData body) of
                           Inl msg \<Rightarrow> (Inl (js_catch msg), st1)
                         | Inr computedHash \<Rightarrow>
                             if fwd_dataHash fwd \<noteq> [] \<and>
                                toLowerCase computedHash \<noteq> toLowerCase (fwd_dataHash fwd)
                               then (Inl HashMismatch, st1)
                             else
                               (let now = now_deadline env div 1000
                                in if now > fwd_deadline fwd then (Inl Expired, st1)
                                   else (Inr (fwd, requestId), st1))))))"

text \<open>The awaited part up to the submission: the already-minted probe, the fee gate
  and the executor. It does not touch the server's state.\<close>

definition js_probe_fee_execute ::
  "js_env \<Rightarrow> js_forward \<Rightarrow> (response + string) \<times> event list" where
  "js_probe_fee_execute env fwd =
     (case minted env of
        Inl msg \<Rightarrow> (Inl (js_catch msg), [EvProbe])
      | Inr hasMinted \<Rightarrow>
          if hasMinted then (Inl js_AlreadyMinted, [EvProbe])
          else
            (case getFeeData env of
               Inl msg \<Rightarrow> (Inl (js_catch msg), [EvProbe, EvFeeFetch])
             | Inr gasPrice \<Rightarrow>
                 if (case gasPrice of None \<Rightarrow> False | Some p \<Rightarrow> p > MAX_GAS_PRICE)
                   then (Inl FeeTooHigh, [EvProbe, EvFeeFetch])
                 else
                   (case executeForward env (fwd_caller fwd) \<lparr>gasLimit = None\<rparr> True True of
                      (Inl msg, evs) \<Rightarrow> (Inl (js_catch msg), [EvProbe, EvFeeFetch] @ evs)
                    | (Inr tx, evs) \<Rightarrow> (Inr tx, [EvProbe, EvFeeFetch] @ evs))))"

text \<open>\<^verbatim>\<open>processedRequests.add(requestId)\<close> with its \<^verbatim>\<open>setTimeout\<close>.\<close>

definition js_mark :: "js_env \<Rightarrow> js_state \<Rightarrow> string \<Rightarrow> js_state" where
  "js_mark env st requestId =
     st\<lparr>processedRequests := insert requestId (processedRequests st),
        timers := timers st @ [(now_mark env + CACHE_DURATION, requestId)]\<rparr>"

text \<open>\<^verbatim>\<open>await tx.wait()\<close> and the response.\<close>

definition js_confirm :: "js_env \<Rightarrow> string \<Rightarrow> response" where
  "js_confirm env tx =
     (case wait env of
        Inl msg \<Rightarrow> js_catch msg
      | Inr receipt \<Rightarrow> SuccessResponse tx (blockNumber receipt) (gasUsed receipt))"

text \<open>
  The same with the time. The handler is suspended at \<^verbatim>\<open>await tx.wait()\<close> until the
  promise settles, and sets no timer of its own; \<^verbatim>\<open>wait\<close> is called without arguments,
  so without a timeout. The result is the time after the submission at which the
  handler answers, with the answer, and \<open>None\<close> when the promise never settles.
\<close>

definition js_confirm_at :: "js_env \<Rightarrow> string \<Rightarrow> (nat \<times> response) option" where
  "js_confirm_at env tx =
     (case wait_settles env of
        None \<Rightarrow> None
      | Some ms \<Rightarrow> Some (ms, js_confirm env tx))"

text \<open>The whole handler, run without interruption: the response, the state it
  leaves and the trace of its effects.\<close>

definition js_relay ::
  "js_config \<Rightarrow> js_env \<Rightarrow> js_state \<Rightarrow> js_body \<Rightarrow> response \<times> js_state \<times> event list" where
  "js_relay cfg env st body =
     (case js_admission cfg env st body of
        (Inl r, st1) \<Rightarrow> (r, st1, [])
      | (Inr (fwd, requestId), st1) \<Rightarrow>
          (case js_probe_fee_execute env fwd of
             (Inl r, evs) \<Rightarrow> (r, st1, evs)
           | (Inr tx, evs) \<Rightarrow>
               (js_confirm env tx, js_mark env st1 requestId,
                evs @ [EvMark requestId, EvWait])))"

text \<open>The timers that are due at \<open>now\<close> run: each deletes its request id.\<close>

definition js_fire_timers :: "int \<Rightarrow> js_state \<Rightarrow> js_state" where
  "js_fire_timers now st =
     st\<lparr>processedRequests :=
          processedRequests st - snd ` set (filter (\<lambda>d. fst d \<le> now) (timers st)),
        timers := filter (\<lambda>d. \<not> fst d \<le> now) (timers st)\<rparr>"

text \<open>The \<^verbatim>\<open>setInterval\<close> sweep of the rate-limit map.\<close>

definition js_sweep :: "int \<Rightarrow> js_state \<Rightarrow> js_state" where
  "js_sweep now st =
     st\<lparr>rateLimits := (\<lambda>address.
          case rateLimits st address of
            None \<Rightarrow> None
          | Some stamps \<Rightarrow>
              (let recent = filter (\<lambda>time. now - time < RATE_LIMIT_WINDOW) stamps
               in if length recent = 0 then None else Some recent))\<rparr>"

subsection \<open>The Go server: library functions\<close>

type_synonym bytes = "8 word list"

text \<open>\<^verbatim>\<open>hex.DecodeString\<close>: pairs of hexadecimal digits, read from the left. The
  error text of an invalid byte is given without the offending rune.\<close>

definition hex_digit :: "char \<Rightarrow> nat option" where
  "hex_digit c =
     (let n = (of_char c :: nat)
      in if 48 \<le> n \<and> n \<le> 57 then Some (n - 48)
         else if 97 \<le> n \<and> n \<le> 102 then Some (n - 87)
         else if 65 \<le> n \<and> n \<le> 70 then Some (n - 55)
         else None)"

fun DecodeString :: "string \<Rightarrow> string + bytes" where
  "DecodeString [] = Inr []"
| "DecodeString [c] =
     (case hex_digit c of
        None \<Rightarrow> Inl ''encoding/hex: invalid byte''
      | Some x \<Rightarrow> Inl ''encoding/hex: odd length hex string'')"
| "DecodeString (a # b # cs) =
     (case hex_digit a of
        None \<Rightarrow> Inl ''encoding/hex: invalid byte''
      | Some x \<Rightarrow>
          (case hex_digit b of
             None \<Rightarrow> Inl ''encoding/hex: invalid byte''
           | Some y \<Rightarrow>
               (case DecodeString cs of
                  Inl err \<Rightarrow> Inl err
                | Inr rest \<Rightarrow> Inr (of_nat (16 * x + y) # rest))))"

text \<open>\<^verbatim>\<open>(*big.Int).Int64\<close> of math/big: the low 64 bits of the absolute value read as
  an \<^verbatim>\<open>int64\<close>, negated (in \<^verbatim>\<open>int64\<close>) when the number is negative. It is the number
  itself exactly when that fits 64 signed bits.\<close>

definition Int64 :: "int \<Rightarrow> int" where
  "Int64 x =
     (let v = (word_of_int \<bar>x\<bar> :: 64 word) in sint (if x < 0 then - v else v))"

text \<open>\<^verbatim>\<open>(*big.Int).String\<close>: the decimal text.\<close>

function nat_String :: "nat \<Rightarrow> string" where
  "nat_String n =
     (if n < 10 then [''0123456789'' ! n]
      else nat_String (n div 10) @ [''0123456789'' ! (n mod 10)])"
  by pat_completeness auto
termination
  by (relation "measure (\<lambda>n. n)") auto

declare nat_String.simps [simp del]

definition big_String :: "int \<Rightarrow> string" where
  "big_String i = (if i < 0 then CHR ''-'' # nat_String (nat (- i)) else nat_String (nat i))"

subsection \<open>The Go server: data model\<close>

text \<open>The request as \<^verbatim>\<open>json.Decode\<close> delivers it, with its three \<^verbatim>\<open>*big.Int\<close> fields
  present: \<^verbatim>\<open>value\<close>, \<^verbatim>\<open>nonce\<close> and \<^verbatim>\<open>deadline\<close> are unbounded integers, addresses and
  the hash are byte strings.\<close>

record go_Forward =
  From :: bytes
  To :: bytes
  Value :: int
  Space :: "32 word"
  Nonce :: int
  Deadline :: int
  DataHash :: bytes
  Caller :: bytes

record RelayRequest =
  Forward :: go_Forward
  Signature :: string
  CallData :: string

text \<open>The configuration, with the relayer's address and the two functions of
  go-ethereum the handler computes with: \<^verbatim>\<open>common.Address.Hex\<close> and
  \<^verbatim>\<open>crypto.Keccak256Hash\<close>.\<close>

record go_Config =
  Hex :: "bytes \<Rightarrow> string"
  Keccak256Hash :: "bytes \<Rightarrow> bytes"
  NFTContract :: bytes
  HubAddress :: bytes
  relayerAddress :: bytes

text \<open>The mutable part of \<^verbatim>\<open>Server\<close>: \<^verbatim>\<open>processedRequests\<close> (request id to the
  \<^verbatim>\<open>time.Time\<close> of the mark) and \<^verbatim>\<open>rateLimit.requests\<close>.\<close>

record Server =
  Server_processedRequests :: "string \<rightharpoonup> int"
  rateLimit_requests :: "string \<rightharpoonup> int list"

record Receipt =
  Status :: "64 word"
  BlockNumber :: nat
  GasUsed :: nat

text \<open>What the outside world answers to one request of the Go server. The \<open>i\<close>-th
  call of \<^verbatim>\<open>TransactionReceipt\<close> takes some milliseconds and finds the receipt or not.\<close>

record go_env =
  Now_checkRateLimit :: int          \<comment> \<open>\<^verbatim>\<open>time.Now()\<close> in \<^verbatim>\<open>checkRateLimit\<close>\<close>
  Now_deadline :: int                \<comment> \<open>\<^verbatim>\<open>time.Now()\<close> at the deadline check\<close>
  Now_markProcessed :: int           \<comment> \<open>\<^verbatim>\<open>time.Now()\<close> in \<^verbatim>\<open>markProcessed\<close>\<close>
  checkAlreadyMinted :: "string + bool"
  gate_SuggestGasPrice :: "string + int"
  Pack :: "string option"
  PendingNonceAt :: "string + nat"
  SuggestGasPrice :: "string + int"
  EstimateGas :: "string + 64 word"
  SignTx :: "string option"
  SendTransaction :: "string option"
  signedTx_Hash :: string
  TransactionReceipt :: "nat \<Rightarrow> nat \<times> Receipt option"

subsection \<open>The Go server: \<^verbatim>\<open>waitForReceipt\<close>\<close>

text \<open>
  Time is counted in milliseconds from the creation of the context, whose deadline
  is two minutes away. A call of \<^verbatim>\<open>TransactionReceipt\<close> that is still running at the
  deadline is cut off there by the context; after a call without receipt the
  \<^verbatim>\<open>select\<close> returns the timeout when the deadline comes before the two seconds of
  \<^verbatim>\<open>time.After\<close> are over. The result comes with the times at which the polls
  started and the time at which the function returns.
\<close>

definition ctx_timeout :: nat where
  "ctx_timeout = 2 * 60 * 1000"

definition poll_interval :: nat where
  "poll_interval = 2 * 1000"

definition timeout_error :: string where
  "timeout_error = ''timeout waiting for transaction receipt''"

function poll_loop ::
  "(nat \<Rightarrow> nat \<times> Receipt option) \<Rightarrow> nat \<Rightarrow> nat \<Rightarrow> (string + Receipt) \<times> nat list \<times> nat" where
  "poll_loop rpc i t =
     (if ctx_timeout \<le> t then (Inl timeout_error, [t], t)
      else if ctx_timeout < t + fst (rpc i) then (Inl timeout_error, [t], ctx_timeout)
      else
        (case snd (rpc i) of
           Some receipt \<Rightarrow> (Inr receipt, [t], t + fst (rpc i))
         | None \<Rightarrow>
             if ctx_timeout \<le> t + fst (rpc i) + poll_interval
               then (Inl timeout_error, [t], ctx_timeout)
             else
               (case poll_loop rpc (Suc i) (t + fst (rpc i) + poll_interval) of
                  (res, starts, finish) \<Rightarrow> (res, t # starts, finish))))"
  by pat_completeness auto
termination
  by (relation "measure (\<lambda>(rpc, i, t). ctx_timeout - t)") (auto simp: poll_interval_def)

declare poll_loop.simps [simp del]

definition waitForReceipt :: "(nat \<Rightarrow> nat \<times> Receipt option) \<Rightarrow> string + Receipt" where
  "waitForReceipt rpc = fst (poll_loop rpc 0 0)"

subsection \<open>The Go executor: \<^verbatim>\<open>executeMetaTransaction\<close>\<close>

text \<open>The gas limit of the transaction: the estimate times 120 over 100 in
  \<^verbatim>\<open>uint64\<close>, or 500000 when \<^verbatim>\<open>EstimateGas\<close> fails.\<close>

definition go_gasLimit :: "string + 64 word \<Rightarrow> 64 word" where
  "go_gasLimit estimate =
     (case estimate of
        Inl err \<Rightarrow> 500000
      | Inr estimatedGas \<Rightarrow> estimatedGas * 120 div 100)"

text \<open>The result is \<^verbatim>\<open>(txHash, blockNumber, gasUsed)\<close> or the text of the error.
  \<^verbatim>\<open>abi.JSON(hubABI)\<close> parses a constant and cannot fail.\<close>

definition executeMetaTransaction ::
  "go_env \<Rightarrow> RelayRequest \<Rightarrow> (string + string \<times> nat \<times> nat) \<times> event list" where
  "executeMetaTransaction env req =
     (case DecodeString (TrimPrefix (Signature req) ''0x'') of
        Inl err \<Rightarrow> (Inl (''invalid signature format: '' @ err), [EvExecutor])
      | Inr sigBytes \<Rightarrow>
     (case DecodeString (TrimPrefix (CallData req) ''0x'') of
        Inl err \<Rightarrow> (Inl (''invalid callData format: '' @ err), [EvExecutor])
      | Inr callDataBytes \<Rightarrow>
     (case Pack env of
        Some err \<Rightarrow> (Inl (''failed to pack execute: '' @ err), [EvExecutor])
      | None \<Rightarrow>
     (case PendingNonceAt env of
        Inl err \<Rightarrow> (Inl (''failed to get nonce: '' @ err), [EvExecutor])
      | Inr nonce \<Rightarrow>
     (case SuggestGasPrice env of
        Inl err \<Rightarrow> (Inl (''failed to get gas price: '' @ err), [EvExecutor])
      | Inr gasPrice \<Rightarrow>
     (let estimatedGas = go_gasLimit (EstimateGas env)
      in
     (case SignTx env of
        Some err \<Rightarrow>
          (Inl (''failed to sign transaction: '' @ err), [EvExecutor, EvEstimateGas])
      | None \<Rightarrow>
     (case SendTransaction env of
        Some err \<Rightarrow>
          (Inl (''failed to send transaction: '' @ err),
           [EvExecutor, EvEstimateGas, EvSend (unat estimatedGas)])
      | None \<Rightarrow>
     (case waitForReceipt (TransactionReceipt env) of
        Inl err \<Rightarrow>
          (Inl (''failed to get receipt: '' @ err),
           [EvExecutor, EvEstimateGas, EvSend (unat estimatedGas), EvWait])
      | Inr receipt \<Rightarrow>
          if Status receipt = 0
            then (Inl ''transaction reverted by contract'',
                  [EvExecutor, EvEstimateGas, EvSend (unat estimatedGas), EvWait])
          else (Inr (signedTx_Hash env, BlockNumber receipt, GasUsed receipt),
                [EvExecutor, EvEstimateGas, EvSend (unat estimatedGas), EvWait]))))))))))"

subsection \<open>The Go server: \<^verbatim>\<open>relayHandler\<close>\<close>

definition bytes32Equal :: "go_Config \<Rightarrow> bytes \<Rightarrow> bytes \<Rightarrow> bool" where
  "bytes32Equal cfg a b = (toLowerCase (Hex cfg a) = toLowerCase (Hex cfg b))"

definition requestID :: "go_Config \<Rightarrow> RelayRequest \<Rightarrow> string" where
  "requestID cfg req = Hex cfg (From (Forward req)) @ ''-'' @ big_String (Nonce (Forward req))"

definition isProcessed :: "Server \<Rightarrow> string \<Rightarrow> bool" where
  "isProcessed s rid = (Server_processedRequests s rid \<noteq> None)"

definition markProcessed :: "int \<Rightarrow> Server \<Rightarrow> string \<Rightarrow> Server" where
  "markProcessed now s rid =
     s\<lparr>Server_processedRequests := (Server_processedRequests s)(rid \<mapsto> now)\<rparr>"

text \<open>The field check and the rate limiter (one critical section of \<^verbatim>\<open>rateLimit.mu\<close>).\<close>

definition go_rate_gate ::
  "go_Config \<Rightarrow> go_env \<Rightarrow> Server \<Rightarrow> RelayRequest \<Rightarrow> response option \<times> Server" where
  "go_rate_gate cfg env s req =
     (if Signature req = [] \<or> CallData req = [] then (Some MissingFields, s)
      else
        (let checked = go_checkRateLimit (Now_checkRateLimit env) (rateLimit_requests s)
                         (Hex cfg (From (Forward req)));
             s1 = s\<lparr>rateLimit_requests := snd checked\<rparr>
         in if \<not> fst checked then (Some RateLimited, s1) else (None, s1)))"

text \<open>The duplicate check (a read under \<^verbatim>\<open>reqMutex\<close>) and the gates computed from
  the request alone: target, caller, hash and deadline.\<close>

definition go_sync_gates ::
  "go_Config \<Rightarrow> go_env \<Rightarrow> Server \<Rightarrow> RelayRequest \<Rightarrow> response option" where
  "go_sync_gates cfg env s req =
     (if isProcessed s (requestID cfg req) then Some DuplicateRequest
      else if \<not> bytes32Equal cfg (To (Forward req)) (NFTContract cfg) then Some InvalidTarget
      else if \<not> bytes32Equal cfg (Caller (Forward req)) (relayerAddress cfg)
        then Some InvalidCaller
      else
        (case DecodeString (TrimPrefix (CallData req) ''0x'') of
           Inl err \<Rightarrow> Some (ErrorResponse 400 ''Invalid callData format'')
         | Inr callDataBytes \<Rightarrow>
             (let computedHash = Keccak256Hash cfg callDataBytes;
                  receivedHash = DataHash (Forward req)
              in if computedHash \<noteq> receivedHash then Some HashMismatch
                 else
                   (let now = Unix (Now_deadline env)
                    in if now > Int64 (Deadline (Forward req)) then Some Expired
                       else None))))"

text \<open>The already-minted probe, the fee gate (skipped when the fee cannot be
  fetched) and the executor.\<close>

definition go_probe_fee_execute ::
  "go_env \<Rightarrow> RelayRequest \<Rightarrow> (response + string \<times> nat \<times> nat) \<times> event list" where
  "go_probe_fee_execute env req =
     (case checkAlreadyMinted env of
        Inl err \<Rightarrow> (Inl (ErrorResponse 500 ''Failed to verify minting status''), [EvProbe])
      | Inr hasMinted \<Rightarrow>
          if hasMinted then (Inl (ErrorResponse 400 ''You already minted an NFT''), [EvProbe])
          else if (case gate_SuggestGasPrice env of
                     Inl err \<Rightarrow> False
                   | Inr gasPrice \<Rightarrow> gasPrice > MAX_GAS_PRICE)
            then (Inl FeeTooHigh, [EvProbe, EvFeeFetch])
          else
            (case executeMetaTransaction env req of
               (Inl err, evs) \<Rightarrow>
                 (Inl (ErrorResponse 500 (parseError err)), [EvProbe, EvFeeFetch] @ evs)
             | (Inr confirmed, evs) \<Rightarrow> (Inr confirmed, [EvProbe, EvFeeFetch] @ evs)))"

text \<open>The whole handler, run without interruption.\<close>

definition relayHandler ::
  "go_Config \<Rightarrow> go_env \<Rightarrow> Server \<Rightarrow> RelayRequest \<Rightarrow> response \<times> Server \<times> event list" where
  "relayHandler cfg env s req =
     (case go_rate_gate cfg env s req of
        (Some r, s1) \<Rightarrow> (r, s1, [])
      | (None, s1) \<Rightarrow>
          (case go_sync_gates cfg env s1 req of
             Some r \<Rightarrow> (r, s1, [])
           | None \<Rightarrow>
               (case go_probe_fee_execute env req of
                  (Inl r, evs) \<Rightarrow> (r, s1, evs)
                | (Inr (txHash, blockNo, gas), evs) \<Rightarrow>
                    (SuccessResponse txHash blockNo gas,
                     markProcessed (Now_markProcessed env) s1 (requestID cfg req),
                     evs @ [EvMark (requestID cfg req)]))))"

text \<open>One pass of \<^verbatim>\<open>cleanupRoutine\<close> at \<open>now\<close>.\<close>

definition cleanupRoutine :: "int \<Rightarrow> Server \<Rightarrow> Server" where
  "cleanupRoutine now s =
     \<lparr>Server_processedRequests = (\<lambda>rid.
          case Server_processedRequests s rid of
            None \<Rightarrow> None
          | Some timestamp \<Rightarrow> if now - timestamp > cacheDuration then None else Some timestamp),
      rateLimit_requests = (\<lambda>addr.
          case rateLimit_requests s addr of
            None \<Rightarrow> None
          | Some stamps \<Rightarrow>
              (let cutoff = Unix (now - rateLimitWindow);
                   recent = filter (\<lambda>t. t > cutoff) stamps
               in if length recent = 0 then None else Some recent))\<rparr>"

subsection \<open>Sample requests\<close>

text \<open>
  Concrete inputs for the worked examples below. \<^verbatim>\<open>keccak256\<close> is not computed here:
  the samples use a stand-in that maps every call data to one fixed 32-byte value, and
  a request ``with the right hash'' carries that value as its \<^verbatim>\<open>dataHash\<close>.
  \<open>sample_Hex\<close> writes an address in lower-case hexadecimal.
\<close>

definition sample_js_config :: js_config where
  "sample_js_config =
     \<lparr>NFT_CONTRACT = ''0xAA01'', HUB_ADDRESS = ''0xcc03'', relayerWallet_address = ''0xBb02''\<rparr>"

definition sample_js_forward :: js_forward where
  "sample_js_forward =
     \<lparr>fwd_from = ''0xabc1'', fwd_to = ''0xaa01'', fwd_value = 0, fwd_space = 0,
      fwd_nonce = ''7'', fwd_deadline = 1700003600, fwd_dataHash = ''0x1234'',
      fwd_caller = ''0xbb02''\<rparr>"

definition sample_js_body :: js_body where
  "sample_js_body = \<lparr>forward = Some sample_js_forward, signature = ''0x51'', callData = ''0xda7a''\<rparr>"

definition sample_js_env :: js_env where
  "sample_js_env =
     \<lparr>now_checkRateLimit = 1700000000000, now_deadline = 1700000000000,
      now_mark = 1700000001000, keccak256 = (\<lambda>d. Inr ''0x1234''), minted = Inr False,
      getFeeData = Inr (Some 30000000000), getAddress = Inr ''0xCc03'',
      encodeFunctionData = Inr ''0xe0'',
      isCallerAllowed = Inr True, estimateGas = Inr 100000, sendTransaction = Inr ''0x7a'',
      wait = Inr \<lparr>blockNumber = 42, gasUsed = 90000\<rparr>, wait_settles = Some 4450\<rparr>"

text \<open>The state of a server that has just started.\<close>

definition js_init :: js_state where
  "js_init = \<lparr>processedRequests = {}, timers = [], rateLimits = Map.empty\<rparr>"

definition go_init :: Server where
  "go_init = \<lparr>Server_processedRequests = Map.empty, rateLimit_requests = Map.empty\<rparr>"

definition sample_Hex :: "bytes \<Rightarrow> string" where
  "sample_Hex a =
     ''0x'' @ concat (map (\<lambda>w. [''0123456789abcdef'' ! (unat w div 16),
                              ''0123456789abcdef'' ! (unat w mod 16)]) a)"

definition sample_hash :: bytes where
  "sample_hash = [18, 52, 0, 0, 0, 0, 0, 0, 0, 0, 0, 0, 0, 0, 0, 0,
                  0, 0, 0, 0, 0, 0, 0, 0, 0, 0, 0, 0, 0, 0, 0, 1]"

definition sample_go_config :: go_Config where
  "sample_go_config =
     \<lparr>Hex = sample_Hex, Keccak256Hash = (\<lambda>b. sample_hash),
      NFTContract = [170, 1], HubAddress = [204, 3], relayerAddress = [187, 2]\<rparr>"

definition sample_go_Forward :: go_Forward where
  "sample_go_Forward =
     \<lparr>From = [171, 193], To = [170, 1], Value = 0, Space = 0, Nonce = 7,
      Deadline = 1700003600, DataHash = sample_hash, Caller = [187, 2]\<rparr>"

definition sample_go_request :: RelayRequest where
  "sample_go_request =
     \<lparr>Forward = sample_go_Forward, Signature = ''0x51'', CallData = ''0xda7a''\<rparr>"

definition sample_go_env :: go_env where
  "sample_go_env =
     \<lparr>Now_checkRateLimit = 1700000000000000000, Now_deadline = 1700000000000000000,
      Now_markProcessed = 1700000009000000000, checkAlreadyMinted = Inr False,
      gate_SuggestGasPrice = Inr 30000000000, Pack = None, PendingNonceAt = Inr 3,
      SuggestGasPrice = Inr 30000000000, EstimateGas = Inr 100000, SignTx = None,
      SendTransaction = None, signedTx_Hash = ''0x7a'',
      TransactionReceipt = (\<lambda>i. if i < 2 then (150, None)
         else (150, Some \<lparr>Status = 1, BlockNumber = 42, GasUsed = 90000\<rparr>))\<rparr>"

subsection \<open>Vocabulary of the theorems\<close>

text \<open>A Node request passes the gates that come before the hash gate: the fields are
  there, the deadline can be logged, the rate limiter admits the sender, the request id
  is not in the store, and target and caller are the configured ones.\<close>

definition js_front_gates_pass ::
  "js_config \<Rightarrow> js_env \<Rightarrow> js_state \<Rightarrow> js_body \<Rightarrow> js_forward \<Rightarrow> bool" where
  "js_front_gates_pass cfg env st body fwd =
     (forward body = Some fwd \<and> signature body \<noteq> [] \<and> callData body \<noteq> []
      \<and> valid_time_value (fwd_deadline fwd * 1000)
      \<and> fst (js_checkRateLimit (now_checkRateLimit env) (rateLimits st) (fwd_from fwd))
      \<and> fwd_from fwd @ ''-'' @ fwd_nonce fwd \<notin> processedRequests st
      \<and> toLowerCase (fwd_to fwd) = toLowerCase (NFT_CONTRACT cfg)
      \<and> toLowerCase (fwd_caller fwd) = toLowerCase (relayerWallet_address cfg))"

text \<open>The hash gate of the Node server lets the request through: the call data can
  be hashed, and the \<^verbatim>\<open>dataHash\<close> is absent or equal to the hash up to letter case.\<close>

definition js_hash_gate_passes :: "js_env \<Rightarrow> js_body \<Rightarrow> js_forward \<Rightarrow> bool" where
  "js_hash_gate_passes env body fwd =
     (case keccak256 env (callData body) of
        Inl msg \<Rightarrow> False
      | Inr computedHash \<Rightarrow>
          fwd_dataHash fwd = [] \<or> toLowerCase computedHash = toLowerCase (fwd_dataHash fwd))"

text \<open>The same for the Go server.\<close>

definition go_front_gates_pass ::
  "go_Config \<Rightarrow> go_env \<Rightarrow> Server \<Rightarrow> RelayRequest \<Rightarrow> bool" where
  "go_front_gates_pass cfg env s req =
     (Signature req \<noteq> [] \<and> CallData req \<noteq> []
      \<and> fst (go_checkRateLimit (Now_checkRateLimit env) (rateLimit_requests s)
               (Hex cfg (From (Forward req))))
      \<and> \<not> isProcessed s (requestID cfg req)
      \<and> bytes32Equal cfg (To (Forward req)) (NFTContract cfg)
      \<and> bytes32Equal cfg (Caller (Forward req)) (relayerAddress cfg))"

definition go_hash_gate_passes :: "go_Config \<Rightarrow> RelayRequest \<Rightarrow> bool" where
  "go_hash_gate_passes cfg req =
     (case DecodeString (TrimPrefix (CallData req) ''0x'') of
        Inl err \<Rightarrow> False
      | Inr callDataBytes \<Rightarrow> Keccak256Hash cfg callDataBytes = DataHash (Forward req))"

text \<open>A number that an \<^verbatim>\<open>int64\<close> holds.\<close>

definition fits_int64 :: "int \<Rightarrow> bool" where
  "fits_int64 x = (- (2 ^ 63) \<le> x \<and> x < 2 ^ 63)"

text \<open>Orders of effects in a trace: some mark of the store comes before some
  submission, and some submission comes before some mark.\<close>

fun is_send :: "event \<Rightarrow> bool" where
  "is_send (EvSend g) = True"
| "is_send e = False"

fun is_mark :: "event \<Rightarrow> bool" where
  "is_mark (EvMark rid) = True"
| "is_mark e = False"

fun marked_before_submission :: "event list \<Rightarrow> bool" where
  "marked_before_submission [] = False"
| "marked_before_submission (e # es) =
     ((is_mark e \<and> list_ex is_send es) \<or> marked_before_submission es)"

fun submitted_before_mark :: "event list \<Rightarrow> bool" where
  "submitted_before_mark [] = False"
| "submitted_before_mark (e # es) =
     ((is_send e \<and> list_ex is_mark es) \<or> submitted_before_mark es)"

subsection \<open>Two requests handled at the same time\<close>

text \<open>
  The Node server runs on one thread: a handler runs without interruption up to its
  next \<^verbatim>\<open>await\<close>, and other handlers run while it waits. A handler of \<^verbatim>\<open>/relay\<close> is
  therefore made of these steps: the admission gates up to the first \<^verbatim>\<open>await\<close> (this
  is where \<^verbatim>\<open>processedRequests.has\<close> is asked); the awaited probe, fee fetch and
  executor, which end with the transaction sent; the continuation after
  \<^verbatim>\<open>await executeForward\<close>, which marks the request; and the end of \<^verbatim>\<open>tx.wait()\<close> with
  the response. The steps are the parts of which \<open>js_relay\<close> is composed.
\<close>

datatype js_handler =
    JsReceived js_env js_body
  | JsAdmitted js_env js_forward string
  | JsSent js_env string string
  | JsWaiting js_env string
  | JsAnswered response

fun js_step :: "js_config \<Rightarrow> js_state \<Rightarrow> js_handler \<Rightarrow> js_state \<times> js_handler \<times> event list" where
  "js_step cfg st (JsReceived env body) =
     (case js_admission cfg env st body of
        (Inl r, st1) \<Rightarrow> (st1, JsAnswered r, [])
      | (Inr (fwd, requestId), st1) \<Rightarrow> (st1, JsAdmitted env fwd requestId, []))"
| "js_step cfg st (JsAdmitted env fwd requestId) =
     (case js_probe_fee_execute env fwd of
        (Inl r, evs) \<Rightarrow> (st, JsAnswered r, evs)
      | (Inr tx, evs) \<Rightarrow> (st, JsSent env requestId tx, evs))"
| "js_step cfg st (JsSent env requestId tx) =
     (js_mark env st requestId, JsWaiting env tx, [EvMark requestId])"
| "js_step cfg st (JsWaiting env tx) = (st, JsAnswered (js_confirm env tx), [EvWait])"
| "js_step cfg st (JsAnswered r) = (st, JsAnswered r, [])"

text \<open>Two handlers on one server. The schedule says which handler takes the next
  step (\<open>True\<close> the first, \<open>False\<close> the second); the log holds the effects in the order
  in which they happen, each with the handler it belongs to.\<close>

type_synonym js_pair = "js_state \<times> js_handler \<times> js_handler \<times> (bool \<times> event) list"

fun js_concurrent :: "js_config \<Rightarrow> bool list \<Rightarrow> js_pair \<Rightarrow> js_pair" where
  "js_concurrent cfg [] c = c"
| "js_concurrent cfg (True # sched) (st, h1, h2, log) =
     (case js_step cfg st h1 of
        (st', h1', evs) \<Rightarrow> js_concurrent cfg sched (st', h1', h2, log @ map (Pair True) evs))"
| "js_concurrent cfg (False # sched) (st, h1, h2, log) =
     (case js_step cfg st h2 of
        (st', h2', evs) \<Rightarrow> js_concurrent cfg sched (st', h1, h2', log @ map (Pair False) evs))"

text \<open>What holds of a handler of the request \<open>body\<close> with key \<open>key\<close> at every moment of
  such a run, given the log so far: before the executor step it has no effect in the
  log; once the transaction is sent its executor call is in the log; and if it was
  answered \<^verbatim>\<open>DuplicateRequest\<close> it has no effect in the log while the other handler's
  mark is there.\<close>

fun js_handler_ok :: "string \<Rightarrow> js_body \<Rightarrow> (bool \<times> event) list \<Rightarrow> bool \<Rightarrow> js_handler \<Rightarrow> bool" where
  "js_handler_ok key body log b (JsReceived env body') =
     (body' = body \<and> b \<notin> fst ` set log)"
| "js_handler_ok key body log b (JsAdmitted env fwd requestId) =
     (requestId = key \<and> b \<notin> fst ` set log)"
| "js_handler_ok key body log b (JsSent env requestId tx) =
     (requestId = key \<and> (b, EvExecutor) \<in> set log)"
| "js_handler_ok key body log b (JsWaiting env tx) = True"
| "js_handler_ok key body log b (JsAnswered r) =
     (r = DuplicateRequest \<longrightarrow> b \<notin> fst ` set log \<and> (\<not> b, EvMark key) \<in> set log)"

definition js_pair_ok :: "string \<Rightarrow> js_body \<Rightarrow> js_pair \<Rightarrow> bool" where
  "js_pair_ok key body c =
     (case c of (st, h1, h2, log) \<Rightarrow>
        (key \<in> processedRequests st \<longrightarrow> EvMark key \<in> snd ` set log)
        \<and> js_handler_ok key body log True h1 \<and> js_handler_ok key body log False h2
        \<and> (\<forall>b. (b, EvMark key) \<in> set log \<longrightarrow> (b, EvExecutor) \<in> set log))"

text \<open>
  The Go server runs every request in a goroutine of its own. A handler touches the
  shared maps in three places, each a critical section of its own: \<^verbatim>\<open>checkRateLimit\<close>
  (under \<^verbatim>\<open>rateLimit.mu\<close>), \<^verbatim>\<open>isProcessed\<close> (a read under \<^verbatim>\<open>reqMutex\<close>) and
  \<^verbatim>\<open>markProcessed\<close> (a write under \<^verbatim>\<open>reqMutex\<close>); between \<^verbatim>\<open>isProcessed\<close> and
  \<^verbatim>\<open>markProcessed\<close> it runs the probe, the fee gate and \<^verbatim>\<open>executeMetaTransaction\<close>
  without holding a lock. These are the steps of a handler, the parts of which
  \<open>relayHandler\<close> is composed.
\<close>

datatype go_handler =
    GoReceived go_env RelayRequest
  | GoLimited go_env RelayRequest
  | GoAdmitted go_env RelayRequest
  | GoExecuted go_env RelayRequest string nat nat
  | GoAnswered response

fun go_step :: "go_Config \<Rightarrow> Server \<Rightarrow> go_handler \<Rightarrow> Server \<times> go_handler \<times> event list" where
  "go_step cfg s (GoReceived env req) =
     (case go_rate_gate cfg env s req of
        (Some r, s1) \<Rightarrow> (s1, GoAnswered r, [])
      | (None, s1) \<Rightarrow> (s1, GoLimited env req, []))"
| "go_step cfg s (GoLimited env req) =
     (case go_sync_gates cfg env s req of
        Some r \<Rightarrow> (s, GoAnswered r, [])
      | None \<Rightarrow> (s, GoAdmitted env req, []))"
| "go_step cfg s (GoAdmitted env req) =
     (case go_probe_fee_execute env req of
        (Inl r, evs) \<Rightarrow> (s, GoAnswered r, evs)
      | (Inr (txHash, blockNo, gas), evs) \<Rightarrow> (s, GoExecuted env req txHash blockNo gas, evs))"
| "go_step cfg s (GoExecuted env req txHash blockNo gas) =
     (markProcessed (Now_markProcessed env) s (requestID cfg req),
      GoAnswered (SuccessResponse txHash blockNo gas), [EvMark (requestID cfg req)])"
| "go_step cfg s (GoAnswered r) = (s, GoAnswered r, [])"

type_synonym go_pair = "Server \<times> go_handler \<times> go_handler \<times> (bool \<times> event) list"

fun go_concurrent :: "go_Config \<Rightarrow> bool list \<Rightarrow> go_pair \<Rightarrow> go_pair" where
  "go_concurrent cfg [] c = c"
| "go_concurrent cfg (True # sched) (s, h1, h2, log) =
     (case go_step cfg s h1 of
        (s', h1', evs) \<Rightarrow> go_concurrent cfg sched (s', h1', h2, log @ map (Pair True) evs))"
| "go_concurrent cfg (False # sched) (s, h1, h2, log) =
     (case go_step cfg s h2 of
        (s', h2', evs) \<Rightarrow> go_concurrent cfg sched (s', h1, h2', log @ map (Pair False) evs))"

fun go_handler_ok :: "string \<Rightarrow> RelayRequest \<Rightarrow> (bool \<times> event) list \<Rightarrow> bool \<Rightarrow> go_handler \<Rightarrow> bool" where
  "go_handler_ok key req log b (GoReceived env req') = (req' = req \<and> b \<notin> fst ` set log)"
| "go_handler_ok key req log b (GoLimited env req') = (req' = req \<and> b \<notin> fst ` set log)"
| "go_handler_ok key req log b (GoAdmitted env req') = (req' = req \<and> b \<notin> fst ` set log)"
| "go_handler_ok key req log b (GoExecuted env req' txHash blockNo gas) =
     (req' = req \<and> (b, EvExecutor) \<in> set log)"
| "go_handler_ok key req log b (GoAnswered r) =
     (r = DuplicateRequest \<longrightarrow> b \<notin> fst ` set log \<and> (\<not> b, EvMark key) \<in> set log)"

definition go_pair_ok :: "string \<Rightarrow> RelayRequest \<Rightarrow> go_pair \<Rightarrow> bool" where
  "go_pair_ok key req c =
     (case c of (s, h1, h2, log) \<Rightarrow>
        (isProcessed s key \<longrightarrow> EvMark key \<in> snd ` set log)
        \<and> go_handler_ok key req log True h1 \<and> go_handler_ok key req log False h2
        \<and> (\<forall>b. (b, EvMark key) \<in> set log \<longrightarrow> (b, EvExecutor) \<in> set log))"

subsection \<open>Requests that reach the rate limiter\<close>



subsection \<open>The servers over time\<close>

text \<open>
  A server with any number of requests in flight. A request arrives and its handler
  starts; the handlers in flight take their steps in any order (on the Node server a
  handler gives way at each \<^verbatim>\<open>await\<close>, on the Go server every handler is a goroutine);
  and the housekeeping runs in between. For the Node server that is the timers set by
  \<^verbatim>\<open>setTimeout\<close> (those due at the given time fire) and the \<^verbatim>\<open>setInterval\<close> sweep of
  the rate-limit map; for the Go server a pass of \<^verbatim>\<open>cleanupRoutine\<close>. The handlers are
  numbered in the order of arrival; the log holds the effects in the order in which
  they happen, each with the number of its handler. A step of a handler that does not
  exist changes nothing.
\<close>

datatype js_event = JsArrive js_env js_body | JsStep nat | JsTimers int | JsSweep int

type_synonym js_system = "js_state \<times> js_handler list \<times> (nat \<times> event) list"

fun js_next :: "js_config \<Rightarrow> js_event \<Rightarrow> js_system \<Rightarrow> js_system" where
  "js_next cfg (JsArrive env body) (st, hs, log) = (st, hs @ [JsReceived env body], log)"
| "js_next cfg (JsStep i) (st, hs, log) =
     (if i < length hs
      then (case js_step cfg st (hs ! i) of
              (st', h', evs) \<Rightarrow> (st', hs[i := h'], log @ map (Pair i) evs))
      else (st, hs, log))"
| "js_next cfg (JsTimers now) (st, hs, log) = (js_fire_timers now st, hs, log)"
| "js_next cfg (JsSweep now) (st, hs, log) = (js_sweep now st, hs, log)"

fun js_run :: "js_config \<Rightarrow> js_event list \<Rightarrow> js_system \<Rightarrow> js_system" where
  "js_run cfg [] c = c"
| "js_run cfg (e # es) c = js_run cfg es (js_next cfg e c)"

datatype go_event = GoArrive go_env RelayRequest | GoStep nat | GoCleanup int

type_synonym go_system = "Server \<times> go_handler list \<times> (nat \<times> event) list"

fun go_next :: "go_Config \<Rightarrow> go_event \<Rightarrow> go_system \<Rightarrow> go_system" where
  "go_next cfg (GoArrive env req) (s, hs, log) = (s, hs @ [GoReceived env req], log)"
| "go_next cfg (GoStep i) (s, hs, log) =
     (if i < length hs
      then (case go_step cfg s (hs ! i) of
              (s', h', evs) \<Rightarrow> (s', hs[i := h'], log @ map (Pair i) evs))
      else (s, hs, log))"
| "go_next cfg (GoCleanup now) (s, hs, log) = (cleanupRoutine now s, hs, log)"

fun go_run :: "go_Config \<Rightarrow> go_event list \<Rightarrow> go_system \<Rightarrow> go_system" where
  "go_run cfg [] c = c"
| "go_run cfg (e # es) c = go_run cfg es (go_next cfg e c)"






section \<open>The rate limiter\<close>

lemma js_checkRateLimit_eq:
  "js_checkRateLimit now m a =
     (if 5 \<le> length (filter (\<lambda>time. now - time < 60000) (stamps_of m a)) then (False, m)
      else (True, m(a \<mapsto> filter (\<lambda>time. now - time < 60000) (stamps_of m a) @ [now])))"
  by (simp add: js_checkRateLimit_def RATE_LIMIT_WINDOW_def MAX_REQUESTS_PER_WINDOW_def Let_def)

lemma go_checkRateLimit_eq:
  "go_checkRateLimit t m a =
     (if 5 \<le> length (filter (\<lambda>reqTime. Unix t - reqTime < 60) (stamps_of m a)) then (False, m)
      else (True, m(a \<mapsto> filter (\<lambda>reqTime. Unix t - reqTime < 60) (stamps_of m a) @ [Unix t])))"
  by (simp add: go_checkRateLimit_def rateLimitWindow_def maxRequestsPerWindow_def Let_def)

lemma stamps_of_upd: "stamps_of (m(a \<mapsto> l)) a = l"
  by (simp add: stamps_of_def)

lemma stamps_of_empty: "stamps_of Map.empty a = []"
  by (simp add: stamps_of_def)









lemma sample_Hex_From: "sample_Hex [171, 193] = ''0xabc1''"
  by (simp add: sample_Hex_def)

section \<open>The gas limit\<close>

lemma go_gasLimit_simps:
  "go_gasLimit (Inr estimatedGas) = estimatedGas * 120 div 100"
  "go_gasLimit (Inl err) = 500000"
  by (simp_all add: go_gasLimit_def)

lemma go_gasLimit_unat:
  assumes "unat estimatedGas * 120 < 2 ^ 64"
  shows "unat (go_gasLimit (Inr estimatedGas)) = unat estimatedGas * 120 div 100"
proof -
  have "unat (estimatedGas * 120) = unat estimatedGas * unat (120 :: 64 word)"
    using assms by (subst unat_mult_lem [symmetric]) simp
  then show ?thesis
    by (simp add: go_gasLimit_def unat_div)
qed

lemma executeMetaTransaction_send:
  "executeMetaTransaction env req = (r, evs) \<Longrightarrow> EvSend g \<in> set evs \<Longrightarrow>
     g = unat (go_gasLimit (EstimateGas env))"
  by (auto simp: executeMetaTransaction_def Let_def split: sum.splits option.splits if_splits)

lemma go_probe_fee_execute_send:
  "go_probe_fee_execute env req = (r, evs) \<Longrightarrow> EvSend g \<in> set evs \<Longrightarrow>
     g = unat (go_gasLimit (EstimateGas env))"
  by (auto simp: go_probe_fee_execute_def split: sum.splits prod.splits if_splits
      dest: executeMetaTransaction_send)

lemma relayHandler_send:
  "relayHandler cfg env s req = (resp, s', evs) \<Longrightarrow> EvSend g \<in> set evs \<Longrightarrow>
     g = unat (go_gasLimit (EstimateGas env))"
  by (auto simp: relayHandler_def split: sum.splits prod.splits option.splits
      dest: go_probe_fee_execute_send)

lemma executeForward_send:
  "executeForward env caller ov hasCaller checkAllowlist = (r, evs) \<Longrightarrow> EvSend g \<in> set evs \<Longrightarrow>
     (case gasLimit ov of Some l \<Rightarrow> g = l | None \<Rightarrow> estimateGas env = Inr g)"
  by (auto simp: executeForward_def split: sum.splits option.splits if_splits)

lemma executeForward_no_estimate:
  "gasLimit ov = None \<Longrightarrow> estimateGas env = Inl msg \<Longrightarrow>
   executeForward env caller ov hasCaller checkAllowlist = (r, evs) \<Longrightarrow>
     isl r \<and> (\<forall>g. EvSend g \<notin> set evs)"
  by (auto simp: executeForward_def split: sum.splits option.splits if_splits)
     (metis sum.disc(1))+

lemma js_probe_fee_execute_send:
  "js_probe_fee_execute env fwd = (r, evs) \<Longrightarrow> EvSend g \<in> set evs \<Longrightarrow> estimateGas env = Inr g"
  by (auto simp: js_probe_fee_execute_def split: sum.splits prod.splits if_splits option.splits
      dest: executeForward_send)

lemma js_relay_send:
  "js_relay cfg env st body = (resp, st', evs) \<Longrightarrow> EvSend g \<in> set evs \<Longrightarrow>
     estimateGas env = Inr g"
  by (auto simp: js_relay_def split: sum.splits prod.splits
      dest: js_probe_fee_execute_send)

section \<open>The sample requests, evaluated\<close>

lemma sample_js_admission:
  assumes "keccak256 env = (\<lambda>d. Inr ''0x1234'')" "now_deadline env div 1000 \<le> 1700003600"
  shows "js_admission sample_js_config env st sample_js_body =
     (let chk = js_checkRateLimit (now_checkRateLimit env) (rateLimits st) ''0xabc1'';
          st1 = st\<lparr>rateLimits := snd chk\<rparr>
      in if \<not> fst chk then (Inl RateLimited, st1)
         else if ''0xabc1-7'' \<in> processedRequests st then (Inl DuplicateRequest, st1)
         else (Inr (sample_js_forward, ''0xabc1-7''), st1))"
  using assms
  by (simp add: js_admission_def sample_js_config_def sample_js_body_def sample_js_forward_def
      valid_time_value_def toLowerCase_def lower_char_def Let_def)

lemma sample_js_execute:
  "js_probe_fee_execute sample_js_env sample_js_forward =
     (Inr ''0x7a'', [EvProbe, EvFeeFetch, EvExecutor, EvEstimateGas, EvSend 100000])"
  by (simp add: js_probe_fee_execute_def executeForward_def MAX_GAS_PRICE_def
      sample_js_env_def sample_js_forward_def)

lemma sample_js_first_check:
  "js_checkRateLimit 1700000000000 Map.empty ''0xabc1'' = (True, [''0xabc1'' \<mapsto> [1700000000000]])"
  by (simp add: js_checkRateLimit_eq stamps_of_empty)

lemma sample_js_relay:
  "js_relay sample_js_config sample_js_env js_init sample_js_body =
     (SuccessResponse ''0x7a'' 42 90000,
      \<lparr>processedRequests = {''0xabc1-7''}, timers = [(1700000301000, ''0xabc1-7'')],
       rateLimits = [''0xabc1'' \<mapsto> [1700000000000]]\<rparr>,
      [EvProbe, EvFeeFetch, EvExecutor, EvEstimateGas, EvSend 100000, EvMark ''0xabc1-7'', EvWait])"
proof -
  have adm: "js_admission sample_js_config sample_js_env js_init sample_js_body =
      (Inr (sample_js_forward, ''0xabc1-7''), js_init\<lparr>rateLimits := [''0xabc1'' \<mapsto> [1700000000000]]\<rparr>)"
    by (subst sample_js_admission) (simp_all add: sample_js_env_def js_init_def sample_js_first_check)
  show ?thesis
    by (simp add: js_relay_def adm sample_js_execute)
       (simp add: js_confirm_def js_mark_def js_init_def sample_js_env_def CACHE_DURATION_def)
qed

lemma sample_waitForReceipt:
  "poll_loop (TransactionReceipt sample_go_env) 0 0 =
     (Inr \<lparr>Status = 1, BlockNumber = 42, GasUsed = 90000\<rparr>, [0, 2150, 4300], 4450)"
  by (simp add: poll_loop.simps sample_go_env_def ctx_timeout_def poll_interval_def)

lemma sample_executeMetaTransaction:
  "executeMetaTransaction sample_go_env sample_go_request =
     (Inr (''0x7a'', 42, 90000), [EvExecutor, EvEstimateGas, EvSend 120000, EvWait])"
proof -
  have w: "waitForReceipt (TransactionReceipt sample_go_env) = Inr \<lparr>Status = 1, BlockNumber = 42, GasUsed = 90000\<rparr>"
    by (simp add: waitForReceipt_def sample_waitForReceipt)
  have g: "unat (go_gasLimit (EstimateGas sample_go_env)) = 120000"
    by (simp add: sample_go_env_def go_gasLimit_def)
  have d1: "DecodeString (TrimPrefix (Signature sample_go_request) ''0x'') = Inr [81]"
    by (simp add: sample_go_request_def TrimPrefix_def hex_digit_def)
  have d2: "DecodeString (TrimPrefix (CallData sample_go_request) ''0x'') = Inr [218, 122]"
    by (simp add: sample_go_request_def TrimPrefix_def hex_digit_def)
  have f: "Pack sample_go_env = None" "PendingNonceAt sample_go_env = Inr 3"
    "SuggestGasPrice sample_go_env = Inr 30000000000" "SignTx sample_go_env = None"
    "SendTransaction sample_go_env = None" "signedTx_Hash sample_go_env = ''0x7a''"
    by (simp_all add: sample_go_env_def)
  show ?thesis
    by (simp add: executeMetaTransaction_def d1 d2 w g f Let_def)
qed


lemma sample_requestID: "requestID sample_go_config sample_go_request = ''0xabc1-7''"
  by (simp add: requestID_def sample_go_config_def sample_go_request_def sample_go_Forward_def
      sample_Hex_From big_String_def nat_String.simps)

lemma sample_go_rate_gate:
  "go_rate_gate sample_go_config env s sample_go_request =
     (let chk = go_checkRateLimit (Now_checkRateLimit env) (rateLimit_requests s) ''0xabc1'';
          s1 = s\<lparr>rateLimit_requests := snd chk\<rparr>
      in if \<not> fst chk then (Some RateLimited, s1) else (None, s1))"
  by (simp add: go_rate_gate_def sample_go_config_def sample_go_request_def sample_go_Forward_def
      sample_Hex_From Let_def)

lemma sample_go_sync_gates:
  assumes "Unix (Now_deadline env) \<le> 1700003600"
  shows "go_sync_gates sample_go_config env s sample_go_request =
     (if isProcessed s ''0xabc1-7'' then Some DuplicateRequest else None)"
proof -
  have d: "DecodeString (TrimPrefix (CallData sample_go_request) ''0x'') = Inr [218, 122]"
    by (simp add: sample_go_request_def TrimPrefix_def hex_digit_def)
  have e: "bytes32Equal sample_go_config (To (Forward sample_go_request)) (NFTContract sample_go_config)"
    "bytes32Equal sample_go_config (Caller (Forward sample_go_request)) (relayerAddress sample_go_config)"
    by (simp_all add: bytes32Equal_def sample_go_config_def sample_go_request_def sample_go_Forward_def)
  have h: "Keccak256Hash sample_go_config [218, 122] = DataHash (Forward sample_go_request)"
    by (simp add: sample_go_config_def sample_go_request_def sample_go_Forward_def)
  have i: "Int64 (Deadline (Forward sample_go_request)) = 1700003600"
    by (simp add: sample_go_request_def sample_go_Forward_def Int64_def)
  show ?thesis
    using assms by (simp add: go_sync_gates_def sample_requestID d e h i Let_def)
qed

lemma sample_go_execute:
  "go_probe_fee_execute sample_go_env sample_go_request =
     (Inr (''0x7a'', 42, 90000), [EvProbe, EvFeeFetch, EvExecutor, EvEstimateGas, EvSend 120000, EvWait])"
proof -
  have f: "checkAlreadyMinted sample_go_env = Inr False"
    "gate_SuggestGasPrice sample_go_env = Inr 30000000000"
    by (simp_all add: sample_go_env_def)
  show ?thesis
    by (simp add: go_probe_fee_execute_def f MAX_GAS_PRICE_def sample_executeMetaTransaction)
qed

lemma sample_go_first_check:
  "go_checkRateLimit 1700000000000000000 Map.empty ''0xabc1'' = (True, [''0xabc1'' \<mapsto> [1700000000]])"
  by (simp add: go_checkRateLimit_eq stamps_of_empty Unix_def)

lemma sample_relayHandler:
  "relayHandler sample_go_config sample_go_env go_init sample_go_request =
     (SuccessResponse ''0x7a'' 42 90000,
      \<lparr>Server_processedRequests = [''0xabc1-7'' \<mapsto> 1700000009000000000],
       rateLimit_requests = [''0xabc1'' \<mapsto> [1700000000]]\<rparr>,
      [EvProbe, EvFeeFetch, EvExecutor, EvEstimateGas, EvSend 120000, EvWait, EvMark ''0xabc1-7''])"
proof -
  have f: "Now_checkRateLimit sample_go_env = 1700000000000000000"
    "Unix (Now_deadline sample_go_env) \<le> 1700003600"
    "Now_markProcessed sample_go_env = 1700000009000000000"
    by (simp_all add: sample_go_env_def Unix_def)
  have r: "go_rate_gate sample_go_config sample_go_env go_init sample_go_request =
      (None, go_init\<lparr>rateLimit_requests := [''0xabc1'' \<mapsto> [1700000000]]\<rparr>)"
    by (simp add: sample_go_rate_gate f go_init_def sample_go_first_check)
  have g: "go_sync_gates sample_go_config sample_go_env
      (go_init\<lparr>rateLimit_requests := [''0xabc1'' \<mapsto> [1700000000]]\<rparr>) sample_go_request = None"
    by (simp add: sample_go_sync_gates f isProcessed_def go_init_def)
  show ?thesis
    by (simp add: relayHandler_def r g sample_go_execute sample_requestID f)
       (simp add: markProcessed_def go_init_def)
qed

text \<open>
  Claim C8, as amended. In the Go server every submitted transaction carries the gas
  limit \<open>go_gasLimit\<close> of the estimate: the estimate times 120 over 100 in 64-bit
  unsigned arithmetic (the exact quotient when the product fits 64 bits), and 500000
  when the estimation fails. The Node executor \<^verbatim>\<open>executeForward\<close> submits with the
  override's gas limit when there is one and with the raw estimate otherwise; when the
  estimation fails it throws, and nothing is submitted.
\<close>

theorem gas_limit_of_submission:
  "(relayHandler gcfg genv s req = (gresp, s', gevs) \<and> EvSend g \<in> set gevs
      \<longrightarrow> g = unat (go_gasLimit (EstimateGas genv)))
   \<and> go_gasLimit (Inr estimatedGas) = estimatedGas * 120 div 100
   \<and> (unat estimatedGas * 120 < 2 ^ 64
      \<longrightarrow> unat (go_gasLimit (Inr estimatedGas)) = unat estimatedGas * 120 div 100)
   \<and> go_gasLimit (Inl err) = 500000
   \<and> (executeForward env caller ov hasCaller checkAllowlist = (r, evs) \<and> EvSend l \<in> set evs
      \<longrightarrow> (case gasLimit ov of Some limit \<Rightarrow> l = limit | None \<Rightarrow> estimateGas env = Inr l))
   \<and> (gasLimit ov = None \<and> estimateGas env = Inl msg
        \<and> executeForward env caller ov hasCaller checkAllowlist = (r, evs)
      \<longrightarrow> isl r \<and> (\<forall>k. EvSend k \<notin> set evs))
   \<and> (js_relay cfg env st body = (resp, st', jevs) \<and> EvSend j \<in> set jevs
      \<longrightarrow> estimateGas env = Inr j)"
  using relayHandler_send[of gcfg genv s req gresp s' gevs g]
    go_gasLimit_simps(1)[of estimatedGas] go_gasLimit_simps(2)[of err] go_gasLimit_unat[of estimatedGas]
    executeForward_send[of env caller ov hasCaller checkAllowlist r evs l]
    executeForward_no_estimate[of ov env msg caller hasCaller checkAllowlist r evs]
    js_relay_send[of cfg env st body resp st' jevs j]
  by blast

theorem gas_limit_of_submission_witness:
  "EvSend 120000 \<in> set (snd (snd (relayHandler sample_go_config sample_go_env go_init sample_go_request)))
   \<and> unat (go_gasLimit (EstimateGas sample_go_env)) = 120000
   \<and> unat (go_gasLimit (Inr 100000)) = 100000 * 120 div 100
   \<and> EvSend 100000 \<in> set (snd (executeForward sample_js_env ''0xbb02'' \<lparr>gasLimit = None\<rparr> True True))
   \<and> estimateGas sample_js_env = Inr 100000
   \<and> isl (fst (executeForward (sample_js_env\<lparr>estimateGas := Inl ''execution reverted''\<rparr>) ''0xbb02''
              \<lparr>gasLimit = None\<rparr> True True))
   \<and> EvSend 100000 \<in> set (snd (snd (js_relay sample_js_config sample_js_env js_init sample_js_body)))"
proof -
  let ?bad = "sample_js_env\<lparr>estimateGas := Inl ''execution reverted''\<rparr>"
  have e1: "executeForward sample_js_env ''0xbb02'' \<lparr>gasLimit = None\<rparr> True True =
      (Inr ''0x7a'', [EvExecutor, EvEstimateGas, EvSend 100000])"
    by (simp add: executeForward_def sample_js_env_def)
  have e2: "executeForward ?bad ''0xbb02'' \<lparr>gasLimit = None\<rparr> True True =
      (Inl ''execution reverted'', [EvExecutor, EvEstimateGas])"
    by (simp add: executeForward_def sample_js_env_def)
  have h1: "relayHandler sample_go_config sample_go_env go_init sample_go_request =
      (SuccessResponse ''0x7a'' 42 90000,
       \<lparr>Server_processedRequests = [''0xabc1-7'' \<mapsto> 1700000009000000000],
        rateLimit_requests = [''0xabc1'' \<mapsto> [1700000000]]\<rparr>,
       [EvProbe, EvFeeFetch, EvExecutor, EvEstimateGas, EvSend 120000, EvWait, EvMark ''0xabc1-7''])
     \<and> EvSend 120000 \<in> set [EvProbe, EvFeeFetch, EvExecutor, EvEstimateGas, EvSend 120000, EvWait, EvMark ''0xabc1-7'']"
    by (simp add: sample_relayHandler)
  have h2: "unat (100000 :: 64 word) * 120 < 2 ^ 64"
    by simp
  have h3: "executeForward sample_js_env ''0xbb02'' \<lparr>gasLimit = None\<rparr> True True =
      (Inr ''0x7a'', [EvExecutor, EvEstimateGas, EvSend 100000])
      \<and> EvSend 100000 \<in> set [EvExecutor, EvEstimateGas, EvSend 100000]"
    by (simp add: e1)
  have h4: "js_relay sample_js_config sample_js_env js_init sample_js_body =
     (SuccessResponse ''0x7a'' 42 90000,
      \<lparr>processedRequests = {''0xabc1-7''}, timers = [(1700000301000, ''0xabc1-7'')],
       rateLimits = [''0xabc1'' \<mapsto> [1700000000000]]\<rparr>,
      [EvProbe, EvFeeFetch, EvExecutor, EvEstimateGas, EvSend 100000, EvMark ''0xabc1-7'', EvWait])
     \<and> EvSend 100000 \<in> set [EvProbe, EvFeeFetch, EvExecutor, EvEstimateGas, EvSend 100000, EvMark ''0xabc1-7'', EvWait]"
    by (simp add: sample_js_relay)
  have h5: "gasLimit \<lparr>gasLimit = None\<rparr> = None \<and> estimateGas ?bad = Inl ''execution reverted''
     \<and> executeForward ?bad ''0xbb02'' \<lparr>gasLimit = None\<rparr> True True =
        (Inl ''execution reverted'', [EvExecutor, EvEstimateGas])"
    by (simp add: e2)
  note A = gas_limit_of_submission[where gcfg = sample_go_config and genv = sample_go_env
      and s = go_init and req = sample_go_request and g = 120000 and estimatedGas = 100000
      and env = sample_js_env and caller = "''0xbb02''" and ov = "\<lparr>gasLimit = None\<rparr>"
      and hasCaller = True and checkAllowlist = True and l = 100000
      and cfg = sample_js_config and st = js_init and body = sample_js_body and j = 100000
      and gresp = "SuccessResponse ''0x7a'' 42 90000"
      and s' = "\<lparr>Server_processedRequests = [''0xabc1-7'' \<mapsto> 1700000009000000000],
        rateLimit_requests = [''0xabc1'' \<mapsto> [1700000000]]\<rparr>"
      and gevs = "[EvProbe, EvFeeFetch, EvExecutor, EvEstimateGas, EvSend 120000, EvWait, EvMark ''0xabc1-7'']"
      and r = "Inr ''0x7a''" and evs = "[EvExecutor, EvEstimateGas, EvSend 100000]"
      and resp = "SuccessResponse ''0x7a'' 42 90000"
      and st' = "\<lparr>processedRequests = {''0xabc1-7''}, timers = [(1700000301000, ''0xabc1-7'')],
       rateLimits = [''0xabc1'' \<mapsto> [1700000000000]]\<rparr>"
      and jevs = "[EvProbe, EvFeeFetch, EvExecutor, EvEstimateGas, EvSend 100000, EvMark ''0xabc1-7'', EvWait]"]
  note B = gas_limit_of_submission[where env = ?bad and caller = "''0xbb02''"
      and ov = "\<lparr>gasLimit = None\<rparr>" and hasCaller = True and checkAllowlist = True
      and msg = "''execution reverted''" and r = "Inl ''execution reverted''"
      and evs = "[EvExecutor, EvEstimateGas]"]
  have a: "unat (go_gasLimit (EstimateGas sample_go_env)) = 120000"
    by (rule A[THEN conjunct1, THEN mp, OF h1, symmetric])
  have b: "unat (go_gasLimit (Inr 100000)) = unat (100000 :: 64 word) * 120 div 100"
    by (rule A[THEN conjunct2, THEN conjunct2, THEN conjunct1, THEN mp, OF h2])
  have c: "estimateGas sample_js_env = Inr 100000"
    by (rule A[THEN conjunct2, THEN conjunct2, THEN conjunct2, THEN conjunct2, THEN conjunct2,
          THEN conjunct2, THEN mp, OF h4])
  have d: "isl (Inl ''execution reverted'' :: string + string)"
    by (rule B[THEN conjunct2, THEN conjunct2, THEN conjunct2, THEN conjunct2, THEN conjunct2,
          THEN conjunct1, THEN mp, OF h5, THEN conjunct1])
  show ?thesis
    using a b c d by (simp add: sample_relayHandler sample_js_relay e1 e2)
qed

text \<open>Against claim C8 as stated: the Node server submits with the raw estimate
  (100000, not 120000), and when the estimation fails it answers 500 without
  submitting anything, rather than falling back to 500000.\<close>

theorem gas_margin_counterexample:
  "estimateGas sample_js_env = Inr 100000
   \<and> snd (snd (js_relay sample_js_config sample_js_env js_init sample_js_body)) =
       [EvProbe, EvFeeFetch, EvExecutor, EvEstimateGas, EvSend 100000, EvMark ''0xabc1-7'', EvWait]
   \<and> (100000::nat) \<noteq> 100000 * 120 div 100
   \<and> js_relay sample_js_config (sample_js_env\<lparr>estimateGas := Inl ''execution reverted''\<rparr>)
        js_init sample_js_body =
       (ErrorResponse 500 ''Transaction failed'',
        js_init\<lparr>rateLimits := [''0xabc1'' \<mapsto> [1700000000000]]\<rparr>,
        [EvProbe, EvFeeFetch, EvExecutor, EvEstimateGas])"
proof -
  let ?bad = "sample_js_env\<lparr>estimateGas := Inl ''execution reverted''\<rparr>"
  have adm: "js_admission sample_js_config ?bad js_init sample_js_body =
      (Inr (sample_js_forward, ''0xabc1-7''), js_init\<lparr>rateLimits := [''0xabc1'' \<mapsto> [1700000000000]]\<rparr>)"
    by (subst sample_js_admission) (simp_all add: sample_js_env_def js_init_def sample_js_first_check)
  have ex: "js_probe_fee_execute ?bad sample_js_forward =
      (Inl (ErrorResponse 500 ''Transaction failed''), [EvProbe, EvFeeFetch, EvExecutor, EvEstimateGas])"
    by (simp add: js_probe_fee_execute_def executeForward_def MAX_GAS_PRICE_def
        sample_js_env_def sample_js_forward_def js_catch_def parseError_def)
  have c1: "estimateGas sample_js_env = Inr 100000"
    by (simp add: sample_js_env_def)
  have c4: "js_relay sample_js_config ?bad js_init sample_js_body =
       (ErrorResponse 500 ''Transaction failed'',
        js_init\<lparr>rateLimits := [''0xabc1'' \<mapsto> [1700000000000]]\<rparr>,
        [EvProbe, EvFeeFetch, EvExecutor, EvEstimateGas])"
    by (simp add: js_relay_def adm ex)
  show ?thesis
    by (simp add: sample_js_relay c1 c4)
qed

section \<open>What the phases of the handlers do\<close>

lemma js_admission_store:
  "js_admission cfg env st body = (r, st1) \<Longrightarrow>
     processedRequests st1 = processedRequests st \<and> timers st1 = timers st"
  by (auto simp: js_admission_def Let_def split: option.splits if_splits sum.splits)

lemma js_admission_admits:
  "js_admission cfg env st body = (Inr (fwd, rid), st1) \<Longrightarrow>
     js_front_gates_pass cfg env st body fwd \<and> js_hash_gate_passes env body fwd
     \<and> now_deadline env div 1000 \<le> fwd_deadline fwd
     \<and> rid = fwd_from fwd @ ''-'' @ fwd_nonce fwd
     \<and> st1 = st\<lparr>rateLimits := snd (js_checkRateLimit (now_checkRateLimit env) (rateLimits st) (fwd_from fwd))\<rparr>"
  by (auto simp: js_admission_def js_front_gates_pass_def js_hash_gate_passes_def Let_def
      split: option.splits if_splits sum.splits)

lemma js_admission_front:
  assumes "js_front_gates_pass cfg env st body fwd"
  shows "js_admission cfg env st body =
     (let st1 = st\<lparr>rateLimits := snd (js_checkRateLimit (now_checkRateLimit env) (rateLimits st) (fwd_from fwd))\<rparr>
      in case keccak256 env (callData body) of
           Inl msg \<Rightarrow> (Inl (js_catch msg), st1)
         | Inr computedHash \<Rightarrow>
             if fwd_dataHash fwd \<noteq> [] \<and> toLowerCase computedHash \<noteq> toLowerCase (fwd_dataHash fwd)
               then (Inl HashMismatch, st1)
             else if now_deadline env div 1000 > fwd_deadline fwd then (Inl Expired, st1)
             else (Inr (fwd, fwd_from fwd @ ''-'' @ fwd_nonce fwd), st1))"
  using assms
  by (simp add: js_admission_def js_front_gates_pass_def Let_def split: sum.split)

lemma go_rate_gate_store:
  "go_rate_gate cfg env s req = (r, s1) \<Longrightarrow>
     Server_processedRequests s1 = Server_processedRequests s"
  by (auto simp: go_rate_gate_def Let_def split: if_splits)

lemma go_gates_pass:
  assumes "go_front_gates_pass cfg env s req"
  shows "go_rate_gate cfg env s req =
      (None, s\<lparr>rateLimit_requests := snd (go_checkRateLimit (Now_checkRateLimit env)
                  (rateLimit_requests s) (Hex cfg (From (Forward req))))\<rparr>)"
    and "Server_processedRequests s1 = Server_processedRequests s \<Longrightarrow>
      go_sync_gates cfg env s1 req =
       (case DecodeString (TrimPrefix (CallData req) ''0x'') of
          Inl err \<Rightarrow> Some (ErrorResponse 400 ''Invalid callData format'')
        | Inr callDataBytes \<Rightarrow>
            if Keccak256Hash cfg callDataBytes \<noteq> DataHash (Forward req) then Some HashMismatch
            else if Unix (Now_deadline env) > Int64 (Deadline (Forward req)) then Some Expired
            else None)"
  using assms
  by (simp_all add: go_rate_gate_def go_sync_gates_def go_front_gates_pass_def isProcessed_def Let_def
      split: sum.split)

lemma go_gates_admit:
  assumes "go_rate_gate cfg env s req = (None, s1)" "go_sync_gates cfg env s1 req = None"
  shows "go_front_gates_pass cfg env s req \<and> go_hash_gate_passes cfg req
     \<and> Unix (Now_deadline env) \<le> Int64 (Deadline (Forward req))"
proof -
  from assms(1) have p: "Server_processedRequests s1 = Server_processedRequests s"
    by (rule go_rate_gate_store)
  from assms(1) have a: "Signature req \<noteq> []" "CallData req \<noteq> []"
    "fst (go_checkRateLimit (Now_checkRateLimit env) (rateLimit_requests s) (Hex cfg (From (Forward req))))"
    by (auto simp: go_rate_gate_def Let_def split: if_splits)
  from assms(2) p have b: "\<not> isProcessed s (requestID cfg req)"
    "bytes32Equal cfg (To (Forward req)) (NFTContract cfg)"
    "bytes32Equal cfg (Caller (Forward req)) (relayerAddress cfg)"
    "go_hash_gate_passes cfg req" "Unix (Now_deadline env) \<le> Int64 (Deadline (Forward req))"
    by (auto simp: go_sync_gates_def go_hash_gate_passes_def isProcessed_def Let_def
        split: if_splits sum.splits)
  from a b show ?thesis by (simp add: go_front_gates_pass_def)
qed

lemma Int64_fits: "fits_int64 x \<Longrightarrow> Int64 x = x"
proof -
  assume f: "fits_int64 x"
  have r: "- (2 ^ 63) \<le> x" "x < 2 ^ 63"
    using f by (simp_all add: fits_int64_def)
  have s: "sint (word_of_int x :: 64 word) = x"
    using signed_take_bit_int_eq_self[OF r] by (simp add: signed_of_int)
  show ?thesis
  proof (cases "x < 0")
    case True
    then have "- (word_of_int \<bar>x\<bar> :: 64 word) = word_of_int x" by simp
    with True s show ?thesis by (simp add: Int64_def)
  next
    case False
    then have "\<bar>x\<bar> = x" by simp
    with False s show ?thesis by (simp add: Int64_def)
  qed
qed

section \<open>The fee ceiling\<close>

lemma js_fee_gate:
  assumes "getFeeData env = Inr (Some p)" "p > MAX_GAS_PRICE"
    and "js_probe_fee_execute env fwd = (r, evs)"
  shows "(\<exists>resp. r = Inl resp \<and> (EvFeeFetch \<in> set evs \<longrightarrow> resp = FeeTooHigh))
     \<and> set evs \<subseteq> {EvProbe, EvFeeFetch}"
  using assms
  by (auto simp: js_probe_fee_execute_def split: sum.splits if_splits)

lemma go_fee_gate:
  assumes "gate_SuggestGasPrice env = Inr q" "q > MAX_GAS_PRICE"
    and "go_probe_fee_execute env req = (r, evs)"
  shows "(\<exists>resp. r = Inl resp \<and> (EvFeeFetch \<in> set evs \<longrightarrow> resp = FeeTooHigh))
     \<and> set evs \<subseteq> {EvProbe, EvFeeFetch}"
  using assms
  by (auto simp: go_probe_fee_execute_def split: sum.splits if_splits)

lemma js_relay_fee_gate:
  assumes fee: "getFeeData env = Inr (Some p)" "p > MAX_GAS_PRICE"
    and run: "js_relay cfg env st body = (resp, st', evs)"
  shows "set evs \<subseteq> {EvProbe, EvFeeFetch} \<and> processedRequests st' = processedRequests st
     \<and> (EvFeeFetch \<in> set evs \<longrightarrow> resp = FeeTooHigh)"
proof (cases "js_admission cfg env st body")
  case (Pair a st1)
  note adm = this
  have store: "processedRequests st1 = processedRequests st"
    using js_admission_store[OF adm] by simp
  show ?thesis
  proof (cases a)
    case (Inl r)
    with adm run store show ?thesis by (auto simp: js_relay_def)
  next
    case (Inr admitted)
    obtain fwd rid where ad: "admitted = (fwd, rid)" by (cases admitted)
    obtain r pevs where ex: "js_probe_fee_execute env fwd = (r, pevs)"
      by (cases "js_probe_fee_execute env fwd")
    from js_fee_gate[OF fee ex] obtain rr where
      rr: "r = Inl rr" "EvFeeFetch \<in> set pevs \<longrightarrow> rr = FeeTooHigh"
        "set pevs \<subseteq> {EvProbe, EvFeeFetch}"
      by blast
    from adm Inr ad ex rr(1) run have "resp = rr" "st' = st1" "evs = pevs"
      by (simp_all add: js_relay_def)
    with rr store show ?thesis by simp
  qed
qed

lemma relayHandler_fee_gate:
  assumes fee: "gate_SuggestGasPrice env = Inr q" "q > MAX_GAS_PRICE"
    and run: "relayHandler cfg env s req = (resp, s', evs)"
  shows "set evs \<subseteq> {EvProbe, EvFeeFetch}
     \<and> Server_processedRequests s' = Server_processedRequests s
     \<and> (EvFeeFetch \<in> set evs \<longrightarrow> resp = FeeTooHigh)"
proof (cases "go_rate_gate cfg env s req")
  case (Pair a s1)
  note rg = this
  have store: "Server_processedRequests s1 = Server_processedRequests s"
    using go_rate_gate_store[OF rg] .
  show ?thesis
  proof (cases a)
    case (Some r)
    with rg run store show ?thesis by (auto simp: relayHandler_def)
  next
    case None
    note a_none = this
    show ?thesis
    proof (cases "go_sync_gates cfg env s1 req")
      case (Some r)
      with rg a_none run store show ?thesis by (auto simp: relayHandler_def)
    next
      case None
      obtain r pevs where ex: "go_probe_fee_execute env req = (r, pevs)"
        by (cases "go_probe_fee_execute env req")
      from go_fee_gate[OF fee ex] obtain rr where
        rr: "r = Inl rr" "EvFeeFetch \<in> set pevs \<longrightarrow> rr = FeeTooHigh"
          "set pevs \<subseteq> {EvProbe, EvFeeFetch}"
        by blast
      from rg a_none None ex rr(1) run have "resp = rr" "s' = s1" "evs = pevs"
        by (simp_all add: relayHandler_def)
      with rr store show ?thesis by simp
    qed
  qed
qed

text \<open>
  Claim C7. When the fee the network suggests to the fee gate is above the ceiling of
  100 gwei, the handler has no effect but, at most, the already-minted probe and the
  fee fetch: the executor is not entered, no transaction is submitted and the store of
  processed requests is unchanged; and a request for which the fee was fetched is
  answered with status 503, ``Network gas prices too high''. This holds in both servers.
\<close>

theorem fee_ceiling_gate:
  "MAX_GAS_PRICE = 100000000000
   \<and> (getFeeData env = Inr (Some p) \<and> p > MAX_GAS_PRICE
        \<and> js_relay cfg env st body = (resp, st', evs)
      \<longrightarrow> EvExecutor \<notin> set evs \<and> (\<forall>g. EvSend g \<notin> set evs)
          \<and> processedRequests st' = processedRequests st
          \<and> (EvFeeFetch \<in> set evs
               \<longrightarrow> resp = ErrorResponse 503 ''Network gas prices too high. Please try again later.''))
   \<and> (gate_SuggestGasPrice genv = Inr q \<and> q > MAX_GAS_PRICE
        \<and> relayHandler gcfg genv s req = (gresp, s', gevs)
      \<longrightarrow> EvExecutor \<notin> set gevs \<and> (\<forall>g. EvSend g \<notin> set gevs)
          \<and> Server_processedRequests s' = Server_processedRequests s
          \<and> (EvFeeFetch \<in> set gevs
               \<longrightarrow> gresp = ErrorResponse 503 ''Network gas prices too high. Please try again later.''))"
proof (intro conjI impI)
  show "MAX_GAS_PRICE = 100000000000" by (simp add: MAX_GAS_PRICE_def)
next
  assume a: "getFeeData env = Inr (Some p) \<and> p > MAX_GAS_PRICE
        \<and> js_relay cfg env st body = (resp, st', evs)"
  then have f: "set evs \<subseteq> {EvProbe, EvFeeFetch}" "processedRequests st' = processedRequests st"
    "EvFeeFetch \<in> set evs \<longrightarrow> resp = FeeTooHigh"
    using js_relay_fee_gate[of env p cfg st body resp st' evs] by simp_all
  from f(1) show "EvExecutor \<notin> set evs" by auto
  from f(1) show "\<forall>g. EvSend g \<notin> set evs" by auto
  from f(2) show "processedRequests st' = processedRequests st" .
  assume "EvFeeFetch \<in> set evs"
  with f(3) show "resp = ErrorResponse 503 ''Network gas prices too high. Please try again later.''"
    by (simp add: FeeTooHigh_def)
next
  assume a: "gate_SuggestGasPrice genv = Inr q \<and> q > MAX_GAS_PRICE
        \<and> relayHandler gcfg genv s req = (gresp, s', gevs)"
  then have f: "set gevs \<subseteq> {EvProbe, EvFeeFetch}"
    "Server_processedRequests s' = Server_processedRequests s"
    "EvFeeFetch \<in> set gevs \<longrightarrow> gresp = FeeTooHigh"
    using relayHandler_fee_gate[of genv q gcfg s req gresp s' gevs] by simp_all
  from f(1) show "EvExecutor \<notin> set gevs" by auto
  from f(1) show "\<forall>g. EvSend g \<notin> set gevs" by auto
  from f(2) show "Server_processedRequests s' = Server_processedRequests s" .
  assume "EvFeeFetch \<in> set gevs"
  with f(3) show "gresp = ErrorResponse 503 ''Network gas prices too high. Please try again later.''"
    by (simp add: FeeTooHigh_def)
qed


lemma sample_js_admitted:
  assumes "keccak256 env = (\<lambda>d. Inr ''0x1234'')" "now_deadline env div 1000 \<le> 1700003600"
    and "now_checkRateLimit env = 1700000000000"
  shows "js_admission sample_js_config env js_init sample_js_body =
      (Inr (sample_js_forward, ''0xabc1-7''), js_init\<lparr>rateLimits := [''0xabc1'' \<mapsto> [1700000000000]]\<rparr>)"
  by (subst sample_js_admission[OF assms(1,2)])
     (simp add: assms(3) js_init_def sample_js_first_check)

lemma sample_go_admitted:
  assumes "Unix (Now_deadline env) \<le> 1700003600" "Now_checkRateLimit env = 1700000000000000000"
  shows "go_rate_gate sample_go_config env go_init sample_go_request =
      (None, go_init\<lparr>rateLimit_requests := [''0xabc1'' \<mapsto> [1700000000]]\<rparr>)"
    and "go_sync_gates sample_go_config env
      (go_init\<lparr>rateLimit_requests := [''0xabc1'' \<mapsto> [1700000000]]\<rparr>) sample_go_request = None"
  using assms
  by (simp_all add: sample_go_rate_gate sample_go_sync_gates go_init_def sample_go_first_check
      isProcessed_def)

theorem fee_ceiling_gate_witness:
  "EvExecutor \<notin> set (snd (snd (js_relay sample_js_config
        (sample_js_env\<lparr>getFeeData := Inr (Some 150000000000)\<rparr>) js_init sample_js_body)))
   \<and> fst (js_relay sample_js_config
        (sample_js_env\<lparr>getFeeData := Inr (Some 150000000000)\<rparr>) js_init sample_js_body)
       = ErrorResponse 503 ''Network gas prices too high. Please try again later.''
   \<and> EvExecutor \<notin> set (snd (snd (relayHandler sample_go_config
        (sample_go_env\<lparr>gate_SuggestGasPrice := Inr 150000000000\<rparr>) go_init sample_go_request)))
   \<and> fst (relayHandler sample_go_config
        (sample_go_env\<lparr>gate_SuggestGasPrice := Inr 150000000000\<rparr>) go_init sample_go_request)
       = ErrorResponse 503 ''Network gas prices too high. Please try again later.''"
proof -
  let ?env = "sample_js_env\<lparr>getFeeData := Inr (Some 150000000000)\<rparr>"
  let ?genv = "sample_go_env\<lparr>gate_SuggestGasPrice := Inr 150000000000\<rparr>"
  let ?run = "js_relay sample_js_config ?env js_init sample_js_body"
  let ?grun = "relayHandler sample_go_config ?genv go_init sample_go_request"
  have adm: "js_admission sample_js_config ?env js_init sample_js_body =
      (Inr (sample_js_forward, ''0xabc1-7''), js_init\<lparr>rateLimits := [''0xabc1'' \<mapsto> [1700000000000]]\<rparr>)"
    by (rule sample_js_admitted) (simp_all add: sample_js_env_def)
  have ex: "js_probe_fee_execute ?env sample_js_forward = (Inl FeeTooHigh, [EvProbe, EvFeeFetch])"
    by (simp add: js_probe_fee_execute_def MAX_GAS_PRICE_def sample_js_env_def)
  have evs: "snd (snd ?run) = [EvProbe, EvFeeFetch]"
    by (simp add: js_relay_def adm ex)
  have gadm: "go_rate_gate sample_go_config ?genv go_init sample_go_request =
      (None, go_init\<lparr>rateLimit_requests := [''0xabc1'' \<mapsto> [1700000000]]\<rparr>)"
    "go_sync_gates sample_go_config ?genv
      (go_init\<lparr>rateLimit_requests := [''0xabc1'' \<mapsto> [1700000000]]\<rparr>) sample_go_request = None"
    by (rule sample_go_admitted; simp add: sample_go_env_def Unix_def)+
  have gex: "go_probe_fee_execute ?genv sample_go_request = (Inl FeeTooHigh, [EvProbe, EvFeeFetch])"
    by (simp add: go_probe_fee_execute_def MAX_GAS_PRICE_def sample_go_env_def)
  have gevs: "snd (snd ?grun) = [EvProbe, EvFeeFetch]"
    by (simp add: relayHandler_def gadm gex)
  have h1: "getFeeData ?env = Inr (Some 150000000000) \<and> 150000000000 > MAX_GAS_PRICE
      \<and> ?run = (fst ?run, fst (snd ?run), snd (snd ?run))"
    by (simp add: MAX_GAS_PRICE_def)
  have h2: "gate_SuggestGasPrice ?genv = Inr 150000000000 \<and> 150000000000 > MAX_GAS_PRICE
      \<and> ?grun = (fst ?grun, fst (snd ?grun), snd (snd ?grun))"
    by (simp add: MAX_GAS_PRICE_def)
  have h3: "EvFeeFetch \<in> set (snd (snd ?run))" "EvFeeFetch \<in> set (snd (snd ?grun))"
    by (simp_all add: evs gevs)
  note T = fee_ceiling_gate[where env = ?env and p = 150000000000 and cfg = sample_js_config
      and st = js_init and body = sample_js_body and resp = "fst ?run" and st' = "fst (snd ?run)"
      and evs = "snd (snd ?run)" and genv = ?genv and q = 150000000000
      and gcfg = sample_go_config and s = go_init and req = sample_go_request
      and gresp = "fst ?grun" and s' = "fst (snd ?grun)" and gevs = "snd (snd ?grun)"]
  note J = T[THEN conjunct2, THEN conjunct1, THEN mp, OF h1]
  note G = T[THEN conjunct2, THEN conjunct2, THEN mp, OF h2]
  from J h3(1) have j: "EvExecutor \<notin> set (snd (snd ?run))"
    "fst ?run = ErrorResponse 503 ''Network gas prices too high. Please try again later.''"
    by blast+
  from G h3(2) have g: "EvExecutor \<notin> set (snd (snd ?grun))"
    "fst ?grun = ErrorResponse 503 ''Network gas prices too high. Please try again later.''"
    by blast+
  from j g show ?thesis by blast
qed

section \<open>The hash gate\<close>

lemma js_relay_rejected_in_admission:
  "js_admission cfg env st body = (Inl r, st1) \<Longrightarrow>
     js_relay cfg env st body = (r, st1, [])"
  by (simp add: js_relay_def)

lemma js_hash_mismatch_admission:
  assumes "forward body = Some fwd" "keccak256 env (callData body) = Inr h"
    and "fwd_dataHash fwd \<noteq> []" "toLowerCase h \<noteq> toLowerCase (fwd_dataHash fwd)"
  shows "\<exists>r st1. js_admission cfg env st body = (Inl r, st1)
     \<and> (js_front_gates_pass cfg env st body fwd \<longrightarrow> r = HashMismatch)"
proof (cases "js_front_gates_pass cfg env st body fwd")
  case True
  then show ?thesis using assms by (simp add: js_admission_front Let_def)
next
  case False
  obtain a st1 where adm: "js_admission cfg env st body = (a, st1)"
    by (cases "js_admission cfg env st body")
  show ?thesis
  proof (cases a)
    case (Inl r)
    with adm False show ?thesis by simp
  next
    case (Inr admitted)
    obtain fwd' rid where "admitted = (fwd', rid)" by (cases admitted)
    with adm Inr have "js_admission cfg env st body = (Inr (fwd', rid), st1)" by simp
    from js_admission_admits[OF this] assms(1) False show ?thesis
      by (simp add: js_front_gates_pass_def)
  qed
qed

lemma go_hash_mismatch_gates:
  assumes "DecodeString (TrimPrefix (CallData req) ''0x'') = Inr bs"
    and "Keccak256Hash cfg bs \<noteq> DataHash (Forward req)"
    and "go_rate_gate cfg env s req = (None, s1)"
  shows "\<exists>r. go_sync_gates cfg env s1 req = Some r
     \<and> (go_front_gates_pass cfg env s req \<longrightarrow> r = HashMismatch)"
proof (cases "go_front_gates_pass cfg env s req")
  case True
  from go_rate_gate_store[OF assms(3)] go_gates_pass(2)[OF True] assms(1,2)
  show ?thesis by simp
next
  case False
  show ?thesis
  proof (cases "go_sync_gates cfg env s1 req")
    case None
    from go_gates_admit[OF assms(3) None] False show ?thesis by simp
  next
    case (Some r)
    with False show ?thesis by simp
  qed
qed

text \<open>
  Claim C3, as amended. A request whose call data hashes to something else than its
  \<^verbatim>\<open>dataHash\<close> (a non-empty \<^verbatim>\<open>dataHash\<close> in the Node server, compared there without
  regard to letter case) ends in the synchronous part of the handler: nothing is
  probed, fetched, executed or marked. When the request has passed the gates before
  the hash gate, the answer is status 400, ``DataHash mismatch - signature invalid'';
  otherwise it is the answer of the earlier gate that failed.
\<close>

theorem hash_gate:
  "(forward body = Some fwd \<and> keccak256 env (callData body) = Inr h
      \<and> fwd_dataHash fwd \<noteq> [] \<and> toLowerCase h \<noteq> toLowerCase (fwd_dataHash fwd)
      \<and> js_relay cfg env st body = (resp, st', evs)
    \<longrightarrow> evs = [] \<and> processedRequests st' = processedRequests st
        \<and> (js_front_gates_pass cfg env st body fwd
             \<longrightarrow> resp = ErrorResponse 400 ''DataHash mismatch - signature invalid''))
   \<and> (DecodeString (TrimPrefix (CallData req) ''0x'') = Inr bs
      \<and> Keccak256Hash gcfg bs \<noteq> DataHash (Forward req)
      \<and> relayHandler gcfg genv s req = (gresp, s', gevs)
    \<longrightarrow> gevs = [] \<and> Server_processedRequests s' = Server_processedRequests s
        \<and> (go_front_gates_pass gcfg genv s req
             \<longrightarrow> gresp = ErrorResponse 400 ''DataHash mismatch - signature invalid''))"
proof (intro conjI impI)
  assume a: "forward body = Some fwd \<and> keccak256 env (callData body) = Inr h
      \<and> fwd_dataHash fwd \<noteq> [] \<and> toLowerCase h \<noteq> toLowerCase (fwd_dataHash fwd)
      \<and> js_relay cfg env st body = (resp, st', evs)"
  then obtain r st1 where adm: "js_admission cfg env st body = (Inl r, st1)"
    and front: "js_front_gates_pass cfg env st body fwd \<longrightarrow> r = HashMismatch"
    using js_hash_mismatch_admission[of body fwd env h cfg st] by blast
  from js_relay_rejected_in_admission[OF adm] a
  have eq: "resp = r" "st' = st1" "evs = []" by simp_all
  from eq show "evs = []" by simp
  from eq js_admission_store[OF adm] show "processedRequests st' = processedRequests st" by simp
  assume "js_front_gates_pass cfg env st body fwd"
  with front eq show "resp = ErrorResponse 400 ''DataHash mismatch - signature invalid''"
    by (simp add: HashMismatch_def)
next
  assume a: "DecodeString (TrimPrefix (CallData req) ''0x'') = Inr bs
      \<and> Keccak256Hash gcfg bs \<noteq> DataHash (Forward req)
      \<and> relayHandler gcfg genv s req = (gresp, s', gevs)"
  obtain g s1 where rg: "go_rate_gate gcfg genv s req = (g, s1)"
    by (cases "go_rate_gate gcfg genv s req")
  have store: "Server_processedRequests s1 = Server_processedRequests s"
    using go_rate_gate_store[OF rg] .
  have "gevs = [] \<and> s' = s1
     \<and> (go_front_gates_pass gcfg genv s req \<longrightarrow> gresp = HashMismatch)"
  proof (cases g)
    case (Some r)
    with rg have "\<not> go_front_gates_pass gcfg genv s req"
      using go_gates_pass(1)[of gcfg genv s req] by auto
    with Some rg a show ?thesis by (auto simp: relayHandler_def)
  next
    case None
    with rg have rg': "go_rate_gate gcfg genv s req = (None, s1)" by simp
    from a go_hash_mismatch_gates[OF _ _ rg', of bs] obtain r where
      r: "go_sync_gates gcfg genv s1 req = Some r"
        "go_front_gates_pass gcfg genv s req \<longrightarrow> r = HashMismatch"
      by blast
    with rg' a show ?thesis by (auto simp: relayHandler_def)
  qed
  then have f: "gevs = []" "s' = s1"
    "go_front_gates_pass gcfg genv s req \<longrightarrow> gresp = HashMismatch"
    by simp_all
  from f show "gevs = []" by simp
  from f store show "Server_processedRequests s' = Server_processedRequests s" by simp
  assume "go_front_gates_pass gcfg genv s req"
  with f show "gresp = ErrorResponse 400 ''DataHash mismatch - signature invalid''"
    by (simp add: HashMismatch_def)
qed


lemma sample_js_front_gates:
  assumes "forward body = Some fwd" "signature body = ''0x51''" "callData body = ''0xda7a''"
    and "fwd_from fwd = ''0xabc1''" "fwd_to fwd = ''0xaa01''" "fwd_nonce fwd = ''7''"
    and "fwd_caller fwd = ''0xbb02''" "\<bar>fwd_deadline fwd\<bar> \<le> 8640000000000"
  shows "js_front_gates_pass sample_js_config sample_js_env js_init body fwd"
  using assms
  by (simp add: js_front_gates_pass_def sample_js_config_def js_init_def valid_time_value_def
      js_checkRateLimit_eq stamps_of_empty toLowerCase_def lower_char_def)

lemma sample_go_front_gates:
  assumes "Signature req = ''0x51''" "CallData req = ''0xda7a''"
    and "From (Forward req) = [171, 193]" "To (Forward req) = [170, 1]"
    and "Caller (Forward req) = [187, 2]"
  shows "go_front_gates_pass sample_go_config sample_go_env go_init req"
  using assms
  by (simp add: go_front_gates_pass_def sample_go_config_def go_init_def isProcessed_def
      go_checkRateLimit_eq stamps_of_empty bytes32Equal_def)

theorem hash_gate_witness:
  "js_relay sample_js_config sample_js_env js_init
      (sample_js_body\<lparr>forward := Some (sample_js_forward\<lparr>fwd_dataHash := ''0xFFFF''\<rparr>)\<rparr>)
     = (ErrorResponse 400 ''DataHash mismatch - signature invalid'',
        fst (snd (js_relay sample_js_config sample_js_env js_init
          (sample_js_body\<lparr>forward := Some (sample_js_forward\<lparr>fwd_dataHash := ''0xFFFF''\<rparr>)\<rparr>))), [])
   \<and> relayHandler sample_go_config sample_go_env go_init
      (sample_go_request\<lparr>Forward := sample_go_Forward\<lparr>DataHash := [0, 0, 0]\<rparr>\<rparr>)
     = (ErrorResponse 400 ''DataHash mismatch - signature invalid'',
        fst (snd (relayHandler sample_go_config sample_go_env go_init
          (sample_go_request\<lparr>Forward := sample_go_Forward\<lparr>DataHash := [0, 0, 0]\<rparr>\<rparr>))), [])"
proof -
  let ?fwd = "sample_js_forward\<lparr>fwd_dataHash := ''0xFFFF''\<rparr>"
  let ?body = "sample_js_body\<lparr>forward := Some ?fwd\<rparr>"
  let ?req = "sample_go_request\<lparr>Forward := sample_go_Forward\<lparr>DataHash := [0, 0, 0]\<rparr>\<rparr>"
  let ?run = "js_relay sample_js_config sample_js_env js_init ?body"
  let ?grun = "relayHandler sample_go_config sample_go_env go_init ?req"
  have front: "js_front_gates_pass sample_js_config sample_js_env js_init ?body ?fwd"
    by (rule sample_js_front_gates) (simp_all add: sample_js_body_def sample_js_forward_def)
  have h1: "forward ?body = Some ?fwd \<and> keccak256 sample_js_env (callData ?body) = Inr ''0x1234''
      \<and> fwd_dataHash ?fwd \<noteq> [] \<and> toLowerCase ''0x1234'' \<noteq> toLowerCase (fwd_dataHash ?fwd)
      \<and> ?run = (fst ?run, fst (snd ?run), snd (snd ?run))"
    by (simp add: sample_js_env_def toLowerCase_def lower_char_def)
  have gfront: "go_front_gates_pass sample_go_config sample_go_env go_init ?req"
    by (rule sample_go_front_gates) (simp_all add: sample_go_request_def sample_go_Forward_def)
  have h2: "DecodeString (TrimPrefix (CallData ?req) ''0x'') = Inr [218, 122]
      \<and> Keccak256Hash sample_go_config [218, 122] \<noteq> DataHash (Forward ?req)
      \<and> ?grun = (fst ?grun, fst (snd ?grun), snd (snd ?grun))"
    by (simp add: sample_go_request_def TrimPrefix_def hex_digit_def sample_go_config_def
        sample_hash_def)
  note T = hash_gate[where body = ?body and fwd = ?fwd and env = sample_js_env and h = "''0x1234''"
      and cfg = sample_js_config and st = js_init and resp = "fst ?run" and st' = "fst (snd ?run)"
      and evs = "snd (snd ?run)" and req = ?req and bs = "[218, 122]" and gcfg = sample_go_config
      and genv = sample_go_env and s = go_init and gresp = "fst ?grun" and s' = "fst (snd ?grun)"
      and gevs = "snd (snd ?grun)"]
  note J = T[THEN conjunct1, THEN mp, OF h1]
  note G = T[THEN conjunct2, THEN mp, OF h2]
  from J front have j: "snd (snd ?run) = []"
    "fst ?run = ErrorResponse 400 ''DataHash mismatch - signature invalid''"
    by blast+
  from G gfront have g: "snd (snd ?grun) = []"
    "fst ?grun = ErrorResponse 400 ''DataHash mismatch - signature invalid''"
    by blast+
  have "?run = (fst ?run, fst (snd ?run), snd (snd ?run))"
    "?grun = (fst ?grun, fst (snd ?grun), snd (snd ?grun))"
    by simp_all
  with j g show ?thesis by metis
qed

text \<open>Against claim C3 as stated: a Node request without \<^verbatim>\<open>dataHash\<close> (the format the
  test client of the repository sends) skips the hash gate, whatever its call data
  hashes to; it goes through the probe and the fee gate into the executor, and is not
  answered with the hash mismatch. Here the encoding of the incomplete tuple fails
  inside \<^verbatim>\<open>executeForward\<close>, and the answer is status 500.\<close>

theorem hash_gate_skipped_counterexample:
  "keccak256 sample_js_env (callData sample_js_body) = Inr ''0x1234''
   \<and> toLowerCase ''0x1234'' \<noteq> toLowerCase (fwd_dataHash (sample_js_forward\<lparr>fwd_dataHash := []\<rparr>))
   \<and> js_relay sample_js_config
        (sample_js_env\<lparr>encodeFunctionData := Inl ''invalid BytesLike value''\<rparr>) js_init
        (sample_js_body\<lparr>forward := Some (sample_js_forward\<lparr>fwd_dataHash := []\<rparr>)\<rparr>)
      = (ErrorResponse 500 ''Transaction failed'',
         js_init\<lparr>rateLimits := [''0xabc1'' \<mapsto> [1700000000000]]\<rparr>,
         [EvProbe, EvFeeFetch, EvExecutor])
   \<and> ErrorResponse 500 ''Transaction failed'' \<noteq> HashMismatch"
proof -
  let ?env = "sample_js_env\<lparr>encodeFunctionData := Inl ''invalid BytesLike value''\<rparr>"
  let ?fwd = "sample_js_forward\<lparr>fwd_dataHash := []\<rparr>"
  let ?body = "sample_js_body\<lparr>forward := Some ?fwd\<rparr>"
  have front: "js_front_gates_pass sample_js_config sample_js_env js_init ?body ?fwd"
    by (rule sample_js_front_gates) (simp_all add: sample_js_body_def sample_js_forward_def)
  then have front': "js_front_gates_pass sample_js_config ?env js_init ?body ?fwd"
    by (simp add: js_front_gates_pass_def)
  have adm: "js_admission sample_js_config ?env js_init ?body =
      (Inr (?fwd, ''0xabc1-7''), js_init\<lparr>rateLimits := [''0xabc1'' \<mapsto> [1700000000000]]\<rparr>)"
    by (simp add: js_admission_front[OF front'] Let_def)
       (simp add: sample_js_env_def sample_js_body_def sample_js_forward_def js_init_def
          sample_js_first_check)
  have ex: "js_probe_fee_execute ?env ?fwd =
      (Inl (ErrorResponse 500 ''Transaction failed''), [EvProbe, EvFeeFetch, EvExecutor])"
    by (simp add: js_probe_fee_execute_def executeForward_def MAX_GAS_PRICE_def
        sample_js_env_def js_catch_def parseError_def)
  have run: "js_relay sample_js_config ?env js_init ?body =
      (ErrorResponse 500 ''Transaction failed'',
       js_init\<lparr>rateLimits := [''0xabc1'' \<mapsto> [1700000000000]]\<rparr>,
       [EvProbe, EvFeeFetch, EvExecutor])"
    by (simp add: js_relay_def adm ex)
  have k: "keccak256 sample_js_env (callData sample_js_body) = Inr ''0x1234''"
    by (simp add: sample_js_env_def)
  have l: "toLowerCase ''0x1234'' \<noteq> toLowerCase (fwd_dataHash ?fwd)"
    by (simp add: toLowerCase_def)
  show ?thesis
    using run k l by (simp add: HashMismatch_def)
qed

section \<open>The deadline gate\<close>

lemma js_probe_first:
  "js_probe_fee_execute env fwd = (r, evs) \<Longrightarrow> evs \<noteq> [] \<and> hd evs = EvProbe"
  by (auto simp: js_probe_fee_execute_def split: sum.splits if_splits prod.splits)

lemma go_probe_first:
  "go_probe_fee_execute env req = (r, evs) \<Longrightarrow> evs \<noteq> [] \<and> hd evs = EvProbe"
  by (auto simp: go_probe_fee_execute_def split: sum.splits if_splits prod.splits)

lemma js_relay_admitted:
  assumes "js_admission cfg env st body = (Inr (fwd, rid), st1)"
    and "js_relay cfg env st body = (resp, st', evs)"
  shows "evs \<noteq> [] \<and> hd evs = EvProbe"
proof -
  obtain r pevs where ex: "js_probe_fee_execute env fwd = (r, pevs)"
    by (cases "js_probe_fee_execute env fwd")
  from js_probe_first[OF ex] have p: "pevs \<noteq> []" "hd pevs = EvProbe" by simp_all
  from assms ex have "evs = pevs \<or> evs = pevs @ [EvMark rid, EvWait]"
    by (cases r) (simp_all add: js_relay_def)
  with p show ?thesis by auto
qed

lemma relayHandler_admitted:
  assumes "go_rate_gate cfg env s req = (None, s1)" "go_sync_gates cfg env s1 req = None"
    and "relayHandler cfg env s req = (resp, s', evs)"
  shows "evs \<noteq> [] \<and> hd evs = EvProbe"
proof -
  obtain r pevs where ex: "go_probe_fee_execute env req = (r, pevs)"
    by (cases "go_probe_fee_execute env req")
  from go_probe_first[OF ex] have p: "pevs \<noteq> []" "hd pevs = EvProbe" by simp_all
  from assms ex have "evs = pevs \<or> evs = pevs @ [EvMark (requestID cfg req)]"
    by (cases r) (auto simp: relayHandler_def split: prod.splits)
  with p show ?thesis by auto
qed

lemma js_expired_admission:
  assumes "forward body = Some fwd" "fwd_deadline fwd < now_deadline env div 1000"
  shows "\<exists>r st1. js_admission cfg env st body = (Inl r, st1)
     \<and> (js_front_gates_pass cfg env st body fwd \<and> js_hash_gate_passes env body fwd
          \<longrightarrow> r = Expired)"
proof (cases "js_front_gates_pass cfg env st body fwd \<and> js_hash_gate_passes env body fwd")
  case True
  then show ?thesis using assms
    by (auto simp: js_admission_front js_hash_gate_passes_def Let_def split: sum.splits)
next
  case False
  obtain a st1 where adm: "js_admission cfg env st body = (a, st1)"
    by (cases "js_admission cfg env st body")
  show ?thesis
  proof (cases a)
    case (Inl r)
    with adm False show ?thesis by auto
  next
    case (Inr admitted)
    obtain fwd' rid where "admitted = (fwd', rid)" by (cases admitted)
    with adm Inr have "js_admission cfg env st body = (Inr (fwd', rid), st1)" by simp
    from js_admission_admits[OF this] assms show ?thesis
      by (simp add: js_front_gates_pass_def)
  qed
qed

lemma js_in_time_admission:
  assumes "js_front_gates_pass cfg env st body fwd" "js_hash_gate_passes env body fwd"
    and "now_deadline env div 1000 \<le> fwd_deadline fwd"
  shows "\<exists>st1. js_admission cfg env st body = (Inr (fwd, fwd_from fwd @ ''-'' @ fwd_nonce fwd), st1)"
  using assms
  by (auto simp: js_admission_front js_hash_gate_passes_def Let_def split: sum.splits)

lemma go_expired_gates:
  assumes "fits_int64 (Deadline (Forward req))"
    and "Deadline (Forward req) < Unix (Now_deadline env)"
    and "go_rate_gate cfg env s req = (None, s1)"
  shows "\<exists>r. go_sync_gates cfg env s1 req = Some r
     \<and> (go_front_gates_pass cfg env s req \<and> go_hash_gate_passes cfg req \<longrightarrow> r = Expired)"
proof (cases "go_front_gates_pass cfg env s req \<and> go_hash_gate_passes cfg req")
  case True
  from True go_rate_gate_store[OF assms(3)] assms(1,2) show ?thesis
    by (auto simp: go_gates_pass(2) go_hash_gate_passes_def Int64_fits split: sum.splits)
next
  case False
  show ?thesis
  proof (cases "go_sync_gates cfg env s1 req")
    case None
    from go_gates_admit[OF assms(3) None] assms(1,2) False show ?thesis
      by (simp add: Int64_fits)
  next
    case (Some r)
    with False show ?thesis by auto
  qed
qed

lemma go_in_time_gates:
  assumes "go_front_gates_pass cfg env s req" "go_hash_gate_passes cfg req"
    and "fits_int64 (Deadline (Forward req))"
    and "Unix (Now_deadline env) \<le> Deadline (Forward req)"
  shows "\<exists>s1. go_rate_gate cfg env s req = (None, s1) \<and> go_sync_gates cfg env s1 req = None"
proof -
  let ?s1 = "s\<lparr>rateLimit_requests := snd (go_checkRateLimit (Now_checkRateLimit env)
                  (rateLimit_requests s) (Hex cfg (From (Forward req))))\<rparr>"
  have "go_sync_gates cfg env ?s1 req = None"
    using assms by (auto simp: go_gates_pass(2) go_hash_gate_passes_def Int64_fits split: sum.splits)
  with go_gates_pass(1)[OF assms(1)] show ?thesis by blast
qed

text \<open>
  The deadline gate on the deadlines both servers read as they are: those that a signed
  64-bit integer holds (Go) and whose milliseconds are a valid time value of JavaScript
  (Node, part of \<open>js_front_gates_pass\<close>). A request whose deadline is before the current
  time in seconds ends in the synchronous part of the handler, so the already-minted
  probe does not run; when it has passed the gates that come before the deadline gate
  the answer is status 400, ``Transaction deadline expired''. A request that has passed
  those gates and whose deadline is not before the current time passes the deadline
  gate: the next thing the handler does is the probe.
\<close>

lemma deadline_gate_in_range:
  "(forward body = Some fwd \<and> fwd_deadline fwd < now_deadline env div 1000
      \<and> js_relay cfg env st body = (resp, st', evs)
    \<longrightarrow> evs = []
        \<and> (js_front_gates_pass cfg env st body fwd \<and> js_hash_gate_passes env body fwd
             \<longrightarrow> resp = ErrorResponse 400 ''Transaction deadline expired''))
   \<and> (js_front_gates_pass cfg env st body fwd \<and> js_hash_gate_passes env body fwd
      \<and> now_deadline env div 1000 \<le> fwd_deadline fwd
      \<and> js_relay cfg env st body = (resp, st', evs)
    \<longrightarrow> evs \<noteq> [] \<and> hd evs = EvProbe)
   \<and> (fits_int64 (Deadline (Forward req))
      \<and> Deadline (Forward req) < Unix (Now_deadline genv)
      \<and> relayHandler gcfg genv s req = (gresp, s', gevs)
    \<longrightarrow> gevs = []
        \<and> (go_front_gates_pass gcfg genv s req \<and> go_hash_gate_passes gcfg req
             \<longrightarrow> gresp = ErrorResponse 400 ''Transaction deadline expired''))
   \<and> (go_front_gates_pass gcfg genv s req \<and> go_hash_gate_passes gcfg req
      \<and> fits_int64 (Deadline (Forward req))
      \<and> Unix (Now_deadline genv) \<le> Deadline (Forward req)
      \<and> relayHandler gcfg genv s req = (gresp, s', gevs)
    \<longrightarrow> gevs \<noteq> [] \<and> hd gevs = EvProbe)"
proof (intro conjI impI)
  assume a: "forward body = Some fwd \<and> fwd_deadline fwd < now_deadline env div 1000
      \<and> js_relay cfg env st body = (resp, st', evs)"
  then obtain r st1 where adm: "js_admission cfg env st body = (Inl r, st1)"
    and front: "js_front_gates_pass cfg env st body fwd \<and> js_hash_gate_passes env body fwd
          \<longrightarrow> r = Expired"
    using js_expired_admission[of body fwd env cfg st] by blast
  from js_relay_rejected_in_admission[OF adm] a have eq: "resp = r" "evs = []" by simp_all
  from eq show "evs = []" by simp
  assume "js_front_gates_pass cfg env st body fwd \<and> js_hash_gate_passes env body fwd"
  with front eq show "resp = ErrorResponse 400 ''Transaction deadline expired''"
    by (simp add: Expired_def)
next
  assume a: "js_front_gates_pass cfg env st body fwd \<and> js_hash_gate_passes env body fwd
      \<and> now_deadline env div 1000 \<le> fwd_deadline fwd
      \<and> js_relay cfg env st body = (resp, st', evs)"
  then obtain st1 where
    "js_admission cfg env st body = (Inr (fwd, fwd_from fwd @ ''-'' @ fwd_nonce fwd), st1)"
    using js_in_time_admission[of cfg env st body fwd] by blast
  from js_relay_admitted[OF this] a have r: "evs \<noteq> [] \<and> hd evs = EvProbe" by blast
  from r show "evs \<noteq> []" by simp
  from r show "hd evs = EvProbe" by simp
next
  assume a: "fits_int64 (Deadline (Forward req))
      \<and> Deadline (Forward req) < Unix (Now_deadline genv)
      \<and> relayHandler gcfg genv s req = (gresp, s', gevs)"
  obtain g s1 where rg: "go_rate_gate gcfg genv s req = (g, s1)"
    by (cases "go_rate_gate gcfg genv s req")
  have "gevs = [] \<and> (go_front_gates_pass gcfg genv s req \<and> go_hash_gate_passes gcfg req
          \<longrightarrow> gresp = Expired)"
  proof (cases g)
    case (Some r)
    with rg have "\<not> go_front_gates_pass gcfg genv s req"
      using go_gates_pass(1)[of gcfg genv s req] by auto
    with Some rg a show ?thesis by (auto simp: relayHandler_def)
  next
    case None
    with rg have rg': "go_rate_gate gcfg genv s req = (None, s1)" by simp
    from a go_expired_gates[OF _ _ rg'] obtain r where
      r: "go_sync_gates gcfg genv s1 req = Some r"
        "go_front_gates_pass gcfg genv s req \<and> go_hash_gate_passes gcfg req \<longrightarrow> r = Expired"
      by blast
    with rg' a show ?thesis by (auto simp: relayHandler_def)
  qed
  then have f: "gevs = []"
    "go_front_gates_pass gcfg genv s req \<and> go_hash_gate_passes gcfg req \<longrightarrow> gresp = Expired"
    by simp_all
  from f show "gevs = []" by simp
  assume "go_front_gates_pass gcfg genv s req \<and> go_hash_gate_passes gcfg req"
  with f show "gresp = ErrorResponse 400 ''Transaction deadline expired''"
    by (simp add: Expired_def)
next
  assume a: "go_front_gates_pass gcfg genv s req \<and> go_hash_gate_passes gcfg req
      \<and> fits_int64 (Deadline (Forward req))
      \<and> Unix (Now_deadline genv) \<le> Deadline (Forward req)
      \<and> relayHandler gcfg genv s req = (gresp, s', gevs)"
  then obtain s1 where "go_rate_gate gcfg genv s req = (None, s1)"
    "go_sync_gates gcfg genv s1 req = None"
    using go_in_time_gates[of gcfg genv s req] by blast
  from relayHandler_admitted[OF this] a have r: "gevs \<noteq> [] \<and> hd gevs = EvProbe" by blast
  from r show "gevs \<noteq> []" by simp
  from r show "hd gevs = EvProbe" by simp
qed


lemma sample_js_hash_gate:
  assumes "callData body = ''0xda7a''" "fwd_dataHash fwd = ''0x1234''"
  shows "js_hash_gate_passes sample_js_env body fwd"
  using assms by (simp add: js_hash_gate_passes_def sample_js_env_def)

lemma sample_go_hash_gate:
  assumes "CallData req = ''0xda7a''" "DataHash (Forward req) = sample_hash"
  shows "go_hash_gate_passes sample_go_config req"
  using assms
  by (simp add: go_hash_gate_passes_def TrimPrefix_def hex_digit_def sample_go_config_def)

lemma deadline_gate_in_range_example:
  "js_relay sample_js_config sample_js_env js_init
      (sample_js_body\<lparr>forward := Some (sample_js_forward\<lparr>fwd_deadline := 1600000000\<rparr>)\<rparr>)
     = (ErrorResponse 400 ''Transaction deadline expired'',
        fst (snd (js_relay sample_js_config sample_js_env js_init
          (sample_js_body\<lparr>forward := Some (sample_js_forward\<lparr>fwd_deadline := 1600000000\<rparr>)\<rparr>))), [])
   \<and> hd (snd (snd (js_relay sample_js_config sample_js_env js_init sample_js_body))) = EvProbe
   \<and> relayHandler sample_go_config sample_go_env go_init
      (sample_go_request\<lparr>Forward := sample_go_Forward\<lparr>Deadline := 1600000000\<rparr>\<rparr>)
     = (ErrorResponse 400 ''Transaction deadline expired'',
        fst (snd (relayHandler sample_go_config sample_go_env go_init
          (sample_go_request\<lparr>Forward := sample_go_Forward\<lparr>Deadline := 1600000000\<rparr>\<rparr>))), [])
   \<and> hd (snd (snd (relayHandler sample_go_config sample_go_env go_init sample_go_request))) = EvProbe"
proof -
  let ?fwd = "sample_js_forward\<lparr>fwd_deadline := 1600000000\<rparr>"
  let ?body = "sample_js_body\<lparr>forward := Some ?fwd\<rparr>"
  let ?req = "sample_go_request\<lparr>Forward := sample_go_Forward\<lparr>Deadline := 1600000000\<rparr>\<rparr>"
  let ?run = "js_relay sample_js_config sample_js_env js_init ?body"
  let ?ok = "js_relay sample_js_config sample_js_env js_init sample_js_body"
  let ?grun = "relayHandler sample_go_config sample_go_env go_init ?req"
  let ?gok = "relayHandler sample_go_config sample_go_env go_init sample_go_request"
  have split: "?run = (fst ?run, fst (snd ?run), snd (snd ?run))"
    "?ok = (fst ?ok, fst (snd ?ok), snd (snd ?ok))"
    "?grun = (fst ?grun, fst (snd ?grun), snd (snd ?grun))"
    "?gok = (fst ?gok, fst (snd ?gok), snd (snd ?gok))"
    by simp_all
  have front: "js_front_gates_pass sample_js_config sample_js_env js_init ?body ?fwd
      \<and> js_hash_gate_passes sample_js_env ?body ?fwd"
    by (rule conjI, rule sample_js_front_gates, simp_all add: sample_js_body_def sample_js_forward_def)
       (rule sample_js_hash_gate, simp_all)
  have front_ok: "js_front_gates_pass sample_js_config sample_js_env js_init sample_js_body sample_js_forward
      \<and> js_hash_gate_passes sample_js_env sample_js_body sample_js_forward"
    by (rule conjI, rule sample_js_front_gates, simp_all add: sample_js_body_def sample_js_forward_def)
       (rule sample_js_hash_gate, simp_all)
  have gfront: "go_front_gates_pass sample_go_config sample_go_env go_init ?req
      \<and> go_hash_gate_passes sample_go_config ?req"
    by (rule conjI, rule sample_go_front_gates, simp_all add: sample_go_request_def sample_go_Forward_def)
       (rule sample_go_hash_gate, simp_all)
  have gfront_ok: "go_front_gates_pass sample_go_config sample_go_env go_init sample_go_request
      \<and> go_hash_gate_passes sample_go_config sample_go_request"
    by (rule conjI, rule sample_go_front_gates, simp_all add: sample_go_request_def sample_go_Forward_def)
       (rule sample_go_hash_gate, simp_all)
  have h1: "forward ?body = Some ?fwd \<and> fwd_deadline ?fwd < now_deadline sample_js_env div 1000
      \<and> ?run = (fst ?run, fst (snd ?run), snd (snd ?run))"
    by (simp add: sample_js_env_def)
  have h2: "js_front_gates_pass sample_js_config sample_js_env js_init sample_js_body sample_js_forward
      \<and> js_hash_gate_passes sample_js_env sample_js_body sample_js_forward
      \<and> now_deadline sample_js_env div 1000 \<le> fwd_deadline sample_js_forward
      \<and> ?ok = (fst ?ok, fst (snd ?ok), snd (snd ?ok))"
    using front_ok by (simp add: sample_js_env_def sample_js_forward_def)
  have h3: "fits_int64 (Deadline (Forward ?req))
      \<and> Deadline (Forward ?req) < Unix (Now_deadline sample_go_env)
      \<and> ?grun = (fst ?grun, fst (snd ?grun), snd (snd ?grun))"
    by (simp add: fits_int64_def sample_go_env_def Unix_def)
  have h4: "go_front_gates_pass sample_go_config sample_go_env go_init sample_go_request
      \<and> go_hash_gate_passes sample_go_config sample_go_request
      \<and> fits_int64 (Deadline (Forward sample_go_request))
      \<and> Unix (Now_deadline sample_go_env) \<le> Deadline (Forward sample_go_request)
      \<and> ?gok = (fst ?gok, fst (snd ?gok), snd (snd ?gok))"
    using gfront_ok
    by (simp add: fits_int64_def sample_go_env_def sample_go_request_def sample_go_Forward_def Unix_def)
  note T1 = deadline_gate_in_range[where body = ?body and fwd = ?fwd and env = sample_js_env
      and cfg = sample_js_config and st = js_init and resp = "fst ?run" and st' = "fst (snd ?run)"
      and evs = "snd (snd ?run)" and req = ?req and genv = sample_go_env and gcfg = sample_go_config
      and s = go_init and gresp = "fst ?grun" and s' = "fst (snd ?grun)" and gevs = "snd (snd ?grun)"]
  note T2 = deadline_gate_in_range[where body = sample_js_body and fwd = sample_js_forward and env = sample_js_env
      and cfg = sample_js_config and st = js_init and resp = "fst ?ok" and st' = "fst (snd ?ok)"
      and evs = "snd (snd ?ok)" and req = sample_go_request and genv = sample_go_env
      and gcfg = sample_go_config and s = go_init and gresp = "fst ?gok" and s' = "fst (snd ?gok)"
      and gevs = "snd (snd ?gok)"]
  note A = T1[THEN conjunct1, THEN mp, OF h1]
  note B = T2[THEN conjunct2, THEN conjunct1, THEN mp, OF h2]
  note C = T1[THEN conjunct2, THEN conjunct2, THEN conjunct1, THEN mp, OF h3]
  note D = T2[THEN conjunct2, THEN conjunct2, THEN conjunct2, THEN mp, OF h4]
  from A front have a: "snd (snd ?run) = []"
    "fst ?run = ErrorResponse 400 ''Transaction deadline expired''"
    by blast+
  from C gfront have c: "snd (snd ?grun) = []"
    "fst ?grun = ErrorResponse 400 ''Transaction deadline expired''"
    by blast+
  from a split(1) have ra: "?run = (ErrorResponse 400 ''Transaction deadline expired'', fst (snd ?run), [])"
    by metis
  from c split(3) have rc: "?grun = (ErrorResponse 400 ''Transaction deadline expired'', fst (snd ?grun), [])"
    by metis
  from ra rc B D show ?thesis by blast
qed

text \<open>
  Claim C6: a request whose deadline is before the current time in seconds is rejected
  as expired before the already-minted probe runs, and a request whose deadline is not
  before the current time passes the deadline gate. The second half fails on two inputs,
  by a slip of each server. The Go server compares the clock with \<^verbatim>\<open>Deadline.Int64()\<close>:
  a deadline of \<open>2 ^ 63 = 9223372036854775808\<close> seconds, far in the future, is read as a
  negative number, and the request, which has passed every earlier gate, is answered
  ``Transaction deadline expired''. The Node server logs the deadline with
  \<^verbatim>\<open>new Date(forward.deadline * 1000).toISOString()\<close> before its first gate: for a
  deadline of \<open>10 ^ 13\<close> seconds the milliseconds are no valid time value, the call
  throws, and the request is answered with status 500 without reaching the deadline
  gate. The current time is 1700000000 seconds in both runs.
\<close>

theorem deadline_gate_failing_inputs:
  "Unix (Now_deadline sample_go_env) = 1700000000
   \<and> Deadline (Forward (sample_go_request\<lparr>Forward := sample_go_Forward\<lparr>Deadline := 9223372036854775808\<rparr>\<rparr>))
       = 9223372036854775808
   \<and> Int64 9223372036854775808 = - 9223372036854775808
   \<and> go_front_gates_pass sample_go_config sample_go_env go_init
        (sample_go_request\<lparr>Forward := sample_go_Forward\<lparr>Deadline := 9223372036854775808\<rparr>\<rparr>)
   \<and> go_hash_gate_passes sample_go_config
        (sample_go_request\<lparr>Forward := sample_go_Forward\<lparr>Deadline := 9223372036854775808\<rparr>\<rparr>)
   \<and> relayHandler sample_go_config sample_go_env go_init
        (sample_go_request\<lparr>Forward := sample_go_Forward\<lparr>Deadline := 9223372036854775808\<rparr>\<rparr>)
      = (ErrorResponse 400 ''Transaction deadline expired'',
         go_init\<lparr>rateLimit_requests := [''0xabc1'' \<mapsto> [1700000000]]\<rparr>, [])
   \<and> now_deadline sample_js_env div 1000 = 1700000000
   \<and> js_relay sample_js_config sample_js_env js_init
        (sample_js_body\<lparr>forward := Some (sample_js_forward\<lparr>fwd_deadline := 10000000000000\<rparr>)\<rparr>)
      = (ErrorResponse 500 ''Transaction failed'', js_init, [])"
proof -
  let ?req = "sample_go_request\<lparr>Forward := sample_go_Forward\<lparr>Deadline := 9223372036854775808\<rparr>\<rparr>"
  have front: "go_front_gates_pass sample_go_config sample_go_env go_init ?req"
    by (rule sample_go_front_gates) (simp_all add: sample_go_request_def sample_go_Forward_def)
  have hash: "go_hash_gate_passes sample_go_config ?req"
    by (rule sample_go_hash_gate) (simp_all add: sample_go_request_def sample_go_Forward_def)
  have rg: "go_rate_gate sample_go_config sample_go_env go_init ?req =
      (None, go_init\<lparr>rateLimit_requests := [''0xabc1'' \<mapsto> [1700000000]]\<rparr>)"
    by (subst go_gates_pass(1)[OF front])
       (simp add: sample_go_env_def go_init_def sample_go_config_def sample_go_request_def
          sample_go_Forward_def sample_Hex_From sample_go_first_check)
  have g: "go_sync_gates sample_go_config sample_go_env
      (go_init\<lparr>rateLimit_requests := [''0xabc1'' \<mapsto> [1700000000]]\<rparr>) ?req = Some Expired"
    by (subst go_gates_pass(2)[OF front])
       (simp_all add: go_init_def TrimPrefix_def hex_digit_def Int64_def sample_go_config_def
          sample_go_request_def sample_go_Forward_def sample_go_env_def Unix_def)
  have G: "relayHandler sample_go_config sample_go_env go_init ?req =
      (ErrorResponse 400 ''Transaction deadline expired'',
       go_init\<lparr>rateLimit_requests := [''0xabc1'' \<mapsto> [1700000000]]\<rparr>, [])"
    by (simp add: relayHandler_def rg g Expired_def)
  have u: "Unix (Now_deadline sample_go_env) = 1700000000"
    by (simp add: sample_go_env_def Unix_def)
  have d: "Deadline (Forward ?req) = 9223372036854775808" by simp
  have i: "Int64 9223372036854775808 = - 9223372036854775808"
    by (simp add: Int64_def)
  let ?body = "sample_js_body\<lparr>forward := Some (sample_js_forward\<lparr>fwd_deadline := 10000000000000\<rparr>)\<rparr>"
  have p: "parseError ''Invalid time value'' = ''Transaction failed''"
    by (simp add: parseError_def)
  have adm: "js_admission sample_js_config sample_js_env js_init ?body =
      (Inl (js_catch ''Invalid time value''), js_init)"
    by (simp add: js_admission_def sample_js_body_def valid_time_value_def)
  have J: "js_relay sample_js_config sample_js_env js_init ?body =
      (ErrorResponse 500 ''Transaction failed'', js_init, [])"
    by (simp add: js_relay_def adm js_catch_def p)
  have n: "now_deadline sample_js_env div 1000 = 1700000000"
    by (simp add: sample_js_env_def)
  from u d i front hash G n J show ?thesis by (intro conjI)
qed

section \<open>The order of submission and mark\<close>

lemma no_mark_not_before:
  "\<not> list_ex is_mark xs \<Longrightarrow> marked_before_submission (xs @ ys) = marked_before_submission ys"
  by (induction xs) auto

lemma no_mark_not_before': "\<not> list_ex is_mark xs \<Longrightarrow> \<not> marked_before_submission xs"
  using no_mark_not_before[of xs "[]"] by simp

lemma executeForward_trace:
  "executeForward env caller ov hasCaller checkAllowlist = (r, evs) \<Longrightarrow>
     \<not> list_ex is_mark evs \<and> EvWait \<notin> set evs \<and> EvExecutor \<in> set evs
     \<and> (\<forall>tx. r = Inr tx \<longrightarrow> (\<exists>pre g. evs = pre @ [EvSend g]))"
  by (auto simp: executeForward_def split: sum.splits option.splits if_splits)

lemma js_probe_fee_execute_trace:
  assumes "js_probe_fee_execute env fwd = (r, evs)"
  shows "\<not> list_ex is_mark evs \<and> EvWait \<notin> set evs
     \<and> (\<forall>tx. r = Inr tx \<longrightarrow> (\<exists>pre g. evs = pre @ [EvSend g]))
     \<and> (EvExecutor \<notin> set evs \<longrightarrow> isl r)"
proof -
  obtain r' evs' where ex: "executeForward env (fwd_caller fwd) \<lparr>gasLimit = None\<rparr> True True = (r', evs')"
    by (cases "executeForward env (fwd_caller fwd) \<lparr>gasLimit = None\<rparr> True True")
  from executeForward_trace[OF ex] have
    t: "\<not> list_ex is_mark evs'" "EvWait \<notin> set evs'" "EvExecutor \<in> set evs'"
      "\<forall>tx. r' = Inr tx \<longrightarrow> (\<exists>pre g. evs' = pre @ [EvSend g])"
    by simp_all
  have app: "\<And>pre g. evs' = pre @ [EvSend g] \<Longrightarrow>
      EvProbe # EvFeeFetch # evs' = (EvProbe # EvFeeFetch # pre) @ [EvSend g]"
    by simp
  from assms ex t show ?thesis
    by (auto simp: js_probe_fee_execute_def split: sum.splits if_splits option.splits
        dest!: app)
qed

lemma executeMetaTransaction_trace:
  "executeMetaTransaction env req = (r, evs) \<Longrightarrow>
     \<not> list_ex is_mark evs \<and> EvExecutor \<in> set evs
     \<and> (\<forall>c. r = Inr c \<longrightarrow> (\<exists>pre g. evs = pre @ [EvSend g, EvWait]))"
  by (auto simp: executeMetaTransaction_def Let_def split: sum.splits option.splits if_splits)

lemma go_probe_fee_execute_trace:
  assumes "go_probe_fee_execute env req = (r, evs)"
  shows "\<not> list_ex is_mark evs
     \<and> (\<forall>c. r = Inr c \<longrightarrow> (\<exists>pre g. evs = pre @ [EvSend g, EvWait]))
     \<and> (EvExecutor \<notin> set evs \<longrightarrow> isl r)"
proof -
  obtain r' evs' where ex: "executeMetaTransaction env req = (r', evs')"
    by (cases "executeMetaTransaction env req")
  from executeMetaTransaction_trace[OF ex] have
    t: "\<not> list_ex is_mark evs'" "EvExecutor \<in> set evs'"
      "\<forall>c. r' = Inr c \<longrightarrow> (\<exists>pre g. evs' = pre @ [EvSend g, EvWait])"
    by simp_all
  have app: "\<And>pre g. evs' = pre @ [EvSend g, EvWait] \<Longrightarrow>
      EvProbe # EvFeeFetch # evs' = (EvProbe # EvFeeFetch # pre) @ [EvSend g, EvWait]"
    by simp
  from assms ex t show ?thesis
    by (auto simp: go_probe_fee_execute_def split: sum.splits if_splits dest!: app)
qed

lemma js_relay_cases:
  assumes "js_relay cfg env st body = (resp, st', evs)"
  shows "(\<exists>r. js_admission cfg env st body = (Inl r, st') \<and> resp = r \<and> evs = [])
     \<or> (\<exists>fwd rid r. js_admission cfg env st body = (Inr (fwd, rid), st')
           \<and> js_probe_fee_execute env fwd = (Inl r, evs) \<and> resp = r)
     \<or> (\<exists>fwd rid st1 tx pevs. js_admission cfg env st body = (Inr (fwd, rid), st1)
           \<and> js_probe_fee_execute env fwd = (Inr tx, pevs)
           \<and> resp = js_confirm env tx \<and> st' = js_mark env st1 rid
           \<and> evs = pevs @ [EvMark rid, EvWait])"
  using assms
  by (auto simp: js_relay_def split: sum.splits prod.splits)

lemma relayHandler_cases:
  assumes "relayHandler cfg env s req = (resp, s', evs)"
  shows "(\<exists>r. go_rate_gate cfg env s req = (Some r, s') \<and> resp = r \<and> evs = [])
     \<or> (\<exists>r. go_rate_gate cfg env s req = (None, s') \<and> go_sync_gates cfg env s' req = Some r
           \<and> resp = r \<and> evs = [])
     \<or> (\<exists>r. go_rate_gate cfg env s req = (None, s') \<and> go_sync_gates cfg env s' req = None
           \<and> go_probe_fee_execute env req = (Inl r, evs) \<and> resp = r)
     \<or> (\<exists>s1 tx bn gu pevs. go_rate_gate cfg env s req = (None, s1)
           \<and> go_sync_gates cfg env s1 req = None
           \<and> go_probe_fee_execute env req = (Inr (tx, bn, gu), pevs)
           \<and> resp = SuccessResponse tx bn gu
           \<and> s' = markProcessed (Now_markProcessed env) s1 (requestID cfg req)
           \<and> evs = pevs @ [EvMark (requestID cfg req)])"
  using assms
  by (auto simp: relayHandler_def split: sum.splits prod.splits option.splits)

lemma js_relay_mark_order:
  assumes run: "js_relay cfg env st body = (resp, st', evs)"
  shows "\<not> marked_before_submission evs
     \<and> (EvMark rid \<in> set evs \<longrightarrow>
          (\<exists>pre g. evs = pre @ [EvSend g, EvMark rid, EvWait])
          \<and> processedRequests st' = insert rid (processedRequests st))
     \<and> ((\<forall>r. EvMark r \<notin> set evs) \<longrightarrow> processedRequests st' = processedRequests st)"
  using js_relay_cases[OF run]
proof (elim disjE exE conjE)
  fix r assume "js_admission cfg env st body = (Inl r, st')" "evs = []"
  with js_admission_store[of cfg env st body "Inl r" st'] show ?thesis by simp
next
  fix fwd rid' r
  assume a: "js_admission cfg env st body = (Inr (fwd, rid'), st')"
    "js_probe_fee_execute env fwd = (Inl r, evs)"
  from js_probe_fee_execute_trace[OF a(2)] have n: "\<not> list_ex is_mark evs" by simp
  then have "EvMark rid \<notin> set evs" by (auto simp: list_ex_iff)
  with n js_admission_store[OF a(1)] show ?thesis
    by (simp add: no_mark_not_before')
next
  fix fwd rid' st1 tx pevs
  assume a: "js_admission cfg env st body = (Inr (fwd, rid'), st1)"
    "js_probe_fee_execute env fwd = (Inr tx, pevs)"
    "st' = js_mark env st1 rid'" "evs = pevs @ [EvMark rid', EvWait]"
  from js_probe_fee_execute_trace[OF a(2)] obtain pre g where
    n: "\<not> list_ex is_mark pevs" and p: "pevs = pre @ [EvSend g]"
    by auto
  from n have nm: "EvMark rid \<notin> set pevs" by (auto simp: list_ex_iff)
  have st: "processedRequests st' = insert rid' (processedRequests st)"
    using a(3) js_admission_store[OF a(1)] by (simp add: js_mark_def)
  have "\<not> marked_before_submission evs"
    using n a(4) by (simp add: no_mark_not_before)
  moreover have "EvMark rid \<in> set evs \<longrightarrow>
      (\<exists>pre g. evs = pre @ [EvSend g, EvMark rid, EvWait])
      \<and> processedRequests st' = insert rid (processedRequests st)"
    using nm a(4) p st by auto
  moreover have "\<not> (\<forall>r. EvMark r \<notin> set evs)"
    using a(4) by auto
  ultimately show ?thesis by blast
qed

lemma relayHandler_mark_order:
  assumes run: "relayHandler cfg env s req = (resp, s', evs)"
  shows "\<not> marked_before_submission evs
     \<and> (EvMark rid \<in> set evs \<longrightarrow>
          (\<exists>pre g tx bn gu. evs = pre @ [EvSend g, EvWait, EvMark rid]
             \<and> resp = SuccessResponse tx bn gu)
          \<and> Server_processedRequests s' = (Server_processedRequests s)(rid \<mapsto> Now_markProcessed env))
     \<and> ((\<forall>r. EvMark r \<notin> set evs) \<longrightarrow> Server_processedRequests s' = Server_processedRequests s)"
  using relayHandler_cases[OF run]
proof (elim disjE exE conjE)
  fix r assume "go_rate_gate cfg env s req = (Some r, s')" "evs = []"
  with go_rate_gate_store[of cfg env s req "Some r" s'] show ?thesis by simp
next
  fix r assume "go_rate_gate cfg env s req = (None, s')" "evs = []"
  with go_rate_gate_store[of cfg env s req None s'] show ?thesis by simp
next
  fix r
  assume a: "go_rate_gate cfg env s req = (None, s')"
    "go_probe_fee_execute env req = (Inl r, evs)"
  from go_probe_fee_execute_trace[OF a(2)] have n: "\<not> list_ex is_mark evs" by simp
  then have "EvMark rid \<notin> set evs" by (auto simp: list_ex_iff)
  with n go_rate_gate_store[OF a(1)] show ?thesis
    by (simp add: no_mark_not_before')
next
  fix s1 tx bn gu pevs
  assume a: "go_rate_gate cfg env s req = (None, s1)"
    "go_probe_fee_execute env req = (Inr (tx, bn, gu), pevs)"
    "resp = SuccessResponse tx bn gu"
    "s' = markProcessed (Now_markProcessed env) s1 (requestID cfg req)"
    "evs = pevs @ [EvMark (requestID cfg req)]"
  from go_probe_fee_execute_trace[OF a(2)] obtain pre g where
    n: "\<not> list_ex is_mark pevs" and p: "pevs = pre @ [EvSend g, EvWait]"
    by auto
  from n have nm: "EvMark rid \<notin> set pevs" by (auto simp: list_ex_iff)
  have st: "Server_processedRequests s' =
      (Server_processedRequests s)(requestID cfg req \<mapsto> Now_markProcessed env)"
    using a(4) go_rate_gate_store[OF a(1)] by (simp add: markProcessed_def)
  have "\<not> marked_before_submission evs"
    using n a(5) by (simp add: no_mark_not_before)
  moreover have "EvMark rid \<in> set evs \<longrightarrow>
      (\<exists>pre g tx bn gu. evs = pre @ [EvSend g, EvWait, EvMark rid]
         \<and> resp = SuccessResponse tx bn gu)
      \<and> Server_processedRequests s' = (Server_processedRequests s)(rid \<mapsto> Now_markProcessed env)"
    using nm a(3,5) p st by auto
  moreover have "\<not> (\<forall>r. EvMark r \<notin> set evs)"
    using a(5) by auto
  ultimately show ?thesis by blast
qed


text \<open>
  Claim C2, as amended. In no run is the request id put into the store before the
  transaction is submitted. In the Node server the mark comes directly after the
  submission and before the confirmation wait; in the Go server it comes after the
  submission and after the wait for the receipt, and only when the handler answers
  with success. A run without a mark leaves the store of processed requests as it was;
  a run with a mark adds exactly the request id.
\<close>

theorem mark_follows_submission:
  "(js_relay cfg env st body = (resp, st', evs)
    \<longrightarrow> \<not> marked_before_submission evs
        \<and> (EvMark rid \<in> set evs \<longrightarrow>
             (\<exists>pre g. evs = pre @ [EvSend g, EvMark rid, EvWait])
             \<and> processedRequests st' = insert rid (processedRequests st))
        \<and> ((\<forall>r. EvMark r \<notin> set evs) \<longrightarrow> processedRequests st' = processedRequests st))
   \<and> (relayHandler gcfg genv s req = (gresp, s', gevs)
    \<longrightarrow> \<not> marked_before_submission gevs
        \<and> (EvMark grid \<in> set gevs \<longrightarrow>
             (\<exists>pre g tx bn gu. gevs = pre @ [EvSend g, EvWait, EvMark grid]
                \<and> gresp = SuccessResponse tx bn gu)
             \<and> Server_processedRequests s' =
                 (Server_processedRequests s)(grid \<mapsto> Now_markProcessed genv))
        \<and> ((\<forall>r. EvMark r \<notin> set gevs)
             \<longrightarrow> Server_processedRequests s' = Server_processedRequests s))"
  using js_relay_mark_order[of cfg env st body resp st' evs rid]
    relayHandler_mark_order[of gcfg genv s req gresp s' gevs grid]
  by blast

theorem mark_follows_submission_witness:
  "\<not> marked_before_submission (snd (snd (js_relay sample_js_config sample_js_env js_init sample_js_body)))
   \<and> (\<exists>pre g. snd (snd (js_relay sample_js_config sample_js_env js_init sample_js_body))
         = pre @ [EvSend g, EvMark ''0xabc1-7'', EvWait])
   \<and> processedRequests (fst (snd (js_relay sample_js_config sample_js_env js_init sample_js_body)))
       = insert ''0xabc1-7'' (processedRequests js_init)
   \<and> \<not> marked_before_submission
         (snd (snd (relayHandler sample_go_config sample_go_env go_init sample_go_request)))
   \<and> (\<exists>pre g tx bn gu. snd (snd (relayHandler sample_go_config sample_go_env go_init sample_go_request))
         = pre @ [EvSend g, EvWait, EvMark ''0xabc1-7'']
         \<and> fst (relayHandler sample_go_config sample_go_env go_init sample_go_request)
             = SuccessResponse tx bn gu)"
proof -
  let ?run = "js_relay sample_js_config sample_js_env js_init sample_js_body"
  let ?grun = "relayHandler sample_go_config sample_go_env go_init sample_go_request"
  have h1: "?run = (fst ?run, fst (snd ?run), snd (snd ?run))"
    and h2: "?grun = (fst ?grun, fst (snd ?grun), snd (snd ?grun))"
    by simp_all
  have m1: "EvMark ''0xabc1-7'' \<in> set (snd (snd ?run))"
    by (simp add: sample_js_relay)
  have m2: "EvMark ''0xabc1-7'' \<in> set (snd (snd ?grun))"
    by (simp add: sample_relayHandler)
  note T = mark_follows_submission[where cfg = sample_js_config and env = sample_js_env
      and st = js_init and body = sample_js_body and resp = "fst ?run" and st' = "fst (snd ?run)"
      and evs = "snd (snd ?run)" and rid = "''0xabc1-7''"
      and gcfg = sample_go_config and genv = sample_go_env and s = go_init
      and req = sample_go_request and gresp = "fst ?grun" and s' = "fst (snd ?grun)"
      and gevs = "snd (snd ?grun)" and grid = "''0xabc1-7''"]
  note J = T[THEN conjunct1, THEN mp, OF h1]
  note G = T[THEN conjunct2, THEN mp, OF h2]
  from J m1 G m2 show ?thesis by blast
qed

text \<open>Against claim C2 as stated: in the sample run of each server the request passes
  all gates, and the mark comes after the submission; in the Go server it also comes
  after the wait for the receipt.\<close>

theorem mark_before_submission_counterexample:
  "snd (snd (js_relay sample_js_config sample_js_env js_init sample_js_body)) =
     [EvProbe, EvFeeFetch, EvExecutor, EvEstimateGas, EvSend 100000, EvMark ''0xabc1-7'', EvWait]
   \<and> \<not> marked_before_submission
        [EvProbe, EvFeeFetch, EvExecutor, EvEstimateGas, EvSend 100000, EvMark ''0xabc1-7'', EvWait]
   \<and> submitted_before_mark
        [EvProbe, EvFeeFetch, EvExecutor, EvEstimateGas, EvSend 100000, EvMark ''0xabc1-7'', EvWait]
   \<and> snd (snd (relayHandler sample_go_config sample_go_env go_init sample_go_request)) =
     [EvProbe, EvFeeFetch, EvExecutor, EvEstimateGas, EvSend 120000, EvWait, EvMark ''0xabc1-7'']
   \<and> \<not> marked_before_submission
        [EvProbe, EvFeeFetch, EvExecutor, EvEstimateGas, EvSend 120000, EvWait, EvMark ''0xabc1-7'']
   \<and> submitted_before_mark
        [EvProbe, EvFeeFetch, EvExecutor, EvEstimateGas, EvSend 120000, EvWait, EvMark ''0xabc1-7'']"
  by (simp add: sample_js_relay sample_relayHandler)

section \<open>Duplicates\<close>

lemmas response_defs = MissingFields_def RateLimited_def DuplicateRequest_def InvalidTarget_def
  InvalidCaller_def HashMismatch_def Expired_def FeeTooHigh_def js_AlreadyMinted_def js_catch_def

lemma not_duplicate:
  "MissingFields \<noteq> DuplicateRequest" "RateLimited \<noteq> DuplicateRequest"
  "InvalidTarget \<noteq> DuplicateRequest" "InvalidCaller \<noteq> DuplicateRequest"
  "HashMismatch \<noteq> DuplicateRequest" "Expired \<noteq> DuplicateRequest"
  "FeeTooHigh \<noteq> DuplicateRequest" "js_AlreadyMinted \<noteq> DuplicateRequest"
  "js_catch m \<noteq> DuplicateRequest" "ErrorResponse 500 x \<noteq> DuplicateRequest"
  "ErrorResponse 400 ''Invalid callData format'' \<noteq> DuplicateRequest"
  "ErrorResponse 400 ''You already minted an NFT'' \<noteq> DuplicateRequest"
  "SuccessResponse a b c \<noteq> DuplicateRequest"
  by (simp_all add: response_defs)

lemma js_admission_duplicate:
  "js_admission cfg env st body = (Inl DuplicateRequest, st1) \<Longrightarrow>
     \<exists>fwd. forward body = Some fwd \<and> fwd_from fwd @ ''-'' @ fwd_nonce fwd \<in> processedRequests st"
  by (auto simp: js_admission_def Let_def not_duplicate split: option.splits if_splits sum.splits)

lemma js_execute_not_duplicate:
  "js_probe_fee_execute env fwd = (Inl r, evs) \<Longrightarrow> r \<noteq> DuplicateRequest"
  by (auto simp: js_probe_fee_execute_def not_duplicate split: sum.splits if_splits prod.splits)

lemma js_confirm_not_duplicate: "js_confirm env tx \<noteq> DuplicateRequest"
  by (auto simp: js_confirm_def not_duplicate split: sum.splits)



lemma go_sync_gates_duplicate:
  "go_sync_gates cfg env s req = Some DuplicateRequest \<Longrightarrow> isProcessed s (requestID cfg req)"
  by (auto simp: go_sync_gates_def Let_def not_duplicate split: if_splits sum.splits)

lemma go_rate_gate_not_duplicate:
  "go_rate_gate cfg env s req = (Some r, s1) \<Longrightarrow> r \<noteq> DuplicateRequest"
  by (auto simp: go_rate_gate_def Let_def not_duplicate split: if_splits)

lemma go_execute_not_duplicate:
  "go_probe_fee_execute env req = (Inl r, evs) \<Longrightarrow> r \<noteq> DuplicateRequest"
  by (auto simp: go_probe_fee_execute_def not_duplicate split: sum.splits if_splits prod.splits)



section \<open>Failed executions and the store\<close>











section \<open>The confirmation wait\<close>

lemma poll_loop_shape:
  "poll_loop rpc i t = (res, starts, finish) \<Longrightarrow> t < ctx_timeout \<Longrightarrow>
     starts \<noteq> [] \<and> hd starts = t \<and> t \<le> finish \<and> finish \<le> ctx_timeout
     \<and> (\<forall>k. Suc k < length starts \<longrightarrow>
           snd (rpc (i + k)) = None
           \<and> starts ! Suc k = starts ! k + fst (rpc (i + k)) + poll_interval)
     \<and> (\<forall>k < length starts. starts ! k < ctx_timeout)
     \<and> (case res of
           Inl e \<Rightarrow> e = timeout_error \<and> finish = ctx_timeout
         | Inr r \<Rightarrow> snd (rpc (i + (length starts - 1))) = Some r
                    \<and> finish = last starts + fst (rpc (i + (length starts - 1))))"
proof (induction rpc i t arbitrary: res starts finish rule: poll_loop.induct)
  case (1 rpc i t)
  show ?case
  proof (cases "ctx_timeout < t + fst (rpc i)")
    case True
    with "1.prems" show ?thesis by (auto simp: poll_loop.simps[of rpc i t])
  next
    case far: False
    show ?thesis
    proof (cases "snd (rpc i)")
      case (Some r)
      with far "1.prems" show ?thesis by (auto simp: poll_loop.simps[of rpc i t])
    next
      case None
      show ?thesis
      proof (cases "ctx_timeout \<le> t + fst (rpc i) + poll_interval")
        case True
        with far None "1.prems" show ?thesis by (auto simp: poll_loop.simps[of rpc i t])
      next
        case False
        obtain res' starts' finish' where
          rec: "poll_loop rpc (Suc i) (t + fst (rpc i) + poll_interval) = (res', starts', finish')"
          by (cases "poll_loop rpc (Suc i) (t + fst (rpc i) + poll_interval)")
        from "1.prems" far None False rec
        have eq: "res = res'" "starts = t # starts'" "finish = finish'"
          by (simp_all add: poll_loop.simps[of rpc i t])
        from "1.prems"(2) far None False have
          g: "\<not> ctx_timeout \<le> t" "\<not> ctx_timeout < t + fst (rpc i)"
            "t + fst (rpc i) + poll_interval < ctx_timeout"
          by simp_all
        note IH = "1.IH"[OF g(1) g(2) None False rec g(3)]
        from IH have a: "starts' \<noteq> []" "hd starts' = t + fst (rpc i) + poll_interval"
          "t + fst (rpc i) + poll_interval \<le> finish'" "finish' \<le> ctx_timeout"
          by simp_all
        from IH have b: "\<And>k. Suc k < length starts' \<Longrightarrow>
            snd (rpc (Suc i + k)) = None
            \<and> starts' ! Suc k = starts' ! k + fst (rpc (Suc i + k)) + poll_interval"
          by blast
        from IH have c: "\<And>k. k < length starts' \<Longrightarrow> starts' ! k < ctx_timeout"
          by blast
        from IH have d: "case res' of
            Inl e \<Rightarrow> e = timeout_error \<and> finish' = ctx_timeout
          | Inr r \<Rightarrow> snd (rpc (Suc i + (length starts' - 1))) = Some r
                    \<and> finish' = last starts' + fst (rpc (Suc i + (length starts' - 1)))"
          by blast
        have s1: "\<forall>k. Suc k < length starts \<longrightarrow>
           snd (rpc (i + k)) = None
           \<and> starts ! Suc k = starts ! k + fst (rpc (i + k)) + poll_interval"
        proof (intro allI impI)
          fix k assume k: "Suc k < length starts"
          show "snd (rpc (i + k)) = None
             \<and> starts ! Suc k = starts ! k + fst (rpc (i + k)) + poll_interval"
          proof (cases k)
            case 0
            with a None eq show ?thesis by (simp add: hd_conv_nth)
          next
            case (Suc j)
            with k eq have "Suc j < length starts'" by simp
            from b[OF this] Suc eq show ?thesis by simp
          qed
        qed
        have s2: "\<forall>k < length starts. starts ! k < ctx_timeout"
        proof (intro allI impI)
          fix k assume k: "k < length starts"
          show "starts ! k < ctx_timeout"
          proof (cases k)
            case 0
            with eq "1.prems"(2) show ?thesis by simp
          next
            case (Suc j)
            with k eq have "j < length starts'" by simp
            from c[OF this] Suc eq show ?thesis by simp
          qed
        qed
        from a have len: "i + (length starts - 1) = Suc i + (length starts' - 1)"
          using eq by (cases starts') simp_all
        from a eq have lst: "last starts = last starts'" by simp
        have s3: "case res of
            Inl e \<Rightarrow> e = timeout_error \<and> finish = ctx_timeout
          | Inr r \<Rightarrow> snd (rpc (i + (length starts - 1))) = Some r
                    \<and> finish = last starts + fst (rpc (i + (length starts - 1)))"
          using d unfolding len lst eq(1) eq(3) .
        from eq a have s0: "starts \<noteq> []" "hd starts = t" "t \<le> finish" "finish \<le> ctx_timeout"
          by simp_all
        from s0 s1 s2 s3 show ?thesis by (intro conjI)
      qed
    qed
  qed
qed

lemma poll_starts_apart:
  assumes "\<forall>k. Suc k < length starts \<longrightarrow> starts ! Suc k = starts ! k + d k + poll_interval"
    and "k < length (starts :: nat list)"
  shows "k * poll_interval \<le> starts ! k"
  using assms(2)
proof (induction k)
  case 0
  then show ?case by simp
next
  case (Suc k)
  from Suc.prems assms(1) have "starts ! Suc k = starts ! k + d k + poll_interval" by simp
  moreover from Suc have "k * poll_interval \<le> starts ! k" by simp
  ultimately show ?case by simp
qed

lemma poll_count:
  assumes "poll_loop rpc 0 0 = (res, starts, finish)"
  shows "length starts \<le> 60"
proof -
  from poll_loop_shape[OF assms] have
    ne: "starts \<noteq> []"
    and sp: "\<forall>k. Suc k < length starts \<longrightarrow> starts ! Suc k = starts ! k + fst (rpc k) + poll_interval"
    and lt: "\<forall>k < length starts. starts ! k < ctx_timeout"
    by (simp_all add: ctx_timeout_def)
  from ne have l: "length starts - 1 < length starts" by simp
  from poll_starts_apart[of starts "\<lambda>k. fst (rpc k)", OF sp l] lt l
  have "(length starts - 1) * poll_interval < ctx_timeout" by (meson le_less_trans)
  then show ?thesis by (simp add: poll_interval_def ctx_timeout_def)
qed

lemma executeMetaTransaction_wait:
  assumes "executeMetaTransaction env req = (r, evs)" "EvWait \<in> set evs"
  shows "r = (case waitForReceipt (TransactionReceipt env) of
            Inl err \<Rightarrow> Inl (''failed to get receipt: '' @ err)
          | Inr receipt \<Rightarrow>
              if Status receipt = 0 then Inl ''transaction reverted by contract''
              else Inr (signedTx_Hash env, BlockNumber receipt, GasUsed receipt))"
proof -
  have "EvWait \<in> set (snd (executeMetaTransaction env req)) \<longrightarrow>
    fst (executeMetaTransaction env req) =
      (case waitForReceipt (TransactionReceipt env) of
            Inl err \<Rightarrow> Inl (''failed to get receipt: '' @ err)
          | Inr receipt \<Rightarrow>
              if Status receipt = 0 then Inl ''transaction reverted by contract''
              else Inr (signedTx_Hash env, BlockNumber receipt, GasUsed receipt))"
    by (auto simp: executeMetaTransaction_def Let_def split: sum.split option.split)
  with assms show ?thesis by simp
qed


lemma poll_loop_no_receipt:
  assumes "\<forall>k. snd (rpc k) = None"
  shows "fst (poll_loop rpc 0 0) = Inl timeout_error \<and> snd (snd (poll_loop rpc 0 0)) = ctx_timeout"
proof -
  obtain res starts finish where run: "poll_loop rpc 0 0 = (res, starts, finish)"
    by (cases "poll_loop rpc 0 0")
  from poll_loop_shape[OF run] have "case res of
      Inl e \<Rightarrow> e = timeout_error \<and> finish = ctx_timeout
    | Inr r \<Rightarrow> snd (rpc (0 + (length starts - 1))) = Some r
              \<and> finish = last starts + fst (rpc (0 + (length starts - 1)))"
    by (simp add: ctx_timeout_def)
  with assms run show ?thesis by (cases res) simp_all
qed

lemma poll_loop_timeout_late:
  "poll_loop rpc i t = (Inl e, starts, finish) \<Longrightarrow> t < ctx_timeout \<Longrightarrow>
     ctx_timeout < last starts + fst (rpc (i + (length starts - 1)))
     \<or> (snd (rpc (i + (length starts - 1))) = None
        \<and> ctx_timeout \<le> last starts + fst (rpc (i + (length starts - 1))) + poll_interval)"
proof (induction rpc i t arbitrary: starts finish rule: poll_loop.induct)
  case (1 rpc i t)
  show ?case
  proof (cases "ctx_timeout < t + fst (rpc i)")
    case True
    with "1.prems" show ?thesis by (auto simp: poll_loop.simps[of rpc i t])
  next
    case far: False
    show ?thesis
    proof (cases "snd (rpc i)")
      case (Some r)
      with far "1.prems" show ?thesis by (auto simp: poll_loop.simps[of rpc i t])
    next
      case None
      show ?thesis
      proof (cases "ctx_timeout \<le> t + fst (rpc i) + poll_interval")
        case True
        with far None "1.prems" show ?thesis by (auto simp: poll_loop.simps[of rpc i t])
      next
        case False
        obtain res' starts' finish' where
          rec: "poll_loop rpc (Suc i) (t + fst (rpc i) + poll_interval) = (res', starts', finish')"
          by (cases "poll_loop rpc (Suc i) (t + fst (rpc i) + poll_interval)")
        from "1.prems" far None False rec
        have eq: "res' = Inl e" "starts = t # starts'" "finish = finish'"
          by (simp_all add: poll_loop.simps[of rpc i t])
        from "1.prems"(2) far None False have
          g: "\<not> ctx_timeout \<le> t" "\<not> ctx_timeout < t + fst (rpc i)"
            "t + fst (rpc i) + poll_interval < ctx_timeout"
          by simp_all
        from poll_loop_shape[OF rec g(3)] have ne: "starts' \<noteq> []" by simp
        from rec eq have rec': "poll_loop rpc (Suc i) (t + fst (rpc i) + poll_interval) =
            (Inl e, starts', finish')" by simp
        note IH = "1.IH"[OF g(1) g(2) None False rec' g(3)]
        from ne eq have len: "i + (length starts - 1) = Suc i + (length starts' - 1)"
          by (cases starts') simp_all
        from ne eq have lst: "last starts = last starts'" by simp
        from IH show ?thesis unfolding len lst .
      qed
    qed
  qed
qed

lemma poll_loop_finds:
  "(\<forall>k<n. snd (rpc (i + k)) = None) \<Longrightarrow> snd (rpc (i + n)) = Some r \<Longrightarrow>
   t + (\<Sum>k<n. fst (rpc (i + k)) + poll_interval) < ctx_timeout \<Longrightarrow>
   t + (\<Sum>k<n. fst (rpc (i + k)) + poll_interval) + fst (rpc (i + n)) \<le> ctx_timeout \<Longrightarrow>
     fst (poll_loop rpc i t) = Inr r
     \<and> length (fst (snd (poll_loop rpc i t))) = Suc n
     \<and> snd (snd (poll_loop rpc i t)) =
         t + (\<Sum>k<n. fst (rpc (i + k)) + poll_interval) + fst (rpc (i + n))"
proof (induction n arbitrary: i t)
  case 0
  then show ?case by (simp add: poll_loop.simps[of rpc i t])
next
  case (Suc n)
  let ?t' = "t + fst (rpc i) + poll_interval"
  have shift: "(\<Sum>k<Suc n. fst (rpc (i + k)) + poll_interval) =
      fst (rpc i) + poll_interval + (\<Sum>k<n. fst (rpc (Suc i + k)) + poll_interval)"
    using sum.lessThan_Suc_shift[of "\<lambda>k. fst (rpc (i + k)) + poll_interval" n]
    by (simp del: sum.lessThan_Suc)
  from Suc.prems(1) have none: "snd (rpc i) = None" by force
  from Suc.prems(1) have nones: "\<forall>k<n. snd (rpc (Suc i + k)) = None" by force
  from Suc.prems(2) have some: "snd (rpc (Suc i + n)) = Some r" by simp
  from Suc.prems(3) have a: "?t' + (\<Sum>k<n. fst (rpc (Suc i + k)) + poll_interval) < ctx_timeout"
    unfolding shift by simp
  from Suc.prems(4) have b: "?t' + (\<Sum>k<n. fst (rpc (Suc i + k)) + poll_interval)
      + fst (rpc (Suc i + n)) \<le> ctx_timeout"
    unfolding shift by simp
  note IH = Suc.IH[OF nones some a b]
  from a have c: "\<not> ctx_timeout \<le> t" "\<not> ctx_timeout < t + fst (rpc i)" "\<not> ctx_timeout \<le> ?t'"
    by simp_all
  obtain res' starts' finish' where
    rec: "poll_loop rpc (Suc i) ?t' = (res', starts', finish')"
    by (cases "poll_loop rpc (Suc i) ?t'")
  with none c have "poll_loop rpc i t = (res', t # starts', finish')"
    by (simp add: poll_loop.simps[of rpc i t])
  with IH rec show ?case unfolding shift by simp
qed

text \<open>
  Claim C9, as amended. In the Go server \<^verbatim>\<open>waitForReceipt\<close> always returns, at most two
  minutes (120000 ms) after it was called. The first poll starts at once and every further
  poll starts two seconds (2000 ms) after the poll before it came back without a receipt;
  there are at most 60 polls. The polling goes on as long as there is time: the function
  returns the timeout error only at two minutes, when the last poll was still running
  then or had come back without a receipt less than two seconds before; and a receipt
  found by a poll that started before and came back by the two minutes is returned when
  that poll comes back. With no receipt in any poll the result is the timeout error.
  \<^verbatim>\<open>executeMetaTransaction\<close>, once it waits, tells the three outcomes apart: the timeout
  (\<open>failed to get receipt: timeout waiting for transaction receipt\<close>), a receipt with
  status 0 (\<open>transaction reverted by contract\<close>) and a receipt with another status
  (success, with hash, block number and gas used).

  The Node server has no polling and no timeout of its own: the handler answers when the
  promise of \<^verbatim>\<open>tx.wait()\<close> settles, whenever that is, with success when it yields a
  receipt and with status 500 when it throws, and it does not answer when the promise
  never settles.
\<close>

theorem confirmation_wait:
  "(poll_loop rpc 0 0 = (res, starts, finish) \<longrightarrow>
      waitForReceipt rpc = res
      \<and> hd starts = 0 \<and> length starts \<le> 60 \<and> finish \<le> ctx_timeout
      \<and> (\<forall>k. Suc k < length starts \<longrightarrow>
            snd (rpc k) = None
            \<and> starts ! Suc k = starts ! k + fst (rpc k) + poll_interval)
      \<and> (case res of
            Inl e \<Rightarrow> e = timeout_error \<and> finish = ctx_timeout
              \<and> (ctx_timeout < last starts + fst (rpc (length starts - 1))
                 \<or> (snd (rpc (length starts - 1)) = None
                    \<and> ctx_timeout \<le> last starts + fst (rpc (length starts - 1)) + poll_interval))
          | Inr receipt \<Rightarrow> snd (rpc (length starts - 1)) = Some receipt
                    \<and> finish = last starts + fst (rpc (length starts - 1))))
   \<and> ((\<forall>k<n. snd (rpc k) = None) \<and> snd (rpc n) = Some found
        \<and> (\<Sum>k<n. fst (rpc k) + poll_interval) < ctx_timeout
        \<and> (\<Sum>k<n. fst (rpc k) + poll_interval) + fst (rpc n) \<le> ctx_timeout \<longrightarrow>
        waitForReceipt rpc = Inr found
        \<and> length (fst (snd (poll_loop rpc 0 0))) = Suc n
        \<and> snd (snd (poll_loop rpc 0 0)) = (\<Sum>k<n. fst (rpc k) + poll_interval) + fst (rpc n))
   \<and> ((\<forall>k. snd (silent k) = None) \<longrightarrow>
        waitForReceipt silent = Inl timeout_error \<and> snd (snd (poll_loop silent 0 0)) = ctx_timeout)
   \<and> (executeMetaTransaction env req = (r, evs) \<longrightarrow> EvWait \<in> set evs \<longrightarrow>
        r = (case waitForReceipt (TransactionReceipt env) of
               Inl err \<Rightarrow> Inl (''failed to get receipt: '' @ err)
             | Inr receipt \<Rightarrow>
                 if Status receipt = 0 then Inl ''transaction reverted by contract''
                 else Inr (signedTx_Hash env, BlockNumber receipt, GasUsed receipt)))
   \<and> ctx_timeout = 120000 \<and> poll_interval = 2000
   \<and> timeout_error = ''timeout waiting for transaction receipt''
   \<and> js_confirm_at jenv tx =
        (case wait_settles jenv of
           None \<Rightarrow> None
         | Some ms \<Rightarrow>
             Some (ms, case wait jenv of
                         Inl msg \<Rightarrow> ErrorResponse 500 (parseError msg)
                       | Inr receipt \<Rightarrow> SuccessResponse tx (blockNumber receipt) (gasUsed receipt)))"
proof -
  have A: "poll_loop rpc 0 0 = (res, starts, finish) \<longrightarrow>
      waitForReceipt rpc = res
      \<and> hd starts = 0 \<and> length starts \<le> 60 \<and> finish \<le> ctx_timeout
      \<and> (\<forall>k. Suc k < length starts \<longrightarrow>
            snd (rpc k) = None
            \<and> starts ! Suc k = starts ! k + fst (rpc k) + poll_interval)
      \<and> (case res of
            Inl e \<Rightarrow> e = timeout_error \<and> finish = ctx_timeout
              \<and> (ctx_timeout < last starts + fst (rpc (length starts - 1))
                 \<or> (snd (rpc (length starts - 1)) = None
                    \<and> ctx_timeout \<le> last starts + fst (rpc (length starts - 1)) + poll_interval))
          | Inr receipt \<Rightarrow> snd (rpc (length starts - 1)) = Some receipt
                    \<and> finish = last starts + fst (rpc (length starts - 1)))"
  proof
    assume run: "poll_loop rpc 0 0 = (res, starts, finish)"
    have pos: "0 < ctx_timeout" by (simp add: ctx_timeout_def)
    have late: "\<And>e. res = Inl e \<Longrightarrow>
        ctx_timeout < last starts + fst (rpc (length starts - 1))
        \<or> (snd (rpc (length starts - 1)) = None
           \<and> ctx_timeout \<le> last starts + fst (rpc (length starts - 1)) + poll_interval)"
      using poll_loop_timeout_late[of rpc 0 0 _ starts finish] run pos by simp
    from poll_loop_shape[OF run pos] poll_count[OF run] run late
    show "waitForReceipt rpc = res
      \<and> hd starts = 0 \<and> length starts \<le> 60 \<and> finish \<le> ctx_timeout
      \<and> (\<forall>k. Suc k < length starts \<longrightarrow>
            snd (rpc k) = None
            \<and> starts ! Suc k = starts ! k + fst (rpc k) + poll_interval)
      \<and> (case res of
            Inl e \<Rightarrow> e = timeout_error \<and> finish = ctx_timeout
              \<and> (ctx_timeout < last starts + fst (rpc (length starts - 1))
                 \<or> (snd (rpc (length starts - 1)) = None
                    \<and> ctx_timeout \<le> last starts + fst (rpc (length starts - 1)) + poll_interval))
          | Inr receipt \<Rightarrow> snd (rpc (length starts - 1)) = Some receipt
                    \<and> finish = last starts + fst (rpc (length starts - 1)))"
      by (cases res) (simp_all add: waitForReceipt_def)
  qed
  have F: "(\<forall>k<n. snd (rpc k) = None) \<and> snd (rpc n) = Some found
        \<and> (\<Sum>k<n. fst (rpc k) + poll_interval) < ctx_timeout
        \<and> (\<Sum>k<n. fst (rpc k) + poll_interval) + fst (rpc n) \<le> ctx_timeout \<longrightarrow>
        waitForReceipt rpc = Inr found
        \<and> length (fst (snd (poll_loop rpc 0 0))) = Suc n
        \<and> snd (snd (poll_loop rpc 0 0)) = (\<Sum>k<n. fst (rpc k) + poll_interval) + fst (rpc n)"
    using poll_loop_finds[of n rpc 0 found 0] by (simp add: waitForReceipt_def)
  have B: "(\<forall>k. snd (silent k) = None) \<longrightarrow>
        waitForReceipt silent = Inl timeout_error \<and> snd (snd (poll_loop silent 0 0)) = ctx_timeout"
    using poll_loop_no_receipt[of silent] by (simp add: waitForReceipt_def)
  have C: "executeMetaTransaction env req = (r, evs) \<longrightarrow> EvWait \<in> set evs \<longrightarrow>
        r = (case waitForReceipt (TransactionReceipt env) of
               Inl err \<Rightarrow> Inl (''failed to get receipt: '' @ err)
             | Inr receipt \<Rightarrow>
                 if Status receipt = 0 then Inl ''transaction reverted by contract''
                 else Inr (signedTx_Hash env, BlockNumber receipt, GasUsed receipt))"
    using executeMetaTransaction_wait[of env req r evs] by blast
  have D: "ctx_timeout = 120000" "poll_interval = 2000"
    "timeout_error = ''timeout waiting for transaction receipt''"
    by (simp_all add: ctx_timeout_def poll_interval_def timeout_error_def)
  have N: "js_confirm_at jenv tx =
        (case wait_settles jenv of
           None \<Rightarrow> None
         | Some ms \<Rightarrow>
             Some (ms, case wait jenv of
                         Inl msg \<Rightarrow> ErrorResponse 500 (parseError msg)
                       | Inr receipt \<Rightarrow> SuccessResponse tx (blockNumber receipt) (gasUsed receipt)))"
    by (simp add: js_confirm_at_def js_confirm_def js_catch_def split: option.split sum.split)
  from A F B C D N show ?thesis by (intro conjI)
qed

theorem confirmation_wait_witness:
  "waitForReceipt (TransactionReceipt sample_go_env) =
      Inr \<lparr>Status = 1, BlockNumber = 42, GasUsed = 90000\<rparr>
   \<and> poll_loop (TransactionReceipt sample_go_env) 0 0 =
      (Inr \<lparr>Status = 1, BlockNumber = 42, GasUsed = 90000\<rparr>, [0, 2150, 4300], 4450)
   \<and> [0, 2150, 4300 :: nat] ! 1 = [0, 2150, 4300] ! 0 + fst (TransactionReceipt sample_go_env 0) + 2000
   \<and> [0, 2150, 4300 :: nat] ! 2 = [0, 2150, 4300] ! 1 + fst (TransactionReceipt sample_go_env 1) + 2000
   \<and> snd (TransactionReceipt sample_go_env 2) = Some \<lparr>Status = 1, BlockNumber = 42, GasUsed = 90000\<rparr>
   \<and> length (fst (snd (poll_loop (TransactionReceipt sample_go_env) 0 0))) = 3
   \<and> waitForReceipt (\<lambda>i. (500, None)) = Inl ''timeout waiting for transaction receipt''
   \<and> snd (snd (poll_loop (\<lambda>i. (500, None)) 0 0)) = 120000
   \<and> executeMetaTransaction sample_go_env sample_go_request =
       (Inr (''0x7a'', 42, 90000), [EvExecutor, EvEstimateGas, EvSend 120000, EvWait])
   \<and> executeMetaTransaction
       (sample_go_env\<lparr>TransactionReceipt := \<lambda>i. (150, Some \<lparr>Status = 0, BlockNumber = 42, GasUsed = 90000\<rparr>)\<rparr>)
       sample_go_request =
       (Inl ''transaction reverted by contract'',
        snd (executeMetaTransaction
          (sample_go_env\<lparr>TransactionReceipt := \<lambda>i. (150, Some \<lparr>Status = 0, BlockNumber = 42, GasUsed = 90000\<rparr>)\<rparr>)
          sample_go_request))
   \<and> js_confirm_at sample_js_env ''0x7a'' = Some (4450, SuccessResponse ''0x7a'' 42 90000)"
proof -
  let ?rpc = "TransactionReceipt sample_go_env"
  let ?rec = "\<lparr>Status = 1, BlockNumber = 42, GasUsed = 90000\<rparr>"
  let ?silent = "\<lambda>i::nat. (500::nat, None :: Receipt option)"
  note T = confirmation_wait[where rpc = ?rpc and res = "Inr ?rec" and starts = "[0, 2150, 4300]"
      and finish = 4450 and n = 2 and found = ?rec
      and silent = ?silent and env = sample_go_env and req = sample_go_request
      and r = "Inr (''0x7a'', 42, 90000)"
      and evs = "[EvExecutor, EvEstimateGas, EvSend 120000, EvWait]"
      and jenv = sample_js_env and tx = "''0x7a''"]
  have h0: "\<forall>k. snd (?silent k) = None" by simp
  have h1: "(\<forall>k<2. snd (?rpc k) = None) \<and> snd (?rpc 2) = Some ?rec
        \<and> (\<Sum>k<2. fst (?rpc k) + poll_interval) < ctx_timeout
        \<and> (\<Sum>k<2. fst (?rpc k) + poll_interval) + fst (?rpc 2) \<le> ctx_timeout"
    by (simp add: sample_go_env_def numeral_2_eq_2 poll_interval_def ctx_timeout_def)
  have h2: "EvWait \<in> set [EvExecutor, EvEstimateGas, EvSend 120000, EvWait]" by simp
  note P = T[THEN conjunct1, THEN mp, OF sample_waitForReceipt]
  note F = T[THEN conjunct2, THEN conjunct1, THEN mp, OF h1]
  note N = T[THEN conjunct2, THEN conjunct2, THEN conjunct1, THEN mp, OF h0]
  note E = T[THEN conjunct2, THEN conjunct2, THEN conjunct2, THEN conjunct1, THEN mp,
      OF sample_executeMetaTransaction, THEN mp, OF h2]
  note K = T[THEN conjunct2, THEN conjunct2, THEN conjunct2, THEN conjunct2]
  from P have p1: "waitForReceipt ?rpc = Inr ?rec" by simp
  from P have sp: "\<forall>k. Suc k < length [0, 2150, 4300 :: nat] \<longrightarrow>
      snd (?rpc k) = None \<and> [0, 2150, 4300 :: nat] ! Suc k = [0, 2150, 4300] ! k + fst (?rpc k) + poll_interval"
    by simp
  from sp[THEN spec, of 0] K
  have p2: "[0, 2150, 4300 :: nat] ! 1 = [0, 2150, 4300] ! 0 + fst (?rpc 0) + 2000" by simp
  from sp[THEN spec, of 1] K
  have p3: "[0, 2150, 4300 :: nat] ! 2 = [0, 2150, 4300] ! 1 + fst (?rpc 1) + 2000" by simp
  from P have p4: "snd (?rpc 2) = Some ?rec" by (simp add: numeral_2_eq_2)
  from F have p5: "length (fst (snd (poll_loop ?rpc 0 0))) = 3" by simp
  from N K have n1: "waitForReceipt ?silent = Inl ''timeout waiting for transaction receipt''"
    and n2: "snd (snd (poll_loop ?silent 0 0)) = 120000" by simp_all
  let ?renv = "sample_go_env\<lparr>TransactionReceipt := \<lambda>i. (150, Some \<lparr>Status = 0, BlockNumber = 42, GasUsed = 90000\<rparr>)\<rparr>"
  let ?rrun = "executeMetaTransaction ?renv sample_go_request"
  note R = confirmation_wait[where env = ?renv and req = sample_go_request
      and r = "fst ?rrun" and evs = "snd ?rrun",
      THEN conjunct2, THEN conjunct2, THEN conjunct2, THEN conjunct1]
  have w0: "waitForReceipt (\<lambda>i. (150, Some \<lparr>Status = 0, BlockNumber = 42, GasUsed = 90000\<rparr>))
      = Inr \<lparr>Status = 0, BlockNumber = 42, GasUsed = 90000\<rparr>"
    by (simp add: waitForReceipt_def poll_loop.simps ctx_timeout_def)
  have f: "Pack sample_go_env = None" "PendingNonceAt sample_go_env = Inr 3"
    "SignTx sample_go_env = None" "SendTransaction sample_go_env = None"
    by (simp_all add: sample_go_env_def)
  have r2: "EvWait \<in> set (snd ?rrun)"
    using sample_executeMetaTransaction
    by (simp add: executeMetaTransaction_def Let_def w0 split: sum.splits option.splits)
  from R[THEN mp, OF surjective_pairing, THEN mp, OF r2]
  have r3: "fst ?rrun = Inl ''transaction reverted by contract''"
    by (simp add: w0)
  have r4: "?rrun = (Inl ''transaction reverted by contract'', snd ?rrun)"
    using r3 by (metis surjective_pairing)
  from K have j1: "js_confirm_at sample_js_env ''0x7a'' = Some (4450, SuccessResponse ''0x7a'' 42 90000)"
    by (simp add: sample_js_env_def)
  from p1 sample_waitForReceipt p2 p3 p4 p5 n1 n2 sample_executeMetaTransaction r4 j1
  show ?thesis by (intro conjI)
qed

text \<open>Against claim C9 as stated: on the Node server a transaction was submitted and
  \<^verbatim>\<open>tx.wait()\<close> yields its receipt ten minutes later. The handler answers then, with
  success; nothing has ended the wait with a timeout at two minutes. When the promise
  never settles the handler never answers.\<close>

theorem node_wait_counterexample:
  "js_confirm_at (sample_js_env\<lparr>wait_settles := Some 600000\<rparr>) ''0x7a'' =
     Some (600000, SuccessResponse ''0x7a'' 42 90000)
   \<and> ctx_timeout < 600000
   \<and> js_confirm_at (sample_js_env\<lparr>wait_settles := None\<rparr>) ''0x7a'' = None"
  by (simp add: js_confirm_at_def js_confirm_def sample_js_env_def ctx_timeout_def)

section \<open>Two requests with the same sender and nonce at the same time\<close>

lemma js_steps_relay:
  "js_concurrent cfg [True, True, True, True] (st, JsReceived env body, h2, []) =
     (case js_relay cfg env st body of
        (resp, st', evs) \<Rightarrow> (st', JsAnswered resp, h2, map (Pair True) evs))"
  by (simp add: js_relay_def split: prod.split sum.split)

lemma js_handler_ok_other:
  "js_handler_ok key body log b' h \<Longrightarrow> b' \<noteq> b \<Longrightarrow>
     js_handler_ok key body (log @ map (Pair b) evs) b' h"
  by (cases h) (auto simp: image_iff)

lemma js_handler_ok_other_mark:
  "js_handler_ok key body log b' h \<Longrightarrow> b' \<noteq> b \<Longrightarrow>
     js_handler_ok key body (log @ [(b, e)]) b' h"
  using js_handler_ok_other[of key body log b' h b "[e]"] by simp

lemma js_step_ok:
  assumes fwd: "forward body = Some fwd" and key: "key = fwd_from fwd @ ''-'' @ fwd_nonce fwd"
    and step: "js_step cfg st h = (st', h', evs)"
    and own: "js_handler_ok key body log b h"
    and store: "key \<in> processedRequests st \<longrightarrow> EvMark key \<in> snd ` set log"
    and marks: "\<forall>b. (b, EvMark key) \<in> set log \<longrightarrow> (b, EvExecutor) \<in> set log"
  shows "js_handler_ok key body (log @ map (Pair b) evs) b h'
     \<and> (key \<in> processedRequests st' \<longrightarrow> EvMark key \<in> snd ` set (log @ map (Pair b) evs))
     \<and> (\<forall>b'. (b', EvMark key) \<in> set (log @ map (Pair b) evs)
            \<longrightarrow> (b', EvExecutor) \<in> set (log @ map (Pair b) evs))"
proof (cases h)
  case (JsReceived env body')
  with own have b: "body' = body" "b \<notin> fst ` set log" by simp_all
  show ?thesis
  proof (cases "js_admission cfg env st body")
    case (Pair res st1)
    note st = js_admission_store[OF Pair]
    show ?thesis
    proof (cases res)
      case (Inl r)
      with Pair JsReceived b step have e: "st' = st1" "h' = JsAnswered r" "evs = []" by simp_all
      have "r = DuplicateRequest \<longrightarrow> (\<not> b, EvMark key) \<in> set log"
      proof
        assume "r = DuplicateRequest"
        with Pair Inl js_admission_duplicate[of cfg env st body st1] fwd key
        have "key \<in> processedRequests st" by auto
        with store obtain b' where m: "(b', EvMark key) \<in> set log" by auto
        with b(2) have "b' \<noteq> b" by force
        with m show "(\<not> b, EvMark key) \<in> set log" by (cases b; cases b') simp_all
      qed
      with e b st store marks show ?thesis by simp
    next
      case (Inr adm)
      obtain fwd' rid where adm: "adm = (fwd', rid)" by (cases adm)
      with Pair Inr JsReceived b step have e: "st' = st1" "h' = JsAdmitted env fwd' rid" "evs = []"
        by simp_all
      from js_admission_admits[of cfg env st body fwd' rid st1] Pair Inr adm fwd key
      have "rid = key" by (simp add: js_front_gates_pass_def)
      with e b st store marks show ?thesis by simp
    qed
  qed
next
  case (JsAdmitted env fwd' rid)
  with own have b: "rid = key" "b \<notin> fst ` set log" by simp_all
  obtain res pevs where ex: "js_probe_fee_execute env fwd' = (res, pevs)"
    by (cases "js_probe_fee_execute env fwd'")
  note tr = js_probe_fee_execute_trace[OF ex]
  from tr have nomark: "\<And>b'. (b', EvMark key) \<notin> set (map (Pair b) pevs)"
    by (auto simp: list_ex_iff)
  show ?thesis
  proof (cases res)
    case (Inl r)
    with ex JsAdmitted step have e: "st' = st" "h' = JsAnswered r" "evs = pevs" by simp_all
    from js_execute_not_duplicate[of env fwd' r pevs] ex Inl have "r \<noteq> DuplicateRequest" by simp
    with e store marks nomark show ?thesis by (auto simp: image_iff)
  next
    case (Inr tx)
    with ex JsAdmitted step have e: "st' = st" "h' = JsSent env rid tx" "evs = pevs" by simp_all
    from tr Inr have "EvExecutor \<in> set pevs" by auto
    with e b store marks nomark show ?thesis by (auto simp: image_iff)
  qed
next
  case (JsSent env rid tx)
  with own have b: "rid = key" "(b, EvExecutor) \<in> set log" by simp_all
  from JsSent step have e: "st' = js_mark env st rid" "h' = JsWaiting env tx" "evs = [EvMark rid]"
    by simp_all
  with b marks show ?thesis by (auto simp: js_mark_def image_iff)
next
  case (JsWaiting env tx)
  with step have e: "st' = st" "h' = JsAnswered (js_confirm env tx)" "evs = [EvWait]" by simp_all
  with store marks js_confirm_not_duplicate[of env tx] show ?thesis by (auto simp: image_iff)
next
  case (JsAnswered r)
  with step have e: "st' = st" "h' = JsAnswered r" "evs = []" by simp_all
  with own JsAnswered store marks show ?thesis by simp
qed


lemma js_concurrent_ok:
  assumes fwd: "forward body = Some fwd" and key: "key = fwd_from fwd @ ''-'' @ fwd_nonce fwd"
  shows "js_pair_ok key body c \<Longrightarrow> js_pair_ok key body (js_concurrent cfg sched c)"
proof (induction sched arbitrary: c)
  case Nil
  then show ?case by simp
next
  case (Cons b sched)
  obtain st h1 h2 log where c: "c = (st, h1, h2, log)" by (cases c)
  from Cons.prems c have
    store: "key \<in> processedRequests st \<longrightarrow> EvMark key \<in> snd ` set log"
    and ok1: "js_handler_ok key body log True h1" and ok2: "js_handler_ok key body log False h2"
    and marks: "\<forall>b. (b, EvMark key) \<in> set log \<longrightarrow> (b, EvExecutor) \<in> set log"
    by (simp_all add: js_pair_ok_def)
  show ?case
  proof (cases b)
    case True
    obtain st' h1' evs where step: "js_step cfg st h1 = (st', h1', evs)"
      by (cases "js_step cfg st h1")
    from js_step_ok[OF fwd key step ok1 store marks]
      js_handler_ok_other[OF ok2, of True evs]
    have "js_pair_ok key body (st', h1', h2, log @ map (Pair True) evs)"
      by (simp add: js_pair_ok_def)
    from Cons.IH[OF this] True c step show ?thesis by simp
  next
    case False
    obtain st' h2' evs where step: "js_step cfg st h2 = (st', h2', evs)"
      by (cases "js_step cfg st h2")
    from js_step_ok[OF fwd key step ok2 store marks]
      js_handler_ok_other[OF ok1, of False evs]
    have "js_pair_ok key body (st', h1, h2', log @ map (Pair False) evs)"
      by (simp add: js_pair_ok_def)
    from Cons.IH[OF this] False c step show ?thesis by simp
  qed
qed

lemma js_concurrent_duplicate:
  assumes run: "js_concurrent cfg sched (st, JsReceived env1 body, JsReceived env2 body, []) =
      (st', h1, h2, log)"
    and fwd: "forward body = Some fwd"
    and fresh: "fwd_from fwd @ ''-'' @ fwd_nonce fwd \<notin> processedRequests st"
  shows "(h1 = JsAnswered DuplicateRequest \<longrightarrow>
            True \<notin> fst ` set log
            \<and> (False, EvExecutor) \<in> set log
            \<and> (False, EvMark (fwd_from fwd @ ''-'' @ fwd_nonce fwd)) \<in> set log)
     \<and> (h2 = JsAnswered DuplicateRequest \<longrightarrow>
            False \<notin> fst ` set log
            \<and> (True, EvExecutor) \<in> set log
            \<and> (True, EvMark (fwd_from fwd @ ''-'' @ fwd_nonce fwd)) \<in> set log)
     \<and> (h1 \<noteq> JsAnswered DuplicateRequest \<or> h2 \<noteq> JsAnswered DuplicateRequest)"
proof -
  let ?key = "fwd_from fwd @ ''-'' @ fwd_nonce fwd"
  from fresh have "js_pair_ok ?key body (st, JsReceived env1 body, JsReceived env2 body, [])"
    by (simp add: js_pair_ok_def)
  from js_concurrent_ok[OF fwd refl this, of cfg sched] run
  have ok: "js_pair_ok ?key body (st', h1, h2, log)" by simp
  then have ok1: "js_handler_ok ?key body log True h1" and ok2: "js_handler_ok ?key body log False h2"
    and marks: "\<forall>b. (b, EvMark ?key) \<in> set log \<longrightarrow> (b, EvExecutor) \<in> set log"
    by (simp_all add: js_pair_ok_def)
  have a: "h1 = JsAnswered DuplicateRequest \<longrightarrow>
            True \<notin> fst ` set log \<and> (False, EvExecutor) \<in> set log \<and> (False, EvMark ?key) \<in> set log"
  proof
    assume "h1 = JsAnswered DuplicateRequest"
    with ok1 have "True \<notin> fst ` set log" "(False, EvMark ?key) \<in> set log" by simp_all
    with marks show "True \<notin> fst ` set log \<and> (False, EvExecutor) \<in> set log
        \<and> (False, EvMark ?key) \<in> set log" by blast
  qed
  have b: "h2 = JsAnswered DuplicateRequest \<longrightarrow>
            False \<notin> fst ` set log \<and> (True, EvExecutor) \<in> set log \<and> (True, EvMark ?key) \<in> set log"
  proof
    assume "h2 = JsAnswered DuplicateRequest"
    with ok2 have "False \<notin> fst ` set log" "(True, EvMark ?key) \<in> set log" by simp_all
    with marks show "False \<notin> fst ` set log \<and> (True, EvExecutor) \<in> set log
        \<and> (True, EvMark ?key) \<in> set log" by blast
  qed
  have c: "h1 \<noteq> JsAnswered DuplicateRequest \<or> h2 \<noteq> JsAnswered DuplicateRequest"
    using a b by force
  from a b c show ?thesis by (intro conjI)
qed

lemma js_step_marked:
  assumes "forward body = Some fwd" "signature body \<noteq> []" "callData body \<noteq> []"
    and "valid_time_value (fwd_deadline fwd * 1000)"
    and "fwd_from fwd @ ''-'' @ fwd_nonce fwd \<in> processedRequests st"
  shows "js_step cfg st (JsReceived env body) =
     (st\<lparr>rateLimits := snd (js_checkRateLimit (now_checkRateLimit env) (rateLimits st) (fwd_from fwd))\<rparr>,
      JsAnswered (if fst (js_checkRateLimit (now_checkRateLimit env) (rateLimits st) (fwd_from fwd))
        then DuplicateRequest else RateLimited),
      [])"
  using assms by (simp add: js_admission_def Let_def)


lemma go_steps_relayHandler:
  "go_concurrent cfg [True, True, True, True] (s, GoReceived env req, h2, []) =
     (case relayHandler cfg env s req of
        (resp, s', evs) \<Rightarrow> (s', GoAnswered resp, h2, map (Pair True) evs))"
  by (simp add: relayHandler_def split: prod.split sum.split option.split)

lemma go_handler_ok_other:
  "go_handler_ok key req log b' h \<Longrightarrow> b' \<noteq> b \<Longrightarrow>
     go_handler_ok key req (log @ map (Pair b) evs) b' h"
  by (cases h) (auto simp: image_iff)

lemma go_step_ok:
  assumes key: "key = requestID cfg req"
    and step: "go_step cfg s h = (s', h', evs)"
    and own: "go_handler_ok key req log b h"
    and store: "isProcessed s key \<longrightarrow> EvMark key \<in> snd ` set log"
    and marks: "\<forall>b. (b, EvMark key) \<in> set log \<longrightarrow> (b, EvExecutor) \<in> set log"
  shows "go_handler_ok key req (log @ map (Pair b) evs) b h'
     \<and> (isProcessed s' key \<longrightarrow> EvMark key \<in> snd ` set (log @ map (Pair b) evs))
     \<and> (\<forall>b'. (b', EvMark key) \<in> set (log @ map (Pair b) evs)
            \<longrightarrow> (b', EvExecutor) \<in> set (log @ map (Pair b) evs))"
proof (cases h)
  case (GoReceived env req')
  with own have b: "req' = req" "b \<notin> fst ` set log" by simp_all
  obtain res s1 where g: "go_rate_gate cfg env s req = (res, s1)"
    by (cases "go_rate_gate cfg env s req")
  from go_rate_gate_store[OF g] have st: "isProcessed s1 key = isProcessed s key"
    by (simp add: isProcessed_def)
  show ?thesis
  proof (cases res)
    case None
    with g GoReceived b step have e: "s' = s1" "h' = GoLimited env req" "evs = []" by simp_all
    with b st store marks show ?thesis by simp
  next
    case (Some r)
    with g GoReceived b step have e: "s' = s1" "h' = GoAnswered r" "evs = []" by simp_all
    from go_rate_gate_not_duplicate[of cfg env s req r s1] g Some have "r \<noteq> DuplicateRequest"
      by simp
    with e st store marks show ?thesis by simp
  qed
next
  case (GoLimited env req')
  with own have b: "req' = req" "b \<notin> fst ` set log" by simp_all
  show ?thesis
  proof (cases "go_sync_gates cfg env s req")
    case None
    with GoLimited b step have e: "s' = s" "h' = GoAdmitted env req" "evs = []" by simp_all
    with b store marks show ?thesis by simp
  next
    case (Some r)
    with GoLimited b step have e: "s' = s" "h' = GoAnswered r" "evs = []" by simp_all
    have "r = DuplicateRequest \<longrightarrow> (\<not> b, EvMark key) \<in> set log"
    proof
      assume "r = DuplicateRequest"
      with Some go_sync_gates_duplicate[of cfg env s req] key have "isProcessed s key" by simp
      with store obtain b' where m: "(b', EvMark key) \<in> set log" by auto
      with b(2) have "b' \<noteq> b" by force
      with m show "(\<not> b, EvMark key) \<in> set log" by (cases b; cases b') simp_all
    qed
    with e b store marks show ?thesis by simp
  qed
next
  case (GoAdmitted env req')
  with own have b: "req' = req" "b \<notin> fst ` set log" by simp_all
  obtain res pevs where ex: "go_probe_fee_execute env req = (res, pevs)"
    by (cases "go_probe_fee_execute env req")
  note tr = go_probe_fee_execute_trace[OF ex]
  from tr have nomark: "\<And>b'. (b', EvMark key) \<notin> set (map (Pair b) pevs)"
    by (auto simp: list_ex_iff)
  show ?thesis
  proof (cases res)
    case (Inl r)
    with ex GoAdmitted b step have e: "s' = s" "h' = GoAnswered r" "evs = pevs" by simp_all
    from go_execute_not_duplicate[of env req r pevs] ex Inl have "r \<noteq> DuplicateRequest" by simp
    with e store marks nomark show ?thesis by (auto simp: image_iff)
  next
    case (Inr conf)
    obtain tx bn gu where conf: "conf = (tx, bn, gu)" by (cases conf)
    with Inr ex GoAdmitted b step have e: "s' = s" "h' = GoExecuted env req tx bn gu" "evs = pevs"
      by simp_all
    from tr Inr have "EvExecutor \<in> set pevs" by auto
    with e b store marks nomark show ?thesis by (auto simp: image_iff)
  qed
next
  case (GoExecuted env req' tx bn gu)
  with own have b: "req' = req" "(b, EvExecutor) \<in> set log" by simp_all
  from GoExecuted b step key have e: "s' = markProcessed (Now_markProcessed env) s key"
    "h' = GoAnswered (SuccessResponse tx bn gu)" "evs = [EvMark key]"
    by simp_all
  have "SuccessResponse tx bn gu \<noteq> DuplicateRequest" by (rule not_duplicate)
  with e b marks show ?thesis by (auto simp: image_iff)
next
  case (GoAnswered r)
  with step have e: "s' = s" "h' = GoAnswered r" "evs = []" by simp_all
  with own GoAnswered store marks show ?thesis by simp
qed

lemma go_concurrent_ok:
  assumes key: "key = requestID cfg req"
  shows "go_pair_ok key req c \<Longrightarrow> go_pair_ok key req (go_concurrent cfg sched c)"
proof (induction sched arbitrary: c)
  case Nil
  then show ?case by simp
next
  case (Cons b sched)
  obtain s h1 h2 log where c: "c = (s, h1, h2, log)" by (cases c)
  from Cons.prems c have
    store: "isProcessed s key \<longrightarrow> EvMark key \<in> snd ` set log"
    and ok1: "go_handler_ok key req log True h1" and ok2: "go_handler_ok key req log False h2"
    and marks: "\<forall>b. (b, EvMark key) \<in> set log \<longrightarrow> (b, EvExecutor) \<in> set log"
    by (simp_all add: go_pair_ok_def)
  show ?case
  proof (cases b)
    case True
    obtain s' h1' evs where step: "go_step cfg s h1 = (s', h1', evs)"
      by (cases "go_step cfg s h1")
    from go_step_ok[OF key step ok1 store marks]
      go_handler_ok_other[OF ok2, of True evs]
    have "go_pair_ok key req (s', h1', h2, log @ map (Pair True) evs)"
      by (simp add: go_pair_ok_def)
    from Cons.IH[OF this] True c step show ?thesis by simp
  next
    case False
    obtain s' h2' evs where step: "go_step cfg s h2 = (s', h2', evs)"
      by (cases "go_step cfg s h2")
    from go_step_ok[OF key step ok2 store marks]
      go_handler_ok_other[OF ok1, of False evs]
    have "go_pair_ok key req (s', h1, h2', log @ map (Pair False) evs)"
      by (simp add: go_pair_ok_def)
    from Cons.IH[OF this] False c step show ?thesis by simp
  qed
qed

lemma go_concurrent_duplicate:
  assumes run: "go_concurrent cfg sched (s, GoReceived env1 req, GoReceived env2 req, []) =
      (s', h1, h2, log)"
    and fresh: "\<not> isProcessed s (requestID cfg req)"
  shows "(h1 = GoAnswered DuplicateRequest \<longrightarrow>
            True \<notin> fst ` set log
            \<and> (False, EvExecutor) \<in> set log \<and> (False, EvMark (requestID cfg req)) \<in> set log)
     \<and> (h2 = GoAnswered DuplicateRequest \<longrightarrow>
            False \<notin> fst ` set log
            \<and> (True, EvExecutor) \<in> set log \<and> (True, EvMark (requestID cfg req)) \<in> set log)
     \<and> (h1 \<noteq> GoAnswered DuplicateRequest \<or> h2 \<noteq> GoAnswered DuplicateRequest)"
proof -
  let ?key = "requestID cfg req"
  from fresh have "go_pair_ok ?key req (s, GoReceived env1 req, GoReceived env2 req, [])"
    by (simp add: go_pair_ok_def)
  from go_concurrent_ok[OF refl this, of sched] run
  have ok: "go_pair_ok ?key req (s', h1, h2, log)" by simp
  then have ok1: "go_handler_ok ?key req log True h1" and ok2: "go_handler_ok ?key req log False h2"
    and marks: "\<forall>b. (b, EvMark ?key) \<in> set log \<longrightarrow> (b, EvExecutor) \<in> set log"
    by (simp_all add: go_pair_ok_def)
  have a: "h1 = GoAnswered DuplicateRequest \<longrightarrow>
            True \<notin> fst ` set log \<and> (False, EvExecutor) \<in> set log \<and> (False, EvMark ?key) \<in> set log"
  proof
    assume "h1 = GoAnswered DuplicateRequest"
    with ok1 have "True \<notin> fst ` set log" "(False, EvMark ?key) \<in> set log" by simp_all
    with marks show "True \<notin> fst ` set log \<and> (False, EvExecutor) \<in> set log
        \<and> (False, EvMark ?key) \<in> set log" by blast
  qed
  have b: "h2 = GoAnswered DuplicateRequest \<longrightarrow>
            False \<notin> fst ` set log \<and> (True, EvExecutor) \<in> set log \<and> (True, EvMark ?key) \<in> set log"
  proof
    assume "h2 = GoAnswered DuplicateRequest"
    with ok2 have "False \<notin> fst ` set log" "(True, EvMark ?key) \<in> set log" by simp_all
    with marks show "False \<notin> fst ` set log \<and> (True, EvExecutor) \<in> set log
        \<and> (True, EvMark ?key) \<in> set log" by blast
  qed
  have c: "h1 \<noteq> GoAnswered DuplicateRequest \<or> h2 \<noteq> GoAnswered DuplicateRequest"
    using a b by force
  from a b c show ?thesis by (intro conjI)
qed

lemma go_step_marked:
  assumes "isProcessed s (requestID cfg req)"
  shows "go_step cfg s (GoLimited env req) = (s, GoAnswered DuplicateRequest, [])"
  using assms by (simp add: go_sync_gates_def)


text \<open>
  Claim C1, as amended. Two requests with the same sender and nonce, whose key is not
  in the store, are handled at the same time, their steps interleaved in any order. The
  duplicate check and the mark are separate steps of a handler, with the probe, the fee
  fetch and the executor between them; they are not one atomic test-and-set. What holds
  on both servers: a handler answered \<^verbatim>\<open>DuplicateRequest\<close> has had no effect at all (no
  probe, no executor call), and the other handler has called the executor and marked
  the request before; so the two are never both answered \<^verbatim>\<open>DuplicateRequest\<close>. A handler
  whose duplicate check runs when the key is in the store is rejected there: on the
  Node server with \<^verbatim>\<open>DuplicateRequest\<close>, or \<^verbatim>\<open>RateLimited\<close> when the rate limiter, asked
  first in the same step, rejects the sender; on the Go server, whose rate limiter is
  an earlier step, with \<^verbatim>\<open>DuplicateRequest\<close>. Nothing keeps both handlers from passing
  the check before either has marked.
\<close>

theorem duplicate_check_and_mark:
  "(js_concurrent cfg sched (st, JsReceived enva body, JsReceived envb body, []) = (st', ha, hb, log)
      \<longrightarrow> forward body = Some fwd
      \<longrightarrow> fwd_from fwd @ ''-'' @ fwd_nonce fwd \<notin> processedRequests st \<longrightarrow>
        (ha = JsAnswered DuplicateRequest \<longrightarrow>
            True \<notin> fst ` set log
            \<and> (False, EvExecutor) \<in> set log
            \<and> (False, EvMark (fwd_from fwd @ ''-'' @ fwd_nonce fwd)) \<in> set log)
        \<and> (hb = JsAnswered DuplicateRequest \<longrightarrow>
            False \<notin> fst ` set log
            \<and> (True, EvExecutor) \<in> set log
            \<and> (True, EvMark (fwd_from fwd @ ''-'' @ fwd_nonce fwd)) \<in> set log)
        \<and> \<not> (ha = JsAnswered DuplicateRequest \<and> hb = JsAnswered DuplicateRequest))
   \<and> (forward body = Some fwd \<longrightarrow> signature body \<noteq> [] \<longrightarrow> callData body \<noteq> []
      \<longrightarrow> valid_time_value (fwd_deadline fwd * 1000)
      \<longrightarrow> fwd_from fwd @ ''-'' @ fwd_nonce fwd \<in> processedRequests stm \<longrightarrow>
        js_step cfg stm (JsReceived env body) =
          (stm\<lparr>rateLimits := snd (js_checkRateLimit (now_checkRateLimit env) (rateLimits stm)
                (fwd_from fwd))\<rparr>,
           JsAnswered (if fst (js_checkRateLimit (now_checkRateLimit env) (rateLimits stm)
                (fwd_from fwd)) then DuplicateRequest else RateLimited),
           []))
   \<and> (go_concurrent gcfg gsched (s, GoReceived genva req, GoReceived genvb req, []) = (s', ga, gb, glog)
      \<longrightarrow> \<not> isProcessed s (requestID gcfg req) \<longrightarrow>
        (ga = GoAnswered DuplicateRequest \<longrightarrow>
            True \<notin> fst ` set glog
            \<and> (False, EvExecutor) \<in> set glog
            \<and> (False, EvMark (requestID gcfg req)) \<in> set glog)
        \<and> (gb = GoAnswered DuplicateRequest \<longrightarrow>
            False \<notin> fst ` set glog
            \<and> (True, EvExecutor) \<in> set glog
            \<and> (True, EvMark (requestID gcfg req)) \<in> set glog)
        \<and> \<not> (ga = GoAnswered DuplicateRequest \<and> gb = GoAnswered DuplicateRequest))
   \<and> (isProcessed sm (requestID gcfg req) \<longrightarrow>
        go_step gcfg sm (GoLimited genv req) = (sm, GoAnswered DuplicateRequest, []))"
proof -
  have A: "js_concurrent cfg sched (st, JsReceived enva body, JsReceived envb body, []) = (st', ha, hb, log)
      \<longrightarrow> forward body = Some fwd
      \<longrightarrow> fwd_from fwd @ ''-'' @ fwd_nonce fwd \<notin> processedRequests st \<longrightarrow>
        (ha = JsAnswered DuplicateRequest \<longrightarrow>
            True \<notin> fst ` set log
            \<and> (False, EvExecutor) \<in> set log
            \<and> (False, EvMark (fwd_from fwd @ ''-'' @ fwd_nonce fwd)) \<in> set log)
        \<and> (hb = JsAnswered DuplicateRequest \<longrightarrow>
            False \<notin> fst ` set log
            \<and> (True, EvExecutor) \<in> set log
            \<and> (True, EvMark (fwd_from fwd @ ''-'' @ fwd_nonce fwd)) \<in> set log)
        \<and> \<not> (ha = JsAnswered DuplicateRequest \<and> hb = JsAnswered DuplicateRequest)"
  proof (intro impI)
    assume a: "js_concurrent cfg sched (st, JsReceived enva body, JsReceived envb body, []) = (st', ha, hb, log)"
      "forward body = Some fwd" "fwd_from fwd @ ''-'' @ fwd_nonce fwd \<notin> processedRequests st"
    note d = js_concurrent_duplicate[OF a]
    from d have "\<not> (ha = JsAnswered DuplicateRequest \<and> hb = JsAnswered DuplicateRequest)" by blast
    with d[THEN conjunct1] d[THEN conjunct2, THEN conjunct1]
    show "(ha = JsAnswered DuplicateRequest \<longrightarrow>
            True \<notin> fst ` set log
            \<and> (False, EvExecutor) \<in> set log
            \<and> (False, EvMark (fwd_from fwd @ ''-'' @ fwd_nonce fwd)) \<in> set log)
        \<and> (hb = JsAnswered DuplicateRequest \<longrightarrow>
            False \<notin> fst ` set log
            \<and> (True, EvExecutor) \<in> set log
            \<and> (True, EvMark (fwd_from fwd @ ''-'' @ fwd_nonce fwd)) \<in> set log)
        \<and> \<not> (ha = JsAnswered DuplicateRequest \<and> hb = JsAnswered DuplicateRequest)"
      by (intro conjI)
  qed
  have B: "forward body = Some fwd \<longrightarrow> signature body \<noteq> [] \<longrightarrow> callData body \<noteq> []
      \<longrightarrow> valid_time_value (fwd_deadline fwd * 1000)
      \<longrightarrow> fwd_from fwd @ ''-'' @ fwd_nonce fwd \<in> processedRequests stm \<longrightarrow>
        js_step cfg stm (JsReceived env body) =
          (stm\<lparr>rateLimits := snd (js_checkRateLimit (now_checkRateLimit env) (rateLimits stm)
                (fwd_from fwd))\<rparr>,
           JsAnswered (if fst (js_checkRateLimit (now_checkRateLimit env) (rateLimits stm)
                (fwd_from fwd)) then DuplicateRequest else RateLimited),
           [])"
    by (intro impI) (rule js_step_marked)
  have C: "go_concurrent gcfg gsched (s, GoReceived genva req, GoReceived genvb req, []) = (s', ga, gb, glog)
      \<longrightarrow> \<not> isProcessed s (requestID gcfg req) \<longrightarrow>
        (ga = GoAnswered DuplicateRequest \<longrightarrow>
            True \<notin> fst ` set glog
            \<and> (False, EvExecutor) \<in> set glog
            \<and> (False, EvMark (requestID gcfg req)) \<in> set glog)
        \<and> (gb = GoAnswered DuplicateRequest \<longrightarrow>
            False \<notin> fst ` set glog
            \<and> (True, EvExecutor) \<in> set glog
            \<and> (True, EvMark (requestID gcfg req)) \<in> set glog)
        \<and> \<not> (ga = GoAnswered DuplicateRequest \<and> gb = GoAnswered DuplicateRequest)"
  proof (intro impI)
    assume a: "go_concurrent gcfg gsched (s, GoReceived genva req, GoReceived genvb req, []) = (s', ga, gb, glog)"
      "\<not> isProcessed s (requestID gcfg req)"
    note d = go_concurrent_duplicate[OF a]
    from d have "\<not> (ga = GoAnswered DuplicateRequest \<and> gb = GoAnswered DuplicateRequest)" by blast
    with d[THEN conjunct1] d[THEN conjunct2, THEN conjunct1]
    show "(ga = GoAnswered DuplicateRequest \<longrightarrow>
            True \<notin> fst ` set glog
            \<and> (False, EvExecutor) \<in> set glog
            \<and> (False, EvMark (requestID gcfg req)) \<in> set glog)
        \<and> (gb = GoAnswered DuplicateRequest \<longrightarrow>
            False \<notin> fst ` set glog
            \<and> (True, EvExecutor) \<in> set glog
            \<and> (True, EvMark (requestID gcfg req)) \<in> set glog)
        \<and> \<not> (ga = GoAnswered DuplicateRequest \<and> gb = GoAnswered DuplicateRequest)"
      by (intro conjI)
  qed
  have D: "isProcessed sm (requestID gcfg req) \<longrightarrow>
        go_step gcfg sm (GoLimited genv req) = (sm, GoAnswered DuplicateRequest, [])"
    by (intro impI) (rule go_step_marked)
  from A B C D show ?thesis by (intro conjI)
qed

lemma sample_js_admitted_state:
  assumes "keccak256 env = (\<lambda>d. Inr ''0x1234'')" "now_deadline env div 1000 \<le> 1700003600"
    and "js_checkRateLimit (now_checkRateLimit env) m ''0xabc1'' = (True, m')"
    and "''0xabc1-7'' \<notin> P"
  shows "js_admission sample_js_config env \<lparr>processedRequests = P, timers = ts, rateLimits = m\<rparr>
      sample_js_body =
     (Inr (sample_js_forward, ''0xabc1-7''), \<lparr>processedRequests = P, timers = ts, rateLimits = m'\<rparr>)"
  using assms(3,4) by (simp add: sample_js_admission[OF assms(1,2)])

lemma sample_js_executed:
  assumes "minted env = Inr False" "getFeeData env = Inr (Some 30000000000)"
    "getAddress env = Inr ''0xCc03''"
    "encodeFunctionData env = Inr ''0xe0''" "isCallerAllowed env = Inr True"
    "estimateGas env = Inr 100000" "sendTransaction env = Inr ''0x7a''"
  shows "js_probe_fee_execute env sample_js_forward =
     (Inr ''0x7a'', [EvProbe, EvFeeFetch, EvExecutor, EvEstimateGas, EvSend 100000])"
  using assms
  by (simp add: js_probe_fee_execute_def executeForward_def MAX_GAS_PRICE_def sample_js_forward_def)

lemma sample_go_executed:
  assumes "checkAlreadyMinted env = Inr False" "gate_SuggestGasPrice env = Inr 30000000000"
    "Pack env = None" "PendingNonceAt env = Inr 3" "SuggestGasPrice env = Inr 30000000000"
    "EstimateGas env = Inr 100000" "SignTx env = None" "SendTransaction env = None"
    "signedTx_Hash env = ''0x7a''" "TransactionReceipt env = TransactionReceipt sample_go_env"
  shows "go_probe_fee_execute env sample_go_request =
     (Inr (''0x7a'', 42, 90000), [EvProbe, EvFeeFetch, EvExecutor, EvEstimateGas, EvSend 120000, EvWait])"
proof -
  have w: "waitForReceipt (TransactionReceipt sample_go_env) = Inr \<lparr>Status = 1, BlockNumber = 42, GasUsed = 90000\<rparr>"
    by (simp add: waitForReceipt_def sample_waitForReceipt)
  have g: "unat (go_gasLimit (Inr 100000)) = 120000"
    by (simp add: go_gasLimit_def)
  have d1: "DecodeString (TrimPrefix (Signature sample_go_request) ''0x'') = Inr [81]"
    by (simp add: sample_go_request_def TrimPrefix_def hex_digit_def)
  have d2: "DecodeString (TrimPrefix (CallData sample_go_request) ''0x'') = Inr [218, 122]"
    by (simp add: sample_go_request_def TrimPrefix_def hex_digit_def)
  have "executeMetaTransaction env sample_go_request =
     (Inr (''0x7a'', 42, 90000), [EvExecutor, EvEstimateGas, EvSend 120000, EvWait])"
    by (simp add: executeMetaTransaction_def d1 d2 w g assms Let_def)
  then show ?thesis
    by (simp add: go_probe_fee_execute_def assms MAX_GAS_PRICE_def)
qed

text \<open>Against claim C1 as stated: two requests with the same sender and nonce arrive
  200 ms apart at a server that has just started. The second passes the duplicate check
  while the first has not yet marked; the store is empty at both checks. On either
  server both handlers call the executor and send a transaction, both mark the request,
  and both are answered with success; no one is answered \<^verbatim>\<open>DuplicateRequest\<close>.\<close>

theorem both_reach_executor_counterexample:
  "js_concurrent sample_js_config [True, False, True, False, True, False, True, False]
     (js_init,
      JsReceived sample_js_env sample_js_body,
      JsReceived (sample_js_env\<lparr>now_checkRateLimit := 1700000000200, now_mark := 1700000001200\<rparr>)
        sample_js_body,
      []) =
     (\<lparr>processedRequests = {''0xabc1-7''},
       timers = [(1700000301000, ''0xabc1-7''), (1700000301200, ''0xabc1-7'')],
       rateLimits = [''0xabc1'' \<mapsto> [1700000000000, 1700000000200]]\<rparr>,
      JsAnswered (SuccessResponse ''0x7a'' 42 90000),
      JsAnswered (SuccessResponse ''0x7a'' 42 90000),
      [(True, EvProbe), (True, EvFeeFetch), (True, EvExecutor), (True, EvEstimateGas),
       (True, EvSend 100000),
       (False, EvProbe), (False, EvFeeFetch), (False, EvExecutor), (False, EvEstimateGas),
       (False, EvSend 100000),
       (True, EvMark ''0xabc1-7''), (False, EvMark ''0xabc1-7''),
       (True, EvWait), (False, EvWait)])
   \<and> go_concurrent sample_go_config [True, False, True, False, True, False, True, False]
     (go_init,
      GoReceived sample_go_env sample_go_request,
      GoReceived (sample_go_env\<lparr>Now_checkRateLimit := 1700000000200000000,
                                 Now_markProcessed := 1700000009200000000\<rparr>)
        sample_go_request,
      []) =
     (\<lparr>Server_processedRequests = [''0xabc1-7'' \<mapsto> 1700000009200000000],
       rateLimit_requests = [''0xabc1'' \<mapsto> [1700000000, 1700000000]]\<rparr>,
      GoAnswered (SuccessResponse ''0x7a'' 42 90000),
      GoAnswered (SuccessResponse ''0x7a'' 42 90000),
      [(True, EvProbe), (True, EvFeeFetch), (True, EvExecutor), (True, EvEstimateGas),
       (True, EvSend 120000), (True, EvWait),
       (False, EvProbe), (False, EvFeeFetch), (False, EvExecutor), (False, EvEstimateGas),
       (False, EvSend 120000), (False, EvWait),
       (True, EvMark ''0xabc1-7''), (False, EvMark ''0xabc1-7'')])"
proof -
  let ?e2 = "sample_js_env\<lparr>now_checkRateLimit := 1700000000200, now_mark := 1700000001200\<rparr>"
  have c1: "js_checkRateLimit (now_checkRateLimit sample_js_env) Map.empty ''0xabc1''
      = (True, [''0xabc1'' \<mapsto> [1700000000000]])"
    by (simp add: sample_js_env_def sample_js_first_check)
  have c2: "js_checkRateLimit (now_checkRateLimit ?e2) [''0xabc1'' \<mapsto> [1700000000000]] ''0xabc1''
      = (True, [''0xabc1'' \<mapsto> [1700000000000, 1700000000200]])"
    by (simp add: js_checkRateLimit_eq stamps_of_upd)
  have k: "keccak256 sample_js_env = (\<lambda>d. Inr ''0x1234'')"
    "now_deadline sample_js_env div 1000 \<le> 1700003600"
    "keccak256 ?e2 = (\<lambda>d. Inr ''0x1234'')" "now_deadline ?e2 div 1000 \<le> 1700003600"
    by (simp_all add: sample_js_env_def)
  have a1: "js_admission sample_js_config sample_js_env js_init sample_js_body =
     (Inr (sample_js_forward, ''0xabc1-7''),
      \<lparr>processedRequests = {}, timers = [], rateLimits = [''0xabc1'' \<mapsto> [1700000000000]]\<rparr>)"
    unfolding js_init_def by (rule sample_js_admitted_state[OF k(1,2) c1]) simp
  have a2: "js_admission sample_js_config ?e2
      \<lparr>processedRequests = {}, timers = [], rateLimits = [''0xabc1'' \<mapsto> [1700000000000]]\<rparr>
      sample_js_body =
     (Inr (sample_js_forward, ''0xabc1-7''),
      \<lparr>processedRequests = {}, timers = [],
       rateLimits = [''0xabc1'' \<mapsto> [1700000000000, 1700000000200]]\<rparr>)"
    by (rule sample_js_admitted_state[OF k(3,4) c2]) simp
  have x: "js_probe_fee_execute sample_js_env sample_js_forward =
     (Inr ''0x7a'', [EvProbe, EvFeeFetch, EvExecutor, EvEstimateGas, EvSend 100000])"
    "js_probe_fee_execute ?e2 sample_js_forward =
     (Inr ''0x7a'', [EvProbe, EvFeeFetch, EvExecutor, EvEstimateGas, EvSend 100000])"
    by (rule sample_js_executed; simp add: sample_js_env_def)+
  have w: "js_confirm sample_js_env ''0x7a'' = SuccessResponse ''0x7a'' 42 90000"
    "js_confirm ?e2 ''0x7a'' = SuccessResponse ''0x7a'' 42 90000"
    by (simp_all add: js_confirm_def sample_js_env_def)
  have m: "now_mark sample_js_env = 1700000001000" "now_mark ?e2 = 1700000001200"
    by (simp_all add: sample_js_env_def)
  have J: "js_concurrent sample_js_config [True, False, True, False, True, False, True, False]
     (js_init, JsReceived sample_js_env sample_js_body, JsReceived ?e2 sample_js_body, []) =
     (\<lparr>processedRequests = {''0xabc1-7''},
       timers = [(1700000301000, ''0xabc1-7''), (1700000301200, ''0xabc1-7'')],
       rateLimits = [''0xabc1'' \<mapsto> [1700000000000, 1700000000200]]\<rparr>,
      JsAnswered (SuccessResponse ''0x7a'' 42 90000),
      JsAnswered (SuccessResponse ''0x7a'' 42 90000),
      [(True, EvProbe), (True, EvFeeFetch), (True, EvExecutor), (True, EvEstimateGas),
       (True, EvSend 100000),
       (False, EvProbe), (False, EvFeeFetch), (False, EvExecutor), (False, EvEstimateGas),
       (False, EvSend 100000),
       (True, EvMark ''0xabc1-7''), (False, EvMark ''0xabc1-7''),
       (True, EvWait), (False, EvWait)])"
    by (simp add: a1 a2 x w m js_mark_def CACHE_DURATION_def)
  let ?g2 = "sample_go_env\<lparr>Now_checkRateLimit := 1700000000200000000,
                                 Now_markProcessed := 1700000009200000000\<rparr>"
  have gc: "go_checkRateLimit (Now_checkRateLimit sample_go_env) Map.empty ''0xabc1''
      = (True, [''0xabc1'' \<mapsto> [1700000000]])"
    "go_checkRateLimit (Now_checkRateLimit ?g2) [''0xabc1'' \<mapsto> [1700000000]] ''0xabc1''
      = (True, [''0xabc1'' \<mapsto> [1700000000, 1700000000]])"
    by (simp_all add: sample_go_env_def go_checkRateLimit_eq stamps_of_empty stamps_of_upd Unix_def)
  have g1: "go_rate_gate sample_go_config sample_go_env go_init sample_go_request =
      (None, \<lparr>Server_processedRequests = Map.empty,
              rateLimit_requests = [''0xabc1'' \<mapsto> [1700000000]]\<rparr>)"
    by (simp add: sample_go_rate_gate go_init_def gc)
  have g2: "go_rate_gate sample_go_config ?g2
      \<lparr>Server_processedRequests = Map.empty, rateLimit_requests = [''0xabc1'' \<mapsto> [1700000000]]\<rparr>
      sample_go_request =
      (None, \<lparr>Server_processedRequests = Map.empty,
              rateLimit_requests = [''0xabc1'' \<mapsto> [1700000000, 1700000000]]\<rparr>)"
    using gc(2) by (simp add: sample_go_rate_gate)
  have dl: "Unix (Now_deadline sample_go_env) \<le> 1700003600" "Unix (Now_deadline ?g2) \<le> 1700003600"
    by (simp_all add: sample_go_env_def Unix_def)
  have sy: "\<And>s. go_sync_gates sample_go_config sample_go_env s sample_go_request =
      (if isProcessed s ''0xabc1-7'' then Some DuplicateRequest else None)"
    "\<And>s. go_sync_gates sample_go_config ?g2 s sample_go_request =
      (if isProcessed s ''0xabc1-7'' then Some DuplicateRequest else None)"
    by (rule sample_go_sync_gates[OF dl(1)], rule sample_go_sync_gates[OF dl(2)])
  have gx: "go_probe_fee_execute ?g2 sample_go_request =
      (Inr (''0x7a'', 42, 90000), [EvProbe, EvFeeFetch, EvExecutor, EvEstimateGas, EvSend 120000, EvWait])"
    by (rule sample_go_executed) (simp_all add: sample_go_env_def)
  have gm: "Now_markProcessed sample_go_env = 1700000009000000000"
    "Now_markProcessed ?g2 = 1700000009200000000"
    by (simp_all add: sample_go_env_def)
  have G: "go_concurrent sample_go_config [True, False, True, False, True, False, True, False]
     (go_init, GoReceived sample_go_env sample_go_request, GoReceived ?g2 sample_go_request, []) =
     (\<lparr>Server_processedRequests = [''0xabc1-7'' \<mapsto> 1700000009200000000],
       rateLimit_requests = [''0xabc1'' \<mapsto> [1700000000, 1700000000]]\<rparr>,
      GoAnswered (SuccessResponse ''0x7a'' 42 90000),
      GoAnswered (SuccessResponse ''0x7a'' 42 90000),
      [(True, EvProbe), (True, EvFeeFetch), (True, EvExecutor), (True, EvEstimateGas),
       (True, EvSend 120000), (True, EvWait),
       (False, EvProbe), (False, EvFeeFetch), (False, EvExecutor), (False, EvEstimateGas),
       (False, EvSend 120000), (False, EvWait),
       (True, EvMark ''0xabc1-7''), (False, EvMark ''0xabc1-7'')])"
    by (simp add: g1 g2 sy gx sample_go_execute gm sample_requestID isProcessed_def markProcessed_def)
  from J G show ?thesis by (rule conjI)
qed


lemma js_concurrent_append:
  "js_concurrent cfg (xs @ ys) c = js_concurrent cfg ys (js_concurrent cfg xs c)"
proof (induction xs arbitrary: c)
  case Nil
  then show ?case by simp
next
  case (Cons b xs)
  obtain st h1 h2 log where c: "c = (st, h1, h2, log)" by (cases c)
  with Cons show ?case by (cases b) (simp_all split: prod.splits)
qed

lemma go_concurrent_append:
  "go_concurrent cfg (xs @ ys) c = go_concurrent cfg ys (go_concurrent cfg xs c)"
proof (induction xs arbitrary: c)
  case Nil
  then show ?case by simp
next
  case (Cons b xs)
  obtain s h1 h2 log where c: "c = (s, h1, h2, log)" by (cases c)
  with Cons show ?case by (cases b) (simp_all split: prod.splits)
qed

theorem duplicate_check_and_mark_witness:
  "js_concurrent sample_js_config [True, True, True, True, False]
     (js_init,
      JsReceived sample_js_env sample_js_body,
      JsReceived (sample_js_env\<lparr>now_checkRateLimit := 1700000003000\<rparr>) sample_js_body,
      []) =
     (\<lparr>processedRequests = {''0xabc1-7''}, timers = [(1700000301000, ''0xabc1-7'')],
       rateLimits = [''0xabc1'' \<mapsto> [1700000000000, 1700000003000]]\<rparr>,
      JsAnswered (SuccessResponse ''0x7a'' 42 90000),
      JsAnswered DuplicateRequest,
      [(True, EvProbe), (True, EvFeeFetch), (True, EvExecutor), (True, EvEstimateGas),
       (True, EvSend 100000), (True, EvMark ''0xabc1-7''), (True, EvWait)])
   \<and> False \<notin> fst ` set [(True, EvProbe), (True, EvFeeFetch), (True, EvExecutor),
       (True, EvEstimateGas), (True, EvSend 100000), (True, EvMark ''0xabc1-7''), (True, EvWait)]
   \<and> (True, EvMark ''0xabc1-7'') \<in> set [(True, EvProbe), (True, EvFeeFetch), (True, EvExecutor),
       (True, EvEstimateGas), (True, EvSend 100000), (True, EvMark ''0xabc1-7''), (True, EvWait)]
   \<and> js_step sample_js_config
       \<lparr>processedRequests = {''0xabc1-7''}, timers = [(1700000301000, ''0xabc1-7'')],
        rateLimits = [''0xabc1'' \<mapsto> [1700000000000]]\<rparr>
       (JsReceived (sample_js_env\<lparr>now_checkRateLimit := 1700000003000\<rparr>) sample_js_body) =
     (\<lparr>processedRequests = {''0xabc1-7''}, timers = [(1700000301000, ''0xabc1-7'')],
       rateLimits = [''0xabc1'' \<mapsto> [1700000000000, 1700000003000]]\<rparr>,
      JsAnswered DuplicateRequest, [])
   \<and> go_concurrent sample_go_config [True, True, True, True, False, False]
     (go_init,
      GoReceived sample_go_env sample_go_request,
      GoReceived (sample_go_env\<lparr>Now_checkRateLimit := 1700000012000000000\<rparr>) sample_go_request,
      []) =
     (\<lparr>Server_processedRequests = [''0xabc1-7'' \<mapsto> 1700000009000000000],
       rateLimit_requests = [''0xabc1'' \<mapsto> [1700000000, 1700000012]]\<rparr>,
      GoAnswered (SuccessResponse ''0x7a'' 42 90000),
      GoAnswered DuplicateRequest,
      [(True, EvProbe), (True, EvFeeFetch), (True, EvExecutor), (True, EvEstimateGas),
       (True, EvSend 120000), (True, EvWait), (True, EvMark ''0xabc1-7'')])
   \<and> False \<notin> fst ` set [(True, EvProbe), (True, EvFeeFetch), (True, EvExecutor),
       (True, EvEstimateGas), (True, EvSend 120000), (True, EvWait), (True, EvMark ''0xabc1-7'')]
   \<and> (True, EvMark ''0xabc1-7'') \<in> set [(True, EvProbe), (True, EvFeeFetch), (True, EvExecutor),
       (True, EvEstimateGas), (True, EvSend 120000), (True, EvWait), (True, EvMark ''0xabc1-7'')]
   \<and> go_step sample_go_config
       \<lparr>Server_processedRequests = [''0xabc1-7'' \<mapsto> 1700000009000000000],
        rateLimit_requests = [''0xabc1'' \<mapsto> [1700000000, 1700000012]]\<rparr>
       (GoLimited (sample_go_env\<lparr>Now_checkRateLimit := 1700000012000000000\<rparr>) sample_go_request) =
     (\<lparr>Server_processedRequests = [''0xabc1-7'' \<mapsto> 1700000009000000000],
       rateLimit_requests = [''0xabc1'' \<mapsto> [1700000000, 1700000012]]\<rparr>,
      GoAnswered DuplicateRequest, [])"
proof -
  let ?e2 = "sample_js_env\<lparr>now_checkRateLimit := 1700000003000\<rparr>"
  let ?st1 = "\<lparr>processedRequests = {''0xabc1-7''}, timers = [(1700000301000, ''0xabc1-7'')],
       rateLimits = [''0xabc1'' \<mapsto> [1700000000000]]\<rparr>"
  let ?st2 = "\<lparr>processedRequests = {''0xabc1-7''}, timers = [(1700000301000, ''0xabc1-7'')],
       rateLimits = [''0xabc1'' \<mapsto> [1700000000000, 1700000003000]]\<rparr>"
  let ?log = "[(True, EvProbe), (True, EvFeeFetch), (True, EvExecutor), (True, EvEstimateGas),
       (True, EvSend 100000), (True, EvMark ''0xabc1-7''), (True, EvWait)]"
  let ?g2 = "sample_go_env\<lparr>Now_checkRateLimit := 1700000012000000000\<rparr>"
  let ?s1 = "\<lparr>Server_processedRequests = [''0xabc1-7'' \<mapsto> 1700000009000000000],
       rateLimit_requests = [''0xabc1'' \<mapsto> [1700000000]]\<rparr>"
  let ?s2 = "\<lparr>Server_processedRequests = [''0xabc1-7'' \<mapsto> 1700000009000000000],
       rateLimit_requests = [''0xabc1'' \<mapsto> [1700000000, 1700000012]]\<rparr>"
  let ?glog = "[(True, EvProbe), (True, EvFeeFetch), (True, EvExecutor), (True, EvEstimateGas),
       (True, EvSend 120000), (True, EvWait), (True, EvMark ''0xabc1-7'')]"
  note T = duplicate_check_and_mark[where cfg = sample_js_config
      and sched = "[True, True, True, True, False]" and st = js_init
      and enva = sample_js_env and envb = ?e2 and body = sample_js_body
      and st' = ?st2 and ha = "JsAnswered (SuccessResponse ''0x7a'' 42 90000)"
      and hb = "JsAnswered DuplicateRequest" and log = ?log and fwd = sample_js_forward
      and stm = ?st1 and env = ?e2
      and gcfg = sample_go_config and gsched = "[True, True, True, True, False, False]"
      and s = go_init and genva = sample_go_env and genvb = ?g2 and req = sample_go_request
      and s' = ?s2 and ga = "GoAnswered (SuccessResponse ''0x7a'' 42 90000)"
      and gb = "GoAnswered DuplicateRequest" and glog = ?glog and sm = ?s2 and genv = ?g2]
  have k: "keccak256 ?e2 = (\<lambda>d. Inr ''0x1234'')" "now_deadline ?e2 div 1000 \<le> 1700003600"
    by (simp_all add: sample_js_env_def)
  have a2: "js_admission sample_js_config ?e2 ?st1 sample_js_body = (Inl DuplicateRequest, ?st2)"
    by (simp add: sample_js_admission[OF k] js_checkRateLimit_eq stamps_of_upd)
  have j4: "js_concurrent sample_js_config [True, True, True, True]
      (js_init, JsReceived sample_js_env sample_js_body, JsReceived ?e2 sample_js_body, []) =
      (?st1, JsAnswered (SuccessResponse ''0x7a'' 42 90000), JsReceived ?e2 sample_js_body,
       map (Pair True) [EvProbe, EvFeeFetch, EvExecutor, EvEstimateGas, EvSend 100000,
         EvMark ''0xabc1-7'', EvWait])"
    by (simp only: js_steps_relay sample_js_relay prod.case)
  have h1: "js_concurrent sample_js_config [True, True, True, True, False]
      (js_init, JsReceived sample_js_env sample_js_body, JsReceived ?e2 sample_js_body, []) =
      (?st2, JsAnswered (SuccessResponse ''0x7a'' 42 90000), JsAnswered DuplicateRequest, ?log)"
  proof -
    have "js_concurrent sample_js_config [False]
        (?st1, JsAnswered (SuccessResponse ''0x7a'' 42 90000), JsReceived ?e2 sample_js_body,
         map (Pair True) [EvProbe, EvFeeFetch, EvExecutor, EvEstimateGas, EvSend 100000,
           EvMark ''0xabc1-7'', EvWait]) =
        (?st2, JsAnswered (SuccessResponse ''0x7a'' 42 90000), JsAnswered DuplicateRequest, ?log)"
      by (simp add: a2)
    with j4 js_concurrent_append[of sample_js_config "[True, True, True, True]" "[False]"
        "(js_init, JsReceived sample_js_env sample_js_body, JsReceived ?e2 sample_js_body, [])"]
    show ?thesis by (simp only: append.simps)
  qed
  have h2: "forward sample_js_body = Some sample_js_forward"
    by (simp add: sample_js_body_def)
  have h3: "fwd_from sample_js_forward @ ''-'' @ fwd_nonce sample_js_forward \<notin> processedRequests js_init"
    by (simp add: js_init_def)
  have h4: "signature sample_js_body \<noteq> []" "callData sample_js_body \<noteq> []"
    "valid_time_value (fwd_deadline sample_js_forward * 1000)"
    "fwd_from sample_js_forward @ ''-'' @ fwd_nonce sample_js_forward \<in> processedRequests ?st1"
    by (simp_all add: sample_js_body_def sample_js_forward_def valid_time_value_def)
  note J = T[THEN conjunct1, THEN mp, OF h1, THEN mp, OF h2, THEN mp, OF h3,
      THEN conjunct2, THEN conjunct1, THEN mp, OF refl]
  note S = T[THEN conjunct2, THEN conjunct1, THEN mp, OF h2, THEN mp, OF h4(1), THEN mp, OF h4(2),
      THEN mp, OF h4(3), THEN mp, OF h4(4)]
  have fj: "fwd_from sample_js_forward = ''0xabc1''" "fwd_nonce sample_js_forward = ''7''"
    by (simp_all add: sample_js_forward_def)
  from J have J1: "False \<notin> fst ` set ?log" and J2: "(True, EvMark ''0xabc1-7'') \<in> set ?log"
    by (simp_all add: fj)
  from S have S1: "js_step sample_js_config ?st1 (JsReceived ?e2 sample_js_body) =
      (?st2, JsAnswered DuplicateRequest, [])"
    by (simp add: fj js_checkRateLimit_eq stamps_of_upd del: js_step.simps)
  have gd: "Unix (Now_deadline ?g2) \<le> 1700003600"
    by (simp add: sample_go_env_def Unix_def)
  have g4: "go_concurrent sample_go_config [True, True, True, True]
      (go_init, GoReceived sample_go_env sample_go_request, GoReceived ?g2 sample_go_request, []) =
      (?s1, GoAnswered (SuccessResponse ''0x7a'' 42 90000), GoReceived ?g2 sample_go_request,
       map (Pair True) [EvProbe, EvFeeFetch, EvExecutor, EvEstimateGas, EvSend 120000, EvWait,
         EvMark ''0xabc1-7''])"
    by (simp only: go_steps_relayHandler sample_relayHandler prod.case)
  have gr: "go_rate_gate sample_go_config ?g2 ?s1 sample_go_request = (None, ?s2)"
    by (simp add: sample_go_rate_gate go_checkRateLimit_eq stamps_of_upd Unix_def)
  have gs: "go_sync_gates sample_go_config ?g2 ?s2 sample_go_request = Some DuplicateRequest"
    by (simp add: sample_go_sync_gates[OF gd] isProcessed_def)
  have i1: "go_concurrent sample_go_config [True, True, True, True, False, False]
      (go_init, GoReceived sample_go_env sample_go_request, GoReceived ?g2 sample_go_request, []) =
      (?s2, GoAnswered (SuccessResponse ''0x7a'' 42 90000), GoAnswered DuplicateRequest, ?glog)"
  proof -
    have "go_concurrent sample_go_config [False, False]
        (?s1, GoAnswered (SuccessResponse ''0x7a'' 42 90000), GoReceived ?g2 sample_go_request,
         map (Pair True) [EvProbe, EvFeeFetch, EvExecutor, EvEstimateGas, EvSend 120000, EvWait,
           EvMark ''0xabc1-7'']) =
        (?s2, GoAnswered (SuccessResponse ''0x7a'' 42 90000), GoAnswered DuplicateRequest, ?glog)"
      by (simp add: gr gs)
    with g4 go_concurrent_append[of sample_go_config "[True, True, True, True]" "[False, False]"
        "(go_init, GoReceived sample_go_env sample_go_request, GoReceived ?g2 sample_go_request, [])"]
    show ?thesis by (simp only: append.simps)
  qed
  have i2: "\<not> isProcessed go_init (requestID sample_go_config sample_go_request)"
    by (simp add: isProcessed_def go_init_def)
  have i3: "isProcessed ?s2 (requestID sample_go_config sample_go_request)"
    by (simp add: isProcessed_def sample_requestID)
  note G = T[THEN conjunct2, THEN conjunct2, THEN conjunct1, THEN mp, OF i1, THEN mp, OF i2,
      THEN conjunct2, THEN conjunct1, THEN mp, OF refl]
  note GS = T[THEN conjunct2, THEN conjunct2, THEN conjunct2, THEN mp, OF i3]
  from G have G1: "False \<notin> fst ` set ?glog" and G2: "(True, EvMark ''0xabc1-7'') \<in> set ?glog"
    by (simp_all add: sample_requestID)
  from h1 J1 J2 S1 i1 G1 G2 GS show ?thesis by (intro conjI)
qed

section \<open>The rate limiter in the handlers\<close>
















section \<open>Replays within the retention window\<close>


lemma js_run_append:
  "js_run cfg (xs @ ys) c = js_run cfg ys (js_run cfg xs c)"
  by (induction xs arbitrary: c) simp_all

lemma go_run_append:
  "go_run cfg (xs @ ys) c = go_run cfg ys (go_run cfg xs c)"
  by (induction xs arbitrary: c) simp_all





subsection \<open>The Node server\<close>






subsection \<open>The Go server\<close>

















end
